theory Spec2Isabelle
  imports Main
begin

section \<open>Data model\<close>

text \<open>
  Instants (JavaScript \<^verbatim>\<open>Date\<close>, Firestore \<^verbatim>\<open>Timestamp\<close>) are integer
  milliseconds since the epoch; odometer readings are integers. An optional field of a
  document is an \<open>option\<close>; \<open>None\<close> is \<^verbatim>\<open>undefined\<close>.
  The record \<open>truck\<close> is the \<^verbatim>\<open>Truck\<close> interface of
  \<^verbatim>\<open>src/types/index.ts\<close>, restricted to the fields the maintenance checks, the
  digest and the clearance workflow read or write. The field \<^verbatim>\<open>id\<close> is called
  \<open>docId\<close> here.
\<close>

datatype serviceStatus = InService | OutOfService

record truck =
  docId :: string
  unitNumber :: string
  status :: serviceStatus
  outOfServiceReason :: "string option"
  mileage :: int
  lastOilChange :: "int option"
  lastOilChangeMileage :: "int option"
  inspectionStickerExpiry :: "int option"
  oemsInspectionExpiry :: "int option"
  lastBrakeChange :: "int option"
  lastBrakeChangeMileage :: "int option"
  lastTireChange :: "int option"
  lastTireChangeMileage :: "int option"
  lastMaintenanceAlertSent :: "int option"
  alertsCleared :: "(string \<rightharpoonup> int) option"
  updatedAt :: int
  updatedBy :: string

text \<open>
  A thrown JavaScript exception is a value. \<open>TypeError\<close> is what reading a property of
  \<^verbatim>\<open>undefined\<close> throws; \<open>Error m\<close> is \<^verbatim>\<open>new Error(m)\<close>.
\<close>

datatype jsError = TypeError string | Error string

datatype priority = overdue | dueSoon

text \<open>
  The message of an alert is a template string. Its interpolated values are kept, the
  locale formatting (\<^verbatim>\<open>toLocaleString\<close>, \<^verbatim>\<open>formatDate\<close>) is not:
  \<open>OverdueBy milesOverdue last lastDate next\<close> is
  \<^verbatim>\<open>Overdue by ${milesOverdue} miles. Last changed at ${last} on ${lastDate}. Next due at ${next} miles.\<close>,
  \<open>DueIn\<close>, \<open>ExpiredOn\<close> and \<open>ExpiresIn\<close> likewise. \<^verbatim>\<open>formatDate\<close> accepts an
  absent date (it prints N/A), so the date of the last service stays an \<open>option\<close>.
\<close>

datatype message =
    OverdueBy int int "int option" int
  | DueIn int int "int option" int
  | ExpiredOn int
  | ExpiresIn int int

text \<open>
  An alert of \<^verbatim>\<open>functions/index.js\<close>. Its \<^verbatim>\<open>type\<close> is the display title; the
  leading emoji of the title is left out.
\<close>

record alert =
  atype :: string
  message :: message
  priority :: priority

section \<open>Rule evaluation: \<^verbatim>\<open>checkMaintenanceDue\<close>\<close>

definition dayMs :: int where
  "dayMs = 1000 * 60 * 60 * 24"

text \<open>\<^verbatim>\<open>x || 0\<close> on an optional number.\<close>

definition orZero :: "int option \<Rightarrow> int" where
  "orZero x = (case x of None \<Rightarrow> 0 | Some v \<Rightarrow> v)"

text \<open>
  \<^verbatim>\<open>Math.ceil((d - now) / (1000 * 60 * 60 * 24))\<close>: the ceiling of the quotient. The
  operands are integers far below \<open>2^53\<close>, where the floating-point quotient has the
  ceiling of the exact one.
\<close>

definition daysUntil :: "int \<Rightarrow> int \<Rightarrow> int" where
  "daysUntil d now = - ((now - d) div dayMs)"

definition sevenDaysAgoOf :: "int \<Rightarrow> int" where
  "sevenDaysAgoOf now = now - 7 * 24 * 60 * 60 * 1000"

definition isAlertClearedRecently :: "truck \<Rightarrow> int \<Rightarrow> string \<Rightarrow> bool" where
  "isAlertClearedRecently truck sevenDaysAgo alertType =
     (case alertsCleared truck of
        None \<Rightarrow> False
      | Some cl \<Rightarrow>
          (case cl alertType of
             None \<Rightarrow> False
           | Some cleared \<Rightarrow> cleared > sevenDaysAgo))"

definition undefinedToLocaleString :: jsError where
  "undefinedToLocaleString =
     TypeError ''Cannot read properties of undefined (reading 'toLocaleString')''"

text \<open>
  Each check returns the alerts it pushes and whether it sets \<^verbatim>\<open>hasOverdue\<close>. The
  message of a mileage alert calls \<^verbatim>\<open>toLocaleString\<close> on the stored last-service
  mileage itself, not on the defaulted value: on an absent field that call throws.
\<close>

definition oilChangeCheck :: "truck \<Rightarrow> int \<Rightarrow> jsError + (alert list \<times> bool)" where
  "oilChangeCheck truck sevenDaysAgo =
     (let nextOilChangeMileage = orZero (lastOilChangeMileage truck) + 5000 in
      if mileage truck \<ge> nextOilChangeMileage
         \<and> \<not> isAlertClearedRecently truck sevenDaysAgo ''oilChange'' then
        (let milesOverdue = mileage truck - nextOilChangeMileage in
         case lastOilChangeMileage truck of
           None \<Rightarrow> Inl undefinedToLocaleString
         | Some l \<Rightarrow>
             Inr ([\<lparr>atype = ''Oil Change'',
                    message = OverdueBy milesOverdue l (lastOilChange truck) nextOilChangeMileage,
                    priority = overdue\<rparr>], True))
      else if mileage truck \<ge> nextOilChangeMileage - 500
         \<and> \<not> isAlertClearedRecently truck sevenDaysAgo ''oilChange'' then
        (case lastOilChangeMileage truck of
           None \<Rightarrow> Inl undefinedToLocaleString
         | Some l \<Rightarrow>
             Inr ([\<lparr>atype = ''Oil Change'',
                    message = DueIn (nextOilChangeMileage - mileage truck) l
                                (lastOilChange truck) nextOilChangeMileage,
                    priority = dueSoon\<rparr>], False))
      else Inr ([], False))"

text \<open>
  The two date checks read the clock again (\<^verbatim>\<open>new Date()\<close>); \<open>nowRead\<close> is the value
  of that read.
\<close>

definition inspectionCheck :: "truck \<Rightarrow> int \<Rightarrow> int \<Rightarrow> alert list \<times> bool" where
  "inspectionCheck truck sevenDaysAgo nowRead =
     (case inspectionStickerExpiry truck of
        None \<Rightarrow> ([], False)
      | Some inspectionDate \<Rightarrow>
          if isAlertClearedRecently truck sevenDaysAgo ''inspection'' then ([], False)
          else
            (let daysUntilExpiry = daysUntil inspectionDate nowRead in
             if daysUntilExpiry \<le> 0 then
               ([\<lparr>atype = ''WV Inspection'', message = ExpiredOn inspectionDate,
                  priority = overdue\<rparr>], True)
             else if daysUntilExpiry \<le> 30 then
               ([\<lparr>atype = ''WV Inspection'',
                  message = ExpiresIn daysUntilExpiry inspectionDate,
                  priority = dueSoon\<rparr>], False)
             else ([], False)))"

definition oemsInspectionCheck :: "truck \<Rightarrow> int \<Rightarrow> int \<Rightarrow> alert list \<times> bool" where
  "oemsInspectionCheck truck sevenDaysAgo nowRead =
     (case oemsInspectionExpiry truck of
        None \<Rightarrow> ([], False)
      | Some oemsDate \<Rightarrow>
          if isAlertClearedRecently truck sevenDaysAgo ''oemsInspection'' then ([], False)
          else
            (let daysUntilOemsExpiry = daysUntil oemsDate nowRead in
             if daysUntilOemsExpiry \<le> 0 then
               ([\<lparr>atype = ''OEMS Inspection'', message = ExpiredOn oemsDate,
                  priority = overdue\<rparr>], True)
             else if daysUntilOemsExpiry \<le> 30 then
               ([\<lparr>atype = ''OEMS Inspection'',
                  message = ExpiresIn daysUntilOemsExpiry oemsDate,
                  priority = dueSoon\<rparr>], False)
             else ([], False)))"

definition brakeChangeCheck :: "truck \<Rightarrow> int \<Rightarrow> jsError + (alert list \<times> bool)" where
  "brakeChangeCheck truck sevenDaysAgo =
     (let nextBrakeChangeMileage = orZero (lastBrakeChangeMileage truck) + 25000 in
      if mileage truck \<ge> nextBrakeChangeMileage
         \<and> \<not> isAlertClearedRecently truck sevenDaysAgo ''brakeChange'' then
        (let milesOverdue = mileage truck - nextBrakeChangeMileage in
         case lastBrakeChangeMileage truck of
           None \<Rightarrow> Inl undefinedToLocaleString
         | Some l \<Rightarrow>
             Inr ([\<lparr>atype = ''Brake Service'',
                    message = OverdueBy milesOverdue l (lastBrakeChange truck)
                                nextBrakeChangeMileage,
                    priority = overdue\<rparr>], milesOverdue > 1000))
      else if mileage truck \<ge> nextBrakeChangeMileage - 2500
         \<and> \<not> isAlertClearedRecently truck sevenDaysAgo ''brakeChange'' then
        (case lastBrakeChangeMileage truck of
           None \<Rightarrow> Inl undefinedToLocaleString
         | Some l \<Rightarrow>
             Inr ([\<lparr>atype = ''Brake Service'',
                    message = DueIn (nextBrakeChangeMileage - mileage truck) l
                                (lastBrakeChange truck) nextBrakeChangeMileage,
                    priority = dueSoon\<rparr>], False))
      else Inr ([], False))"

definition tireChangeCheck :: "truck \<Rightarrow> int \<Rightarrow> jsError + (alert list \<times> bool)" where
  "tireChangeCheck truck sevenDaysAgo =
     (let nextTireChangeMileage = orZero (lastTireChangeMileage truck) + 40000 in
      if mileage truck \<ge> nextTireChangeMileage
         \<and> \<not> isAlertClearedRecently truck sevenDaysAgo ''tireChange'' then
        (let milesOverdue = mileage truck - nextTireChangeMileage in
         case lastTireChangeMileage truck of
           None \<Rightarrow> Inl undefinedToLocaleString
         | Some l \<Rightarrow>
             Inr ([\<lparr>atype = ''Tire Service'',
                    message = OverdueBy milesOverdue l (lastTireChange truck)
                                nextTireChangeMileage,
                    priority = overdue\<rparr>], milesOverdue > 2000))
      else if mileage truck \<ge> nextTireChangeMileage - 4000
         \<and> \<not> isAlertClearedRecently truck sevenDaysAgo ''tireChange'' then
        (case lastTireChangeMileage truck of
           None \<Rightarrow> Inl undefinedToLocaleString
         | Some l \<Rightarrow>
             Inr ([\<lparr>atype = ''Tire Service'',
                    message = DueIn (nextTireChangeMileage - mileage truck) l
                                (lastTireChange truck) nextTireChangeMileage,
                    priority = dueSoon\<rparr>], False))
      else Inr ([], False))"

text \<open>
  The five checks in the order of the source; the first exception ends the evaluation.
  The result is the final \<^verbatim>\<open>maintenanceAlerts\<close> and \<^verbatim>\<open>hasOverdue\<close>.
\<close>

definition maintenanceAlertsOf ::
  "truck \<Rightarrow> int \<Rightarrow> int \<Rightarrow> int \<Rightarrow> jsError + (alert list \<times> bool)" where
  "maintenanceAlertsOf truck sevenDaysAgo nowInspection nowOems =
     (case oilChangeCheck truck sevenDaysAgo of
        Inl e \<Rightarrow> Inl e
      | Inr (oil, hOil) \<Rightarrow>
          (let (insp, hInsp) = inspectionCheck truck sevenDaysAgo nowInspection;
               (oems, hOems) = oemsInspectionCheck truck sevenDaysAgo nowOems
           in (case brakeChangeCheck truck sevenDaysAgo of
                 Inl e \<Rightarrow> Inl e
               | Inr (brake, hBrake) \<Rightarrow>
                   (case tireChangeCheck truck sevenDaysAgo of
                      Inl e \<Rightarrow> Inl e
                    | Inr (tire, hTire) \<Rightarrow>
                        Inr (oil @ insp @ oems @ brake @ tire,
                             hOil \<or> hInsp \<or> hOems \<or> hBrake \<or> hTire)))))"

text \<open>
  The clock of one pass: \<open>passStart\<close> is the read at the top of
  \<^verbatim>\<open>checkMaintenanceDue\<close>, from which \<^verbatim>\<open>sevenDaysAgo\<close> is taken;
  \<open>dateRead d k\<close> is the read inside the date check \<open>k\<close> of the truck with document
  id \<open>d\<close>; \<open>updateRead d\<close> is the read that stamps
  \<^verbatim>\<open>lastMaintenanceAlertSent\<close> of that truck after a send.
\<close>

record clock =
  passStart :: int
  dateRead :: "string \<Rightarrow> string \<Rightarrow> int"
  updateRead :: "string \<Rightarrow> int"

text \<open>\<^verbatim>\<open>{ ...truck, alerts: maintenanceAlerts, hasOverdue }\<close>\<close>

record truckWithMaintenance =
  theTruck :: truck
  alerts :: "alert list"
  hasOverdue :: bool

text \<open>The batch gate of one truck, without the test-mode flag.\<close>

definition alertedRecently :: "truck \<Rightarrow> int \<Rightarrow> bool" where
  "alertedRecently truck sevenDaysAgo =
     (case lastMaintenanceAlertSent truck of
        None \<Rightarrow> False
      | Some lastAlertDate \<Rightarrow> lastAlertDate > sevenDaysAgo)"

text \<open>
  One iteration of the loop over the trucks: \<open>Inr None\<close> when the truck is skipped or
  not pushed, \<open>Inr (Some e)\<close> when \<open>e\<close> is pushed, \<open>Inl\<close> when the body throws.
\<close>

definition checkTruck ::
  "bool \<Rightarrow> clock \<Rightarrow> truck \<Rightarrow> jsError + truckWithMaintenance option" where
  "checkTruck testMode clk truck =
     (let sevenDaysAgo = sevenDaysAgoOf (passStart clk) in
      if \<not> testMode \<and> alertedRecently truck sevenDaysAgo then Inr None
      else
        (case maintenanceAlertsOf truck sevenDaysAgo
                (dateRead clk (docId truck) ''inspection'')
                (dateRead clk (docId truck) ''oemsInspection'') of
           Inl e \<Rightarrow> Inl e
         | Inr (maintenanceAlerts, hasOv) \<Rightarrow>
             if length maintenanceAlerts > 0 \<or> status truck = OutOfService then
               Inr (Some \<lparr>theTruck = truck, alerts = maintenanceAlerts, hasOverdue = hasOv\<rparr>)
             else Inr None))"

fun checkLoop ::
  "bool \<Rightarrow> clock \<Rightarrow> truck list \<Rightarrow> truckWithMaintenance list
     \<Rightarrow> jsError + truckWithMaintenance list" where
  "checkLoop testMode clk [] trucksWithMaintenance = Inr trucksWithMaintenance"
| "checkLoop testMode clk (truck # rest) trucksWithMaintenance =
     (case checkTruck testMode clk truck of
        Inl e \<Rightarrow> Inl e
      | Inr None \<Rightarrow> checkLoop testMode clk rest trucksWithMaintenance
      | Inr (Some e) \<Rightarrow> checkLoop testMode clk rest (trucksWithMaintenance @ [e]))"

text \<open>
  \<open>trucks\<close> is the snapshot of the collection, in document order. The outer
  \<^verbatim>\<open>catch\<close> logs and rethrows, so an exception of the loop is the result.
\<close>

definition checkMaintenanceDue ::
  "bool \<Rightarrow> clock \<Rightarrow> truck list \<Rightarrow> jsError + truckWithMaintenance list" where
  "checkMaintenanceDue testMode clk trucks = checkLoop testMode clk trucks []"

text \<open>The alerts of one title in an alert list.\<close>

definition alertsTitled :: "string \<Rightarrow> alert list \<Rightarrow> alert list" where
  "alertsTitled title as = filter (\<lambda>a. atype a = title) as"

section \<open>The on-screen copy of the rules: \<^verbatim>\<open>getMaintenanceAlerts\<close>\<close>

text \<open>
  The truck card of the dashboard evaluates the same rules for one truck. Its alerts carry
  the key of the kind as \<^verbatim>\<open>type\<close> and the display title as \<^verbatim>\<open>title\<close>; it
  reads the clock once, and the date checks use that read. The helper
  \<^verbatim>\<open>isAlertClearedRecently\<close> of the card makes the same comparison as the one of the
  pass.
\<close>

record alertInfo =
  infoType :: string
  infoTitle :: string
  infoMessage :: message
  infoPriority :: priority

definition cardOilChangeCheck :: "truck \<Rightarrow> int \<Rightarrow> jsError + alertInfo list" where
  "cardOilChangeCheck truck sevenDaysAgo =
     (let nextOilChangeMileage = orZero (lastOilChangeMileage truck) + 5000 in
      if mileage truck \<ge> nextOilChangeMileage
         \<and> \<not> isAlertClearedRecently truck sevenDaysAgo ''oilChange'' then
        (let milesOverdue = mileage truck - nextOilChangeMileage in
         case lastOilChangeMileage truck of
           None \<Rightarrow> Inl undefinedToLocaleString
         | Some l \<Rightarrow>
             Inr [\<lparr>infoType = ''oilChange'', infoTitle = ''Oil Change'',
                   infoMessage = OverdueBy milesOverdue l (lastOilChange truck)
                                   nextOilChangeMileage,
                   infoPriority = overdue\<rparr>])
      else if mileage truck \<ge> nextOilChangeMileage - 500
         \<and> \<not> isAlertClearedRecently truck sevenDaysAgo ''oilChange'' then
        (case lastOilChangeMileage truck of
           None \<Rightarrow> Inl undefinedToLocaleString
         | Some l \<Rightarrow>
             Inr [\<lparr>infoType = ''oilChange'', infoTitle = ''Oil Change'',
                   infoMessage = DueIn (nextOilChangeMileage - mileage truck) l
                                   (lastOilChange truck) nextOilChangeMileage,
                   infoPriority = dueSoon\<rparr>])
      else Inr [])"

definition cardInspectionCheck :: "truck \<Rightarrow> int \<Rightarrow> int \<Rightarrow> alertInfo list" where
  "cardInspectionCheck truck sevenDaysAgo now =
     (case inspectionStickerExpiry truck of
        None \<Rightarrow> []
      | Some inspectionDate \<Rightarrow>
          if isAlertClearedRecently truck sevenDaysAgo ''inspection'' then []
          else
            (let daysUntilExpiry = daysUntil inspectionDate now in
             if daysUntilExpiry \<le> 0 then
               [\<lparr>infoType = ''inspection'', infoTitle = ''WV Inspection'',
                 infoMessage = ExpiredOn inspectionDate, infoPriority = overdue\<rparr>]
             else if daysUntilExpiry \<le> 30 then
               [\<lparr>infoType = ''inspection'', infoTitle = ''WV Inspection'',
                 infoMessage = ExpiresIn daysUntilExpiry inspectionDate,
                 infoPriority = dueSoon\<rparr>]
             else []))"

definition cardOemsInspectionCheck :: "truck \<Rightarrow> int \<Rightarrow> int \<Rightarrow> alertInfo list" where
  "cardOemsInspectionCheck truck sevenDaysAgo now =
     (case oemsInspectionExpiry truck of
        None \<Rightarrow> []
      | Some oemsDate \<Rightarrow>
          if isAlertClearedRecently truck sevenDaysAgo ''oemsInspection'' then []
          else
            (let daysUntilOemsExpiry = daysUntil oemsDate now in
             if daysUntilOemsExpiry \<le> 0 then
               [\<lparr>infoType = ''oemsInspection'', infoTitle = ''OEMS Inspection'',
                 infoMessage = ExpiredOn oemsDate, infoPriority = overdue\<rparr>]
             else if daysUntilOemsExpiry \<le> 30 then
               [\<lparr>infoType = ''oemsInspection'', infoTitle = ''OEMS Inspection'',
                 infoMessage = ExpiresIn daysUntilOemsExpiry oemsDate,
                 infoPriority = dueSoon\<rparr>]
             else []))"

definition cardBrakeChangeCheck :: "truck \<Rightarrow> int \<Rightarrow> jsError + alertInfo list" where
  "cardBrakeChangeCheck truck sevenDaysAgo =
     (let nextBrakeChangeMileage = orZero (lastBrakeChangeMileage truck) + 25000 in
      if mileage truck \<ge> nextBrakeChangeMileage
         \<and> \<not> isAlertClearedRecently truck sevenDaysAgo ''brakeChange'' then
        (let milesOverdue = mileage truck - nextBrakeChangeMileage in
         case lastBrakeChangeMileage truck of
           None \<Rightarrow> Inl undefinedToLocaleString
         | Some l \<Rightarrow>
             Inr [\<lparr>infoType = ''brakeChange'', infoTitle = ''Brake Service'',
                   infoMessage = OverdueBy milesOverdue l (lastBrakeChange truck)
                                   nextBrakeChangeMileage,
                   infoPriority = overdue\<rparr>])
      else if mileage truck \<ge> nextBrakeChangeMileage - 2500
         \<and> \<not> isAlertClearedRecently truck sevenDaysAgo ''brakeChange'' then
        (case lastBrakeChangeMileage truck of
           None \<Rightarrow> Inl undefinedToLocaleString
         | Some l \<Rightarrow>
             Inr [\<lparr>infoType = ''brakeChange'', infoTitle = ''Brake Service'',
                   infoMessage = DueIn (nextBrakeChangeMileage - mileage truck) l
                                   (lastBrakeChange truck) nextBrakeChangeMileage,
                   infoPriority = dueSoon\<rparr>])
      else Inr [])"

definition cardTireChangeCheck :: "truck \<Rightarrow> int \<Rightarrow> jsError + alertInfo list" where
  "cardTireChangeCheck truck sevenDaysAgo =
     (let nextTireChangeMileage = orZero (lastTireChangeMileage truck) + 40000 in
      if mileage truck \<ge> nextTireChangeMileage
         \<and> \<not> isAlertClearedRecently truck sevenDaysAgo ''tireChange'' then
        (let milesOverdue = mileage truck - nextTireChangeMileage in
         case lastTireChangeMileage truck of
           None \<Rightarrow> Inl undefinedToLocaleString
         | Some l \<Rightarrow>
             Inr [\<lparr>infoType = ''tireChange'', infoTitle = ''Tire Service'',
                   infoMessage = OverdueBy milesOverdue l (lastTireChange truck)
                                   nextTireChangeMileage,
                   infoPriority = overdue\<rparr>])
      else if mileage truck \<ge> nextTireChangeMileage - 4000
         \<and> \<not> isAlertClearedRecently truck sevenDaysAgo ''tireChange'' then
        (case lastTireChangeMileage truck of
           None \<Rightarrow> Inl undefinedToLocaleString
         | Some l \<Rightarrow>
             Inr [\<lparr>infoType = ''tireChange'', infoTitle = ''Tire Service'',
                   infoMessage = DueIn (nextTireChangeMileage - mileage truck) l
                                   (lastTireChange truck) nextTireChangeMileage,
                   infoPriority = dueSoon\<rparr>])
      else Inr [])"

definition getMaintenanceAlerts :: "truck \<Rightarrow> int \<Rightarrow> jsError + alertInfo list" where
  "getMaintenanceAlerts truck now =
     (let sevenDaysAgo = sevenDaysAgoOf now in
      case cardOilChangeCheck truck sevenDaysAgo of
        Inl e \<Rightarrow> Inl e
      | Inr oil \<Rightarrow>
          (let insp = cardInspectionCheck truck sevenDaysAgo now;
               oems = cardOemsInspectionCheck truck sevenDaysAgo now
           in (case cardBrakeChangeCheck truck sevenDaysAgo of
                 Inl e \<Rightarrow> Inl e
               | Inr brake \<Rightarrow>
                   (case cardTireChangeCheck truck sevenDaysAgo of
                      Inl e \<Rightarrow> Inl e
                    | Inr tire \<Rightarrow> Inr (oil @ insp @ oems @ brake @ tire)))))"

text \<open>An alert of the card as an alert of the pass: the title becomes the type.\<close>

definition alertOfInfo :: "alertInfo \<Rightarrow> alert" where
  "alertOfInfo a =
     \<lparr>atype = infoTitle a, message = infoMessage a, priority = infoPriority a\<rparr>"

section \<open>The digest: \<^verbatim>\<open>generateTruckMaintenanceHtml\<close>, \<^verbatim>\<open>createMaintenanceEmailHTML\<close>\<close>

text \<open>
  The HTML of a truck is kept as its parts, in document order: the out-of-service box with
  its reason, then one line per alert with its colour. The identity lines of the truck
  (unit, VIN, mileage, last update) are held by \<open>secTruck\<close>.
\<close>

datatype htmlBlock =
    OutOfServiceBox string
  | AlertLine string string message

record truckSection =
  secTruck :: truck
  secBlocks :: "htmlBlock list"

definition alertLine :: "alert \<Rightarrow> htmlBlock" where
  "alertLine a =
     AlertLine (if priority a = overdue then ''#dc3545'' else ''#f59e0b'') (atype a) (message a)"

text \<open>\<^verbatim>\<open>truck.outOfServiceReason || 'No reason specified'\<close>: the empty string is falsy.\<close>

definition reasonOrDefault :: "string option \<Rightarrow> string" where
  "reasonOrDefault r =
     (case r of
        None \<Rightarrow> ''No reason specified''
      | Some x \<Rightarrow> if x = [] then ''No reason specified'' else x)"

definition generateTruckMaintenanceHtml :: "truck \<Rightarrow> alert list \<Rightarrow> truckSection" where
  "generateTruckMaintenanceHtml truck maintenanceAlerts =
     \<lparr>secTruck = truck,
      secBlocks =
        (if status truck = OutOfService
         then [OutOfServiceBox (reasonOrDefault (outOfServiceReason truck))] else [])
        @ map alertLine maintenanceAlerts\<rparr>"

record digest =
  attentionCount :: nat
  sections :: "truckSection list"

definition createMaintenanceEmailHTML :: "truckWithMaintenance list \<Rightarrow> digest" where
  "createMaintenanceEmailHTML trucksWithMaintenance =
     \<lparr>attentionCount = length trucksWithMaintenance,
      sections = map (\<lambda>e. generateTruckMaintenanceHtml (theTruck e) (alerts e))
                   trucksWithMaintenance\<rparr>"

section \<open>The channel: \<^verbatim>\<open>sendWithMailerSend\<close>\<close>

text \<open>Decimal rendering of a number inside a template string.\<close>

fun showNat :: "nat \<Rightarrow> string" where
  "showNat n =
     (if n < 10 then [char_of (48 + n)]
      else showNat (n div 10) @ [char_of (48 + n mod 10)])"

text \<open>\<^verbatim>\<open>String.prototype.includes\<close>\<close>

fun startsWith :: "string \<Rightarrow> string \<Rightarrow> bool" where
  "startsWith s [] = True"
| "startsWith [] (p # ps) = False"
| "startsWith (c # cs) (p # ps) = (c = p \<and> startsWith cs ps)"

fun includesStr :: "string \<Rightarrow> string \<Rightarrow> bool" where
  "includesStr [] p = (p = [])"
| "includesStr (c # cs) p = (startsWith (c # cs) p \<or> includesStr cs p)"

text \<open>
  What \<^verbatim>\<open>fetch\<close> and \<^verbatim>\<open>response.text()\<close> give for one call: a rejection, or a
  response with its status, its \<^verbatim>\<open>x-message-id\<close> header and its body. The body is
  either JSON with an optional \<^verbatim>\<open>message\<close>, or text that \<^verbatim>\<open>JSON.parse\<close> refuses.
  The channel is a function from the recipient address to that outcome.
\<close>

datatype responseBody = JsonBody "string option" | RawBody string

datatype fetchOutcome =
    FetchRejects jsError
  | FetchResponse nat "string option" responseBody

type_synonym channel = "string \<Rightarrow> fetchOutcome"

record sendParams =
  apiKey :: string
  fromEmail :: string
  fromName :: string
  toEmail :: string
  toName :: string
  replyTo :: string
  subject :: string
  html :: digest

record sendResult =
  messageId :: "string option"
  sendStatus :: nat
  accepted :: "string list"
  rejected :: "string list"

definition responseOk :: "nat \<Rightarrow> bool" where
  "responseOk st = (200 \<le> st \<and> st \<le> 299)"

definition apiErrorMessage :: "nat \<Rightarrow> responseBody \<Rightarrow> string" where
  "apiErrorMessage st body =
     (let errorMessage = ''MailerSend API error '' @ showNat st in
      case body of
        JsonBody None \<Rightarrow> errorMessage
      | JsonBody (Some m) \<Rightarrow> if m = [] then errorMessage else m
      | RawBody responseText \<Rightarrow> errorMessage @ '': '' @ responseText)"

definition sendWithMailerSend :: "channel \<Rightarrow> sendParams \<Rightarrow> jsError + sendResult" where
  "sendWithMailerSend chan params =
     (if apiKey params = [] then Inl (Error ''MailerSend API key is required'')
      else if fromEmail params = [] \<or> toEmail params = [] \<or> subject params = [] then
        Inl (Error ''fromEmail, toEmail, and subject are required'')
      else
        (case chan (toEmail params) of
           FetchRejects e \<Rightarrow> Inl e
         | FetchResponse st mid body \<Rightarrow>
             if \<not> responseOk st then Inl (Error (apiErrorMessage st body))
             else Inr \<lparr>messageId = mid, sendStatus = st,
                       accepted = [toEmail params], rejected = []\<rparr>))"

section \<open>The on-demand trigger: \<^verbatim>\<open>sendMaintenanceAlert\<close>\<close>

datatype jsValue = JUndefined | JBool bool | JString string

text \<open>\<open>bodyTest\<close> is \<open>None\<close> when the request has no body.\<close>

record httpRequest =
  reqMethod :: string
  queryTest :: jsValue
  bodyTest :: "jsValue option"

definition testModeOf :: "httpRequest \<Rightarrow> bool" where
  "testModeOf req =
     (queryTest req = JString ''true''
      \<or> (case bodyTest req of None \<Rightarrow> False | Some v \<Rightarrow> v = JBool True))"

record recipient =
  email :: string
  name :: string

definition recipients :: "recipient list" where
  "recipients =
     [\<lparr>email = ''john.browning@lincolnems.com'', name = ''John Browning''\<rparr>,
      \<lparr>email = ''deathlikesnake6@gmail.com'', name = ''William Frazier''\<rparr>,
      \<lparr>email = ''tw4001@aol.com'', name = ''Trish Watson''\<rparr>,
      \<lparr>email = ''sergentlatosha@gmail.com'', name = ''LaTosha Sergent''\<rparr>,
      \<lparr>email = ''charley.egnor@lincolnems.com'', name = ''Charley Egnor''\<rparr>]"

record okBody =
  okTrucksWithMaintenance :: nat
  okRecipients :: nat
  okRecipientEmails :: "string list"
  okMessageIds :: "string option list"
  okAccepted :: "string list"
  okRejected :: "string list"

text \<open>
  The four responses of the handler: 204 to a preflight, 200 with
  \<^verbatim>\<open>trucksChecked\<close> when nothing is due, 200 with the send summary, 500 with
  \<^verbatim>\<open>error\<close> and \<^verbatim>\<open>details\<close>.
\<close>

datatype httpResponse =
    Status204
  | Status200NoMaintenance nat
  | Status200Ok okBody
  | Status500 string string

text \<open>
  \<^verbatim>\<open>Promise.all\<close> over the send promises: the results in order when all fulfil, a
  rejection otherwise. When several promises reject, JavaScript takes the one that rejects
  first in time; the model takes the first in array order (with a single rejection there
  is no difference).
\<close>

fun promiseAll :: "(jsError + 'a) list \<Rightarrow> jsError + 'a list" where
  "promiseAll [] = Inr []"
| "promiseAll (Inl e # ps) = Inl e"
| "promiseAll (Inr r # ps) = (case promiseAll ps of Inl e \<Rightarrow> Inl e | Inr rs \<Rightarrow> Inr (r # rs))"

definition errMessage :: "jsError \<Rightarrow> string" where
  "errMessage e = (case e of TypeError m \<Rightarrow> m | Error m \<Rightarrow> m)"

text \<open>\<^verbatim>\<open>String(err)\<close>\<close>

definition errString :: "jsError \<Rightarrow> string" where
  "errString e =
     (case e of TypeError m \<Rightarrow> ''TypeError: '' @ m | Error m \<Rightarrow> ''Error: '' @ m)"

definition errorResponse :: "jsError \<Rightarrow> httpResponse" where
  "errorResponse err =
     Status500
       (if errMessage err \<noteq> [] \<and> includesStr (errMessage err) ''MailerSend''
        then ''MailerSend API error: '' @ errMessage err else errString err)
       (errMessage err)"

text \<open>
  \<^verbatim>\<open>db.collection('trucks').doc(id).update({lastMaintenanceAlertSent: v})\<close> on the
  collection, a list of documents. Reads and writes of the store are taken to succeed.
\<close>

definition updateLastSent :: "string \<Rightarrow> int \<Rightarrow> truck list \<Rightarrow> truck list" where
  "updateLastSent tid v db =
     map (\<lambda>d. if docId d = tid then d\<lparr>lastMaintenanceAlertSent := Some v\<rparr> else d) db"

fun updateAllLastSent :: "clock \<Rightarrow> truckWithMaintenance list \<Rightarrow> truck list \<Rightarrow> truck list" where
  "updateAllLastSent clk [] db = db"
| "updateAllLastSent clk (e # es) db =
     updateAllLastSent clk es
       (updateLastSent (docId (theTruck e)) (updateRead clk (docId (theTruck e))) db)"

text \<open>
  The outcome of one invocation: the response, the collection afterwards, the channel
  calls that were made, each with what it gave, and the messages that these calls carried.
\<close>

record invocation =
  response :: httpResponse
  dbAfter :: "truck list"
  channelCalls :: "(string \<times> fetchOutcome) list"
  sentMessages :: "sendParams list"

definition sendParamsFor :: "string \<Rightarrow> truckWithMaintenance list \<Rightarrow> recipient \<Rightarrow> sendParams" where
  "sendParamsFor key trucksWithMaintenance r =
     \<lparr>apiKey = key,
      fromEmail = ''alerts@trucks.lincolnems.com'',
      fromName = ''Lincoln EMS Truck Alerts'',
      toEmail = email r,
      toName = name r,
      replyTo = ''maintenance@lincolnems.com'',
      subject = ''Maintenance Due Alert - '' @ showNat (length trucksWithMaintenance)
                  @ '' Truck(s) Require Attention'',
      html = createMaintenanceEmailHTML trucksWithMaintenance\<rparr>"

text \<open>
  A call reaches the channel when \<^verbatim>\<open>sendWithMailerSend\<close> gets past its two argument
  checks. \<^verbatim>\<open>recipients.map\<close> starts every send before any is awaited.
\<close>

definition callsMade :: "channel \<Rightarrow> sendParams list \<Rightarrow> (string \<times> fetchOutcome) list" where
  "callsMade chan ps =
     map (\<lambda>p. (toEmail p, chan (toEmail p)))
       (filter (\<lambda>p. apiKey p \<noteq> []
                  \<and> \<not> (fromEmail p = [] \<or> toEmail p = [] \<or> subject p = [])) ps)"

definition messagesMade :: "sendParams list \<Rightarrow> sendParams list" where
  "messagesMade ps =
     filter (\<lambda>p. apiKey p \<noteq> []
               \<and> \<not> (fromEmail p = [] \<or> toEmail p = [] \<or> subject p = [])) ps"

definition sendMaintenanceAlert ::
  "string \<Rightarrow> channel \<Rightarrow> clock \<Rightarrow> httpRequest \<Rightarrow> truck list \<Rightarrow> invocation" where
  "sendMaintenanceAlert key chan clk req db =
     (if reqMethod req = ''OPTIONS'' then
        \<lparr>response = Status204, dbAfter = db, channelCalls = [], sentMessages = []\<rparr>
      else
        (let testMode = testModeOf req in
         case checkMaintenanceDue testMode clk db of
           Inl err \<Rightarrow>
             \<lparr>response = errorResponse err, dbAfter = db, channelCalls = [],
              sentMessages = []\<rparr>
         | Inr trucksWithMaintenance \<Rightarrow>
             if length trucksWithMaintenance = 0 then
               \<lparr>response = Status200NoMaintenance (length trucksWithMaintenance),
                dbAfter = db, channelCalls = [], sentMessages = []\<rparr>
             else
               (let ps = map (sendParamsFor key trucksWithMaintenance) recipients;
                    calls = callsMade chan ps;
                    msgs = messagesMade ps
                in case promiseAll (map (sendWithMailerSend chan) ps) of
                     Inl err \<Rightarrow>
                       \<lparr>response = errorResponse err, dbAfter = db, channelCalls = calls,
                        sentMessages = msgs\<rparr>
                   | Inr results \<Rightarrow>
                       \<lparr>response = Status200Ok
                          \<lparr>okTrucksWithMaintenance = length trucksWithMaintenance,
                           okRecipients = length recipients,
                           okRecipientEmails = map email recipients,
                           okMessageIds = map messageId results,
                           okAccepted = concat (map accepted results),
                           okRejected = concat (map rejected results)\<rparr>,
                        dbAfter = updateAllLastSent clk trucksWithMaintenance db,
                        channelCalls = calls, sentMessages = msgs\<rparr>)))"

section \<open>The clearance workflow: \<^verbatim>\<open>clearMaintenanceAlert\<close>\<close>

text \<open>
  The justification is free text that the user types. It is kept as JavaScript keeps a
  string, a sequence of UTF-16 code units; \<open>codeUnits\<close> gives the code units of an
  ASCII literal of the source.
\<close>

type_synonym jsString = "nat list"

definition codeUnits :: "string \<Rightarrow> jsString" where
  "codeUnits s = map of_char s"

text \<open>A document of the \<^verbatim>\<open>maintenance\<close> collection, as \<^verbatim>\<open>addDoc\<close> writes it.\<close>

record maintenanceRecord =
  recTruckId :: string
  recTruckUnitNumber :: string
  recType :: string
  recDescription :: string
  recDate :: int
  recMileage :: int
  recCost :: int
  recPerformedBy :: string
  recNotes :: jsString
  recCreatedAt :: int
  recCreatedBy :: string

record firestore =
  trucks :: "truck list"
  maintenance :: "maintenanceRecord list"

text \<open>
  What the store and the clock do during one call. A store operation that fails throws an
  error with the given message; \<open>addDocError k\<close> is the outcome of the \<^verbatim>\<open>addDoc\<close>
  made when \<^verbatim>\<open>retryCount\<close> is \<open>k\<close>. \<open>clearedAtRead\<close> and
  \<open>updatedAtRead\<close> are the two clock reads of the truck update, \<open>recDateRead k\<close> and
  \<open>recCreatedAtRead k\<close> the two of that \<^verbatim>\<open>addDoc\<close>.
\<close>

record firestoreEnv =
  getDocError :: "string option"
  updateDocError :: "string option"
  addDocError :: "nat \<Rightarrow> string option"
  clearedAtRead :: int
  updatedAtRead :: int
  recDateRead :: "nat \<Rightarrow> int"
  recCreatedAtRead :: "nat \<Rightarrow> int"

definition getDoc :: "firestore \<Rightarrow> string \<Rightarrow> truck option" where
  "getDoc st truckId = find (\<lambda>d. docId d = truckId) (trucks st)"

text \<open>\<^verbatim>\<open>userId || 'alert-clear-system'\<close>\<close>

definition userOrSystem :: "string option \<Rightarrow> string" where
  "userOrSystem userId =
     (case userId of
        None \<Rightarrow> ''alert-clear-system''
      | Some u \<Rightarrow> if u = [] then ''alert-clear-system'' else u)"

definition alertTypeLabel :: "string \<Rightarrow> string" where
  "alertTypeLabel alertType =
     (if alertType = ''oilChange'' then ''Oil Change''
      else if alertType = ''brakeChange'' then ''Brake Service''
      else if alertType = ''tireChange'' then ''Tire Service''
      else if alertType = ''inspection'' then ''WV Inspection''
      else if alertType = ''oemsInspection'' then ''OEMS Inspection''
      else alertType)"

definition dismissalRecord ::
  "firestoreEnv \<Rightarrow> string \<Rightarrow> truck \<Rightarrow> string \<Rightarrow> jsString \<Rightarrow> string option \<Rightarrow> nat
     \<Rightarrow> maintenanceRecord" where
  "dismissalRecord env truckId truckData alertType notes userId k =
     \<lparr>recTruckId = truckId,
      recTruckUnitNumber = unitNumber truckData,
      recType = ''other'',
      recDescription = ''Maintenance Alert Cleared: '' @ alertTypeLabel alertType,
      recDate = recDateRead env k,
      recMileage = mileage truckData,
      recCost = 0,
      recPerformedBy = ''Alert Clear System'',
      recNotes =
        codeUnits ''Maintenance alert dismissed without performing work. Mechanic assessment: ''
          @ notes,
      recCreatedAt = recCreatedAtRead env k,
      recCreatedBy = userOrSystem userId\<rparr>"

definition maxRetries :: nat where
  "maxRetries = 3"

text \<open>
  The \<^verbatim>\<open>while (!maintenanceRecordCreated && retryCount < maxRetries)\<close> loop. It
  returns the \<^verbatim>\<open>maintenance\<close> collection it leaves, with the error it throws if it
  throws. The wait between two attempts has no effect on the store.
\<close>

function addRecordLoop ::
  "firestoreEnv \<Rightarrow> (nat \<Rightarrow> maintenanceRecord) \<Rightarrow> bool \<Rightarrow> nat \<Rightarrow> maintenanceRecord list
     \<Rightarrow> jsError option \<times> maintenanceRecord list" where
  "addRecordLoop env mk maintenanceRecordCreated retryCount coll =
     (if \<not> maintenanceRecordCreated \<and> retryCount < maxRetries then
        (case addDocError env retryCount of
           None \<Rightarrow> addRecordLoop env mk True retryCount (coll @ [mk retryCount])
         | Some recordError \<Rightarrow>
             if Suc retryCount \<ge> maxRetries then
               (Some (Error (''Failed to create maintenance record for alert clearing: ''
                               @ recordError)), coll)
             else addRecordLoop env mk False (Suc retryCount) coll)
      else (None, coll))"
  by pat_completeness auto
termination
  by (relation "measure (\<lambda>(env, mk, created, retryCount, coll).
                  if created then 0 else Suc (maxRetries - retryCount))")
     auto

declare addRecordLoop.simps [simp del]

text \<open>
  The call returns the exception it throws (\<open>None\<close> when it returns normally) and the
  store it leaves. The update writes three fields of the truck document:
  \<^verbatim>\<open>alertsCleared\<close>, \<^verbatim>\<open>updatedAt\<close>, \<^verbatim>\<open>updatedBy\<close>.
\<close>

definition clearMaintenanceAlert ::
  "firestoreEnv \<Rightarrow> firestore \<Rightarrow> string \<Rightarrow> string \<Rightarrow> jsString \<Rightarrow> string option
     \<Rightarrow> jsError option \<times> firestore" where
  "clearMaintenanceAlert env st truckId alertType notes userId =
     (case getDocError env of
        Some m \<Rightarrow> (Some (Error m), st)
      | None \<Rightarrow>
          (case getDoc st truckId of
             None \<Rightarrow> (Some (Error ''Truck not found''), st)
           | Some truckData \<Rightarrow>
               (let currentAlertsCleared =
                      (case alertsCleared truckData of None \<Rightarrow> Map.empty | Some m \<Rightarrow> m);
                    updatedAlertsCleared =
                      currentAlertsCleared(alertType \<mapsto> clearedAtRead env)
                in case updateDocError env of
                     Some m \<Rightarrow> (Some (Error m), st)
                   | None \<Rightarrow>
                       (let st1 = st\<lparr>trucks :=
                              map (\<lambda>d. if docId d = truckId
                                        then d\<lparr>alertsCleared := Some updatedAlertsCleared,
                                               updatedAt := updatedAtRead env,
                                               updatedBy := userOrSystem userId\<rparr>
                                        else d) (trucks st)\<rparr>;
                            (err, coll) =
                              addRecordLoop env
                                (dismissalRecord env truckId truckData alertType notes userId)
                                False 0 (maintenance st1)
                        in (err, st1\<lparr>maintenance := coll\<rparr>)))))"

section \<open>The caller: \<^verbatim>\<open>ClearAlertModal\<close>\<close>

text \<open>
  \<^verbatim>\<open>String.prototype.trim\<close> removes white space and line terminators at both ends.
  These are, in ECMAScript: tab, line feed, vertical tab, form feed, carriage return,
  space, no-break space (U+00A0), the other space separators of Unicode (U+1680, U+2000 to
  U+200A, U+202F, U+205F, U+3000), the line and paragraph separators (U+2028, U+2029) and
  the byte order mark (U+FEFF). Each is one code unit.
\<close>

definition isSpace :: "nat \<Rightarrow> bool" where
  "isSpace c =
     (c \<in> set [0x0009, 0x000A, 0x000B, 0x000C, 0x000D, 0x0020, 0x00A0, 0x1680,
                0x2000, 0x2001, 0x2002, 0x2003, 0x2004, 0x2005, 0x2006, 0x2007, 0x2008,
                0x2009, 0x200A, 0x2028, 0x2029, 0x202F, 0x205F, 0x3000, 0xFEFF])"

definition trim :: "jsString \<Rightarrow> jsString" where
  "trim s = rev (dropWhile isSpace (rev (dropWhile isSpace s)))"

text \<open>
  \<^verbatim>\<open>handleClearAlert\<close> of the modal, with the handlers of the card and of the
  dashboard page inlined (they pass the arguments on and add \<^verbatim>\<open>user?.uid\<close>). The
  result says what the user sees: the two \<^verbatim>\<open>window.alert\<close> texts, or the modal
  closing.
\<close>

datatype modalOutcome = NotesRequired | FailedToClear | Closed

definition handleClearAlert ::
  "firestoreEnv \<Rightarrow> firestore \<Rightarrow> truck \<Rightarrow> string \<Rightarrow> jsString \<Rightarrow> string option
     \<Rightarrow> modalOutcome \<times> firestore" where
  "handleClearAlert env st truck alertType notes uid =
     (if trim notes = [] then (NotesRequired, st)
      else
        (case clearMaintenanceAlert env st (docId truck) alertType (trim notes) uid of
           (Some err, st') \<Rightarrow> (FailedToClear, st')
         | (None, st') \<Rightarrow> (Closed, st')))"

section \<open>Observations used in the statements\<close>

text \<open>
  The five kinds: the key under which \<^verbatim>\<open>alertsCleared\<close> holds the clearance of the
  kind, and the title of the kind's alerts.
\<close>

definition alertKinds :: "(string \<times> string) list" where
  "alertKinds =
     [(''oilChange'', ''Oil Change''), (''inspection'', ''WV Inspection''),
      (''oemsInspection'', ''OEMS Inspection''), (''brakeChange'', ''Brake Service''),
      (''tireChange'', ''Tire Service'')]"

text \<open>
  The alerts of one title that the evaluation of a truck pushes, when \<^verbatim>\<open>now\<close> (the
  clock read at the start of the pass) is \<open>now\<close>, or the exception it throws.
\<close>

definition alertsOfKind :: "truck \<Rightarrow> int \<Rightarrow> int \<Rightarrow> int \<Rightarrow> string \<Rightarrow> jsError + alert list" where
  "alertsOfKind truck now nowInspection nowOems title =
     (case maintenanceAlertsOf truck (sevenDaysAgoOf now) nowInspection nowOems of
        Inl e \<Rightarrow> Inl e
      | Inr (as, h) \<Rightarrow> Inr (alertsTitled title as))"

text \<open>
  The kind has a last-cleared timestamp, and less than 7 days lie between it and
  \<open>now\<close>.
\<close>

definition clearedWithinSevenDays :: "truck \<Rightarrow> int \<Rightarrow> string \<Rightarrow> bool" where
  "clearedWithinSevenDays truck now key =
     (case alertsCleared truck of
        None \<Rightarrow> False
      | Some cl \<Rightarrow> (case cl key of None \<Rightarrow> False | Some c \<Rightarrow> now - c < 7 * dayMs))"

text \<open>
  A batch was sent for the truck, and less than 7 days lie between that send and
  \<open>now\<close>.
\<close>

definition sentWithinSevenDays :: "truck \<Rightarrow> int \<Rightarrow> bool" where
  "sentWithinSevenDays truck now =
     (case lastMaintenanceAlertSent truck of
        None \<Rightarrow> False
      | Some sent \<Rightarrow> now - sent < 7 * dayMs)"

text \<open>A truck as it is when no alert batch has been sent for it yet.\<close>

definition neverAlerted :: "truck \<Rightarrow> truck" where
  "neverAlerted truck = truck\<lparr>lastMaintenanceAlertSent := None\<rparr>"

definition neverAlertedEntry :: "truckWithMaintenance \<Rightarrow> truckWithMaintenance" where
  "neverAlertedEntry e = e\<lparr>theTruck := neverAlerted (theTruck e)\<rparr>"

text \<open>The three last-service mileages of the document are recorded.\<close>

definition mileagesPresent :: "truck \<Rightarrow> bool" where
  "mileagesPresent truck =
     (lastOilChangeMileage truck \<noteq> None \<and> lastBrakeChangeMileage truck \<noteq> None
      \<and> lastTireChangeMileage truck \<noteq> None)"

text \<open>
  The outcome of a channel call makes \<^verbatim>\<open>sendWithMailerSend\<close> throw: \<^verbatim>\<open>fetch\<close>
  rejects, or the response is not ok. \<open>sendError\<close> is the exception it then throws.
\<close>

definition sendFails :: "fetchOutcome \<Rightarrow> bool" where
  "sendFails out =
     (case out of FetchRejects e \<Rightarrow> True | FetchResponse st mid body \<Rightarrow> \<not> responseOk st)"

definition sendError :: "fetchOutcome \<Rightarrow> jsError" where
  "sendError out =
     (case out of
        FetchRejects e \<Rightarrow> e
      | FetchResponse st mid body \<Rightarrow> Error (apiErrorMessage st body))"

text \<open>The message id that a channel call gave.\<close>

definition messageIdOf :: "fetchOutcome \<Rightarrow> string option" where
  "messageIdOf out = (case out of FetchRejects e \<Rightarrow> None | FetchResponse st mid body \<Rightarrow> mid)"

text \<open>The recipients that a response reports as rejected.\<close>

definition reportedRejected :: "httpResponse \<Rightarrow> string list" where
  "reportedRejected res = (case res of Status200Ok b \<Rightarrow> okRejected b | _ \<Rightarrow> [])"

text \<open>The recipients whose channel call was made and did not fail.\<close>

definition deliveredTo :: "invocation \<Rightarrow> string list" where
  "deliveredTo outcome =
     map fst (filter (\<lambda>(to, out). \<not> sendFails out) (channelCalls outcome))"

text \<open>The last-cleared timestamp of a kind on a document.\<close>

definition clearedAt :: "truck \<Rightarrow> string \<Rightarrow> int option" where
  "clearedAt truck key = (case alertsCleared truck of None \<Rightarrow> None | Some cl \<Rightarrow> cl key)"

section \<open>Example data\<close>

text \<open>
  Unit 52 at 105000 miles: oil last changed at 100000, brakes at 90000, tires at 80000;
  the WV inspection sticker runs out on 2026-01-01 (UTC midnight), no OEMS date is
  recorded.
\<close>

definition exampleTruck :: truck where
  "exampleTruck =
     \<lparr>docId = ''t52'', unitNumber = ''52'', status = InService,
      outOfServiceReason = None, mileage = 105000,
      lastOilChange = Some 1700000000000, lastOilChangeMileage = Some 100000,
      inspectionStickerExpiry = Some 1767225600000, oemsInspectionExpiry = None,
      lastBrakeChange = None, lastBrakeChangeMileage = Some 90000,
      lastTireChange = None, lastTireChangeMileage = Some 80000,
      lastMaintenanceAlertSent = None, alertsCleared = None,
      updatedAt = 1700000000000, updatedBy = ''u1''\<rparr>"

text \<open>
  The example truck with its oil alert cleared at 2025-12-25T08:00Z.
\<close>

definition exampleClearedTruck :: truck where
  "exampleClearedTruck =
     exampleTruck\<lparr>alertsCleared := Some [''oilChange'' \<mapsto> 1766649600000]\<rparr>"

text \<open>
  A pass that starts at 2026-01-01T08:00Z; the date checks read the clock 5 ms later, the
  updates after a send one second later.
\<close>

definition exampleClock :: clock where
  "exampleClock =
     \<lparr>passStart = 1767254400000,
      dateRead = (\<lambda>d k. 1767254400005),
      updateRead = (\<lambda>d. 1767254401000)\<rparr>"

text \<open>
  A document written before the last-service mileage of the oil change was recorded: unit
  61 at 5000 miles, no \<^verbatim>\<open>lastOilChangeMileage\<close>, no expiry dates.
\<close>

definition exampleLegacyTruck :: truck where
  "exampleLegacyTruck =
     \<lparr>docId = ''t61'', unitNumber = ''61'', status = InService,
      outOfServiceReason = None, mileage = 5000,
      lastOilChange = None, lastOilChangeMileage = None,
      inspectionStickerExpiry = None, oemsInspectionExpiry = None,
      lastBrakeChange = None, lastBrakeChangeMileage = Some 0,
      lastTireChange = None, lastTireChangeMileage = Some 0,
      lastMaintenanceAlertSent = None, alertsCleared = None,
      updatedAt = 1700000000000, updatedBy = ''u1''\<rparr>"

text \<open>The request \<^verbatim>\<open>GET /sendMaintenanceAlert?test=true\<close>.\<close>

definition exampleTestRequest :: httpRequest where
  "exampleTestRequest = \<lparr>reqMethod = ''GET'', queryTest = JString ''true'', bodyTest = None\<rparr>"

text \<open>
  The example truck with its oil alert cleared at 2025-12-29T09:20Z, its brakes last
  changed at 82000 miles, and part of a batch sent at 2025-12-31T08:00Z.
\<close>

definition exampleSentTruck :: truck where
  "exampleSentTruck =
     exampleTruck\<lparr>alertsCleared := Some [''oilChange'' \<mapsto> 1767000000000],
                   lastMaintenanceAlertSent := Some 1767168000000,
                   lastBrakeChangeMileage := Some 82000\<rparr>"

text \<open>
  Unit 57, out of service with a reason, at 50000 miles: nothing is due, no expiry date is
  recorded; part of a batch sent at 2025-12-31T08:00Z.
\<close>

definition exampleOutOfServiceTruck :: truck where
  "exampleOutOfServiceTruck =
     \<lparr>docId = ''t57'', unitNumber = ''57'', status = OutOfService,
      outOfServiceReason = Some ''Transmission'', mileage = 50000,
      lastOilChange = None, lastOilChangeMileage = Some 48000,
      inspectionStickerExpiry = None, oemsInspectionExpiry = None,
      lastBrakeChange = None, lastBrakeChangeMileage = Some 40000,
      lastTireChange = None, lastTireChangeMileage = Some 30000,
      lastMaintenanceAlertSent = Some 1767168000000, alertsCleared = None,
      updatedAt = 1700000000000, updatedBy = ''u1''\<rparr>"

text \<open>
  Unit 57 as above, but the last batch sent for it dates from 2025-12-24T08:00Z, and its
  oil alert was cleared at 2025-12-31T08:00Z.
\<close>

definition exampleParkedTruck :: truck where
  "exampleParkedTruck =
     exampleOutOfServiceTruck
       \<lparr>lastMaintenanceAlertSent := Some 1766563200000,
        alertsCleared := Some [''oilChange'' \<mapsto> 1767168000000]\<rparr>"

text \<open>The request \<^verbatim>\<open>GET /sendMaintenanceAlert\<close>.\<close>

definition exampleRequest :: httpRequest where
  "exampleRequest = \<lparr>reqMethod = ''GET'', queryTest = JUndefined, bodyTest = None\<rparr>"

text \<open>
  A channel that accepts every message with status 202, except that it answers 422 with a
  JSON error for the third recipient.
\<close>

definition exampleChannel :: channel where
  "exampleChannel =
     (\<lambda>to. if to = ''tw4001@aol.com''
           then FetchResponse 422 None
                  (JsonBody (Some ''The to.0.email must be a valid email address.''))
           else FetchResponse 202 (Some (''id-'' @ to)) (RawBody []))"

text \<open>A channel that accepts every message with status 202.\<close>

definition exampleAcceptingChannel :: channel where
  "exampleAcceptingChannel = (\<lambda>to. FetchResponse 202 (Some (''id-'' @ to)) (RawBody []))"

text \<open>
  A store and a clock for a clearance at 2026-01-01T08:00Z in which every store operation
  succeeds, and the same with every \<^verbatim>\<open>addDoc\<close> failing.
\<close>

definition exampleEnv :: firestoreEnv where
  "exampleEnv =
     \<lparr>getDocError = None, updateDocError = None, addDocError = (\<lambda>k. None),
      clearedAtRead = 1767254400000, updatedAtRead = 1767254400001,
      recDateRead = (\<lambda>k. 1767254400002 + 1000 * int k),
      recCreatedAtRead = (\<lambda>k. 1767254400003 + 1000 * int k)\<rparr>"

definition exampleFailingEnv :: firestoreEnv where
  "exampleFailingEnv = exampleEnv\<lparr>addDocError := (\<lambda>k. Some ''unavailable'')\<rparr>"

text \<open>
  The example truck with its brake alert cleared at 2025-12-30T08:00Z, alone in the
  collection; no maintenance record yet.
\<close>

definition exampleBrakeClearedTruck :: truck where
  "exampleBrakeClearedTruck =
     exampleTruck\<lparr>alertsCleared := Some [''brakeChange'' \<mapsto> 1767081600000]\<rparr>"

definition exampleStore :: firestore where
  "exampleStore = \<lparr>trucks = [exampleBrakeClearedTruck], maintenance = []\<rparr>"

section \<open>The alerts of one evaluation, kind by kind\<close>

lemma oilChangeCheck_titled:
  "oilChangeCheck t s = Inr (os, h) \<Longrightarrow>
   alertsTitled T os = (if T = ''Oil Change'' then os else [])"
  by (auto simp: oilChangeCheck_def alertsTitled_def Let_def split: if_splits option.splits)

lemma brakeChangeCheck_titled:
  "brakeChangeCheck t s = Inr (os, h) \<Longrightarrow>
   alertsTitled T os = (if T = ''Brake Service'' then os else [])"
  by (auto simp: brakeChangeCheck_def alertsTitled_def Let_def split: if_splits option.splits)

lemma tireChangeCheck_titled:
  "tireChangeCheck t s = Inr (os, h) \<Longrightarrow>
   alertsTitled T os = (if T = ''Tire Service'' then os else [])"
  by (auto simp: tireChangeCheck_def alertsTitled_def Let_def split: if_splits option.splits)

lemma inspectionCheck_titled:
  "alertsTitled T (fst (inspectionCheck t s n)) =
     (if T = ''WV Inspection'' then fst (inspectionCheck t s n) else [])"
  by (auto simp: inspectionCheck_def alertsTitled_def Let_def split: option.splits)

lemma oemsInspectionCheck_titled:
  "alertsTitled T (fst (oemsInspectionCheck t s n)) =
     (if T = ''OEMS Inspection'' then fst (oemsInspectionCheck t s n) else [])"
  by (auto simp: oemsInspectionCheck_def alertsTitled_def Let_def split: option.splits)

lemma alertsTitled_append: "alertsTitled T (xs @ ys) = alertsTitled T xs @ alertsTitled T ys"
  by (simp add: alertsTitled_def)

lemma maintenanceAlertsOf_Inr:
  "maintenanceAlertsOf t s n1 n2 = Inr (as, h) \<longleftrightarrow>
   (\<exists>oil ho brake hb tire ht.
      oilChangeCheck t s = Inr (oil, ho) \<and> brakeChangeCheck t s = Inr (brake, hb)
      \<and> tireChangeCheck t s = Inr (tire, ht)
      \<and> as = oil @ fst (inspectionCheck t s n1) @ fst (oemsInspectionCheck t s n2)
               @ brake @ tire
      \<and> h = (ho \<or> snd (inspectionCheck t s n1) \<or> snd (oemsInspectionCheck t s n2)
               \<or> hb \<or> ht))"
  by (auto simp: maintenanceAlertsOf_def Let_def split: sum.splits prod.splits)

lemma alertsTitled_whole:
  assumes "oilChangeCheck t s = Inr (oil, ho)" "brakeChangeCheck t s = Inr (brake, hb)"
    "tireChangeCheck t s = Inr (tire, ht)"
  shows "alertsTitled ''Oil Change'' (oil @ fst (inspectionCheck t s n1) @ fst (oemsInspectionCheck t s n2) @ brake @ tire) = oil"
    and "alertsTitled ''Brake Service'' (oil @ fst (inspectionCheck t s n1) @ fst (oemsInspectionCheck t s n2) @ brake @ tire) = brake"
    and "alertsTitled ''Tire Service'' (oil @ fst (inspectionCheck t s n1) @ fst (oemsInspectionCheck t s n2) @ brake @ tire) = tire"
    and "alertsTitled ''WV Inspection'' (oil @ fst (inspectionCheck t s n1) @ fst (oemsInspectionCheck t s n2) @ brake @ tire) = fst (inspectionCheck t s n1)"
    and "alertsTitled ''OEMS Inspection'' (oil @ fst (inspectionCheck t s n1) @ fst (oemsInspectionCheck t s n2) @ brake @ tire) = fst (oemsInspectionCheck t s n2)"
  using assms
  by (simp_all add: alertsTitled_append oilChangeCheck_titled brakeChangeCheck_titled
      tireChangeCheck_titled inspectionCheck_titled oemsInspectionCheck_titled)


lemma oilChangeCheck_returns:
  "lastOilChangeMileage t = Some l \<Longrightarrow> \<exists>os h. oilChangeCheck t s = Inr (os, h)"
  by (auto simp: oilChangeCheck_def Let_def)

lemma brakeChangeCheck_returns:
  "lastBrakeChangeMileage t = Some l \<Longrightarrow> \<exists>os h. brakeChangeCheck t s = Inr (os, h)"
  by (auto simp: brakeChangeCheck_def Let_def)

lemma tireChangeCheck_returns:
  "lastTireChangeMileage t = Some l \<Longrightarrow> \<exists>os h. tireChangeCheck t s = Inr (os, h)"
  by (auto simp: tireChangeCheck_def Let_def)

lemma oilChangeCheck_boundary:
  assumes "lastOilChangeMileage t = Some l" "\<not> isAlertClearedRecently t s ''oilChange''"
    "oilChangeCheck t s = Inr (os, h)"
  shows "(mileage t = l + 5000 \<longrightarrow>
            os = [\<lparr>atype = ''Oil Change'',
                   message = OverdueBy 0 l (lastOilChange t) (l + 5000),
                   priority = overdue\<rparr>])
       \<and> (mileage t = l + 5000 - 500 \<longrightarrow>
            os = [\<lparr>atype = ''Oil Change'',
                   message = DueIn 500 l (lastOilChange t) (l + 5000),
                   priority = dueSoon\<rparr>])
       \<and> (mileage t = l + 5000 - 500 - 1 \<longrightarrow> os = [])"
  using assms by (auto simp: oilChangeCheck_def orZero_def Let_def)

lemma brakeChangeCheck_boundary:
  assumes "lastBrakeChangeMileage t = Some l" "\<not> isAlertClearedRecently t s ''brakeChange''"
    "brakeChangeCheck t s = Inr (os, h)"
  shows "(mileage t = l + 25000 \<longrightarrow>
            os = [\<lparr>atype = ''Brake Service'',
                   message = OverdueBy 0 l (lastBrakeChange t) (l + 25000),
                   priority = overdue\<rparr>])
       \<and> (mileage t = l + 25000 - 2500 \<longrightarrow>
            os = [\<lparr>atype = ''Brake Service'',
                   message = DueIn 2500 l (lastBrakeChange t) (l + 25000),
                   priority = dueSoon\<rparr>])
       \<and> (mileage t = l + 25000 - 2500 - 1 \<longrightarrow> os = [])"
  using assms by (auto simp: brakeChangeCheck_def orZero_def Let_def)

lemma tireChangeCheck_boundary:
  assumes "lastTireChangeMileage t = Some l" "\<not> isAlertClearedRecently t s ''tireChange''"
    "tireChangeCheck t s = Inr (os, h)"
  shows "(mileage t = l + 40000 \<longrightarrow>
            os = [\<lparr>atype = ''Tire Service'',
                   message = OverdueBy 0 l (lastTireChange t) (l + 40000),
                   priority = overdue\<rparr>])
       \<and> (mileage t = l + 40000 - 4000 \<longrightarrow>
            os = [\<lparr>atype = ''Tire Service'',
                   message = DueIn 4000 l (lastTireChange t) (l + 40000),
                   priority = dueSoon\<rparr>])
       \<and> (mileage t = l + 40000 - 4000 - 1 \<longrightarrow> os = [])"
  using assms by (auto simp: tireChangeCheck_def orZero_def Let_def)

section \<open>The on-screen copy agrees with the pass\<close>

lemma card_checks_agree:
  "map_sum id (map alertOfInfo) (cardOilChangeCheck t s) = map_sum id fst (oilChangeCheck t s)"
  "map alertOfInfo (cardInspectionCheck t s n) = fst (inspectionCheck t s n)"
  "map alertOfInfo (cardOemsInspectionCheck t s n) = fst (oemsInspectionCheck t s n)"
  "map_sum id (map alertOfInfo) (cardBrakeChangeCheck t s) = map_sum id fst (brakeChangeCheck t s)"
  "map_sum id (map alertOfInfo) (cardTireChangeCheck t s) = map_sum id fst (tireChangeCheck t s)"
  by (simp_all add: cardOilChangeCheck_def oilChangeCheck_def cardInspectionCheck_def
      inspectionCheck_def cardOemsInspectionCheck_def oemsInspectionCheck_def
      cardBrakeChangeCheck_def brakeChangeCheck_def cardTireChangeCheck_def
      tireChangeCheck_def alertOfInfo_def Let_def split: option.splits)

text \<open>
  When every clock read of the pass gives the same instant, the card and the pass compute
  the same alerts for a truck, and throw on the same documents.
\<close>

lemma getMaintenanceAlerts_agrees:
  "map_sum id (map alertOfInfo) (getMaintenanceAlerts t now) =
     map_sum id fst (maintenanceAlertsOf t (sevenDaysAgoOf now) now now)"
proof -
  let ?s = "sevenDaysAgoOf now"
  note c = card_checks_agree [of t ?s]
  show ?thesis
  proof (cases "cardOilChangeCheck t ?s")
    case (Inl e)
    then show ?thesis using c(1)
      by (cases "oilChangeCheck t ?s")
         (simp_all add: getMaintenanceAlerts_def maintenanceAlertsOf_def Let_def)
  next
    case oil: (Inr oil)
    then obtain oil' ho where oil': "oilChangeCheck t ?s = Inr (oil', ho)"
      and o: "map alertOfInfo oil = oil'"
      using c(1) by (cases "oilChangeCheck t ?s") auto
    show ?thesis
    proof (cases "cardBrakeChangeCheck t ?s")
      case (Inl e)
      then show ?thesis using c(4) oil oil'
        by (cases "brakeChangeCheck t ?s")
           (simp_all add: getMaintenanceAlerts_def maintenanceAlertsOf_def Let_def
              split: prod.splits)
    next
      case brake: (Inr brake)
      then obtain brake' hb where brake': "brakeChangeCheck t ?s = Inr (brake', hb)"
        and b: "map alertOfInfo brake = brake'"
        using c(4) by (cases "brakeChangeCheck t ?s") auto
      show ?thesis
      proof (cases "cardTireChangeCheck t ?s")
        case (Inl e)
        then show ?thesis using c(5) oil oil' brake brake'
          by (cases "tireChangeCheck t ?s")
             (simp_all add: getMaintenanceAlerts_def maintenanceAlertsOf_def Let_def
                split: prod.splits)
      next
        case tire: (Inr tire)
        then obtain tire' ht where tire': "tireChangeCheck t ?s = Inr (tire', ht)"
          and ti: "map alertOfInfo tire = tire'"
          using c(5) by (cases "tireChangeCheck t ?s") auto
        show ?thesis
          using oil oil' o brake brake' b tire tire' ti c(2) [of now] c(3) [of now]
          by (simp add: getMaintenanceAlerts_def maintenanceAlertsOf_def Let_def
              split: prod.splits)
      qed
    qed
  qed
qed


lemma getMaintenanceAlerts_kind:
  "map_sum id (\<lambda>as. alertsTitled title (map alertOfInfo as)) (getMaintenanceAlerts t now) =
     alertsOfKind t now now now title"
proof -
  note a = getMaintenanceAlerts_agrees [of t now]
  show ?thesis
  proof (cases "getMaintenanceAlerts t now")
    case (Inl e)
    then show ?thesis using a
      by (cases "maintenanceAlertsOf t (sevenDaysAgoOf now) now now")
         (simp_all add: alertsOfKind_def)
  next
    case (Inr as)
    then show ?thesis using a
      by (cases "maintenanceAlertsOf t (sevenDaysAgoOf now) now now")
         (auto simp: alertsOfKind_def)
  qed
qed

section \<open>Mileage thresholds\<close>

text \<open>
  C6. For a truck whose three last-service mileages are recorded, the evaluation returns,
  and for each mileage kind whose clearance gate is open (oil: interval 5000, margin 500;
  brakes: 25000, 2500; tires: 40000, 4000), with \<open>nextDue\<close> the last-service mileage plus
  the interval: an odometer equal to \<open>nextDue\<close> gives exactly one alert of that kind, of
  priority \<open>overdue\<close>, overdue by 0 miles; an odometer equal to \<open>nextDue\<close> minus the
  margin gives exactly one alert, of priority \<open>dueSoon\<close>, due in the margin; one mile
  less gives no alert of that kind.
\<close>

theorem mileage_threshold_boundaries:
  assumes lo: "lastOilChangeMileage t = Some lo"
    and lb: "lastBrakeChangeMileage t = Some lb"
    and lt: "lastTireChangeMileage t = Some lt"
  shows "\<exists>as h. maintenanceAlertsOf t s n1 n2 = Inr (as, h)
     \<and> (\<not> isAlertClearedRecently t s ''oilChange'' \<longrightarrow>
          (mileage t = lo + 5000 \<longrightarrow>
             alertsTitled ''Oil Change'' as =
               [\<lparr>atype = ''Oil Change'',
                 message = OverdueBy 0 lo (lastOilChange t) (lo + 5000),
                 priority = overdue\<rparr>])
        \<and> (mileage t = lo + 5000 - 500 \<longrightarrow>
             alertsTitled ''Oil Change'' as =
               [\<lparr>atype = ''Oil Change'',
                 message = DueIn 500 lo (lastOilChange t) (lo + 5000),
                 priority = dueSoon\<rparr>])
        \<and> (mileage t = lo + 5000 - 500 - 1 \<longrightarrow> alertsTitled ''Oil Change'' as = []))
     \<and> (\<not> isAlertClearedRecently t s ''brakeChange'' \<longrightarrow>
          (mileage t = lb + 25000 \<longrightarrow>
             alertsTitled ''Brake Service'' as =
               [\<lparr>atype = ''Brake Service'',
                 message = OverdueBy 0 lb (lastBrakeChange t) (lb + 25000),
                 priority = overdue\<rparr>])
        \<and> (mileage t = lb + 25000 - 2500 \<longrightarrow>
             alertsTitled ''Brake Service'' as =
               [\<lparr>atype = ''Brake Service'',
                 message = DueIn 2500 lb (lastBrakeChange t) (lb + 25000),
                 priority = dueSoon\<rparr>])
        \<and> (mileage t = lb + 25000 - 2500 - 1 \<longrightarrow> alertsTitled ''Brake Service'' as = []))
     \<and> (\<not> isAlertClearedRecently t s ''tireChange'' \<longrightarrow>
          (mileage t = lt + 40000 \<longrightarrow>
             alertsTitled ''Tire Service'' as =
               [\<lparr>atype = ''Tire Service'',
                 message = OverdueBy 0 lt (lastTireChange t) (lt + 40000),
                 priority = overdue\<rparr>])
        \<and> (mileage t = lt + 40000 - 4000 \<longrightarrow>
             alertsTitled ''Tire Service'' as =
               [\<lparr>atype = ''Tire Service'',
                 message = DueIn 4000 lt (lastTireChange t) (lt + 40000),
                 priority = dueSoon\<rparr>])
        \<and> (mileage t = lt + 40000 - 4000 - 1 \<longrightarrow> alertsTitled ''Tire Service'' as = []))"
proof -
  obtain oil ho where oil: "oilChangeCheck t s = Inr (oil, ho)"
    using oilChangeCheck_returns [OF lo] by blast
  obtain brake hb where brake: "brakeChangeCheck t s = Inr (brake, hb)"
    using brakeChangeCheck_returns [OF lb] by blast
  obtain tire ht where tire: "tireChangeCheck t s = Inr (tire, ht)"
    using tireChangeCheck_returns [OF lt] by blast
  let ?as = "oil @ fst (inspectionCheck t s n1) @ fst (oemsInspectionCheck t s n2)
               @ brake @ tire"
  let ?h = "ho \<or> snd (inspectionCheck t s n1) \<or> snd (oemsInspectionCheck t s n2)
               \<or> hb \<or> ht"
  have run: "maintenanceAlertsOf t s n1 n2 = Inr (?as, ?h)"
    unfolding maintenanceAlertsOf_Inr using oil brake tire by simp
  have titled: "alertsTitled ''Oil Change'' ?as = oil"
    "alertsTitled ''Brake Service'' ?as = brake"
    "alertsTitled ''Tire Service'' ?as = tire"
    using alertsTitled_whole [OF oil brake tire] by simp_all
  have o: "\<not> isAlertClearedRecently t s ''oilChange'' \<longrightarrow>
          (mileage t = lo + 5000 \<longrightarrow>
             alertsTitled ''Oil Change'' ?as =
               [\<lparr>atype = ''Oil Change'',
                 message = OverdueBy 0 lo (lastOilChange t) (lo + 5000),
                 priority = overdue\<rparr>])
        \<and> (mileage t = lo + 5000 - 500 \<longrightarrow>
             alertsTitled ''Oil Change'' ?as =
               [\<lparr>atype = ''Oil Change'',
                 message = DueIn 500 lo (lastOilChange t) (lo + 5000),
                 priority = dueSoon\<rparr>])
        \<and> (mileage t = lo + 5000 - 500 - 1 \<longrightarrow> alertsTitled ''Oil Change'' ?as = [])"
    unfolding titled using oilChangeCheck_boundary [OF lo _ oil] by blast
  have b: "\<not> isAlertClearedRecently t s ''brakeChange'' \<longrightarrow>
          (mileage t = lb + 25000 \<longrightarrow>
             alertsTitled ''Brake Service'' ?as =
               [\<lparr>atype = ''Brake Service'',
                 message = OverdueBy 0 lb (lastBrakeChange t) (lb + 25000),
                 priority = overdue\<rparr>])
        \<and> (mileage t = lb + 25000 - 2500 \<longrightarrow>
             alertsTitled ''Brake Service'' ?as =
               [\<lparr>atype = ''Brake Service'',
                 message = DueIn 2500 lb (lastBrakeChange t) (lb + 25000),
                 priority = dueSoon\<rparr>])
        \<and> (mileage t = lb + 25000 - 2500 - 1 \<longrightarrow> alertsTitled ''Brake Service'' ?as = [])"
    unfolding titled using brakeChangeCheck_boundary [OF lb _ brake] by blast
  have ti: "\<not> isAlertClearedRecently t s ''tireChange'' \<longrightarrow>
          (mileage t = lt + 40000 \<longrightarrow>
             alertsTitled ''Tire Service'' ?as =
               [\<lparr>atype = ''Tire Service'',
                 message = OverdueBy 0 lt (lastTireChange t) (lt + 40000),
                 priority = overdue\<rparr>])
        \<and> (mileage t = lt + 40000 - 4000 \<longrightarrow>
             alertsTitled ''Tire Service'' ?as =
               [\<lparr>atype = ''Tire Service'',
                 message = DueIn 4000 lt (lastTireChange t) (lt + 40000),
                 priority = dueSoon\<rparr>])
        \<and> (mileage t = lt + 40000 - 4000 - 1 \<longrightarrow> alertsTitled ''Tire Service'' ?as = [])"
    unfolding titled using tireChangeCheck_boundary [OF lt _ tire] by blast
  show ?thesis
    using run o b ti by blast
qed

theorem mileage_threshold_boundaries_witness:
  "alertsTitled ''Oil Change''
     (fst (projr (maintenanceAlertsOf exampleTruck 0 0 0))) =
       [\<lparr>atype = ''Oil Change'',
         message = OverdueBy 0 100000 (Some 1700000000000) 105000,
         priority = overdue\<rparr>]"
  using mileage_threshold_boundaries [of exampleTruck 100000 90000 80000 0 0 0]
  by (auto simp: exampleTruck_def isAlertClearedRecently_def)

section \<open>Date deadlines\<close>

lemma daysUntil_same_day:
  assumes "today \<le> now" "now < today + dayMs"
  shows "daysUntil (today + k * dayMs) now = k"
proof -
  have nz: "dayMs \<noteq> 0" by (simp add: dayMs_def)
  have split: "now - (today + k * dayMs) = (now - today) + (- k) * dayMs"
    by (simp add: algebra_simps)
  have "((now - today) + (- k) * dayMs) div dayMs = (- k) + (now - today) div dayMs"
    using nz by (rule div_mult_self1)
  moreover have "(now - today) div dayMs = 0"
    using assms by simp
  ultimately show ?thesis by (simp add: daysUntil_def split)
qed

lemma inspectionCheck_boundary:
  assumes "today \<le> n" "n < today + dayMs" "\<not> isAlertClearedRecently t s ''inspection''"
  shows "(inspectionStickerExpiry t = Some today \<longrightarrow>
            fst (inspectionCheck t s n) =
              [\<lparr>atype = ''WV Inspection'', message = ExpiredOn today, priority = overdue\<rparr>])
       \<and> (inspectionStickerExpiry t = Some (today + 30 * dayMs) \<longrightarrow>
            fst (inspectionCheck t s n) =
              [\<lparr>atype = ''WV Inspection'',
                message = ExpiresIn 30 (today + 30 * dayMs), priority = dueSoon\<rparr>])
       \<and> (inspectionStickerExpiry t = Some (today + 31 * dayMs) \<longrightarrow>
            fst (inspectionCheck t s n) = [])"
  using assms daysUntil_same_day [of today n 0] daysUntil_same_day [of today n 30]
    daysUntil_same_day [of today n 31]
  by (simp add: inspectionCheck_def Let_def)

lemma oemsInspectionCheck_boundary:
  assumes "today \<le> n" "n < today + dayMs" "\<not> isAlertClearedRecently t s ''oemsInspection''"
  shows "(oemsInspectionExpiry t = Some today \<longrightarrow>
            fst (oemsInspectionCheck t s n) =
              [\<lparr>atype = ''OEMS Inspection'', message = ExpiredOn today, priority = overdue\<rparr>])
       \<and> (oemsInspectionExpiry t = Some (today + 30 * dayMs) \<longrightarrow>
            fst (oemsInspectionCheck t s n) =
              [\<lparr>atype = ''OEMS Inspection'',
                message = ExpiresIn 30 (today + 30 * dayMs), priority = dueSoon\<rparr>])
       \<and> (oemsInspectionExpiry t = Some (today + 31 * dayMs) \<longrightarrow>
            fst (oemsInspectionCheck t s n) = [])"
  using assms daysUntil_same_day [of today n 0] daysUntil_same_day [of today n 30]
    daysUntil_same_day [of today n 31]
  by (simp add: oemsInspectionCheck_def Let_def)

lemma maintenanceAlertsOf_returns:
  assumes "lastOilChangeMileage t = Some lo" "lastBrakeChangeMileage t = Some lb"
    "lastTireChangeMileage t = Some lt"
  shows "\<exists>as h. maintenanceAlertsOf t s n1 n2 = Inr (as, h)
     \<and> alertsTitled ''WV Inspection'' as = fst (inspectionCheck t s n1)
     \<and> alertsTitled ''OEMS Inspection'' as = fst (oemsInspectionCheck t s n2)"
proof -
  obtain oil ho where oil: "oilChangeCheck t s = Inr (oil, ho)"
    using oilChangeCheck_returns assms(1) by blast
  obtain brake hb where brake: "brakeChangeCheck t s = Inr (brake, hb)"
    using brakeChangeCheck_returns assms(2) by blast
  obtain tire ht where tire: "tireChangeCheck t s = Inr (tire, ht)"
    using tireChangeCheck_returns assms(3) by blast
  show ?thesis
    using oil brake tire alertsTitled_whole(4,5) [OF oil brake tire]
    by (simp add: maintenanceAlertsOf_Inr)
qed

text \<open>
  C7. Expiry dates are stored as the instant a day starts. Let the clock reads of the two
  date checks fall in the day that starts at \<open>today\<close>. For a truck whose three
  last-service mileages are recorded the evaluation returns, and for each of the two
  documents whose clearance gate is open: an expiry date of \<open>today\<close> gives exactly one
  alert of that document, of priority \<open>overdue\<close>; an expiry date 30 days after
  \<open>today\<close> gives exactly one alert, of priority \<open>dueSoon\<close>, expiring in 30 days; an
  expiry date 31 days after \<open>today\<close> gives no alert of that document.
\<close>

theorem date_deadline_boundaries:
  assumes "lastOilChangeMileage t = Some lo" "lastBrakeChangeMileage t = Some lb"
    "lastTireChangeMileage t = Some lt"
    and "today \<le> nowInspection" "nowInspection < today + dayMs"
    and "today \<le> nowOems" "nowOems < today + dayMs"
  shows "\<exists>as h. maintenanceAlertsOf t s nowInspection nowOems = Inr (as, h)
     \<and> (\<not> isAlertClearedRecently t s ''inspection'' \<longrightarrow>
          (inspectionStickerExpiry t = Some today \<longrightarrow>
             alertsTitled ''WV Inspection'' as =
               [\<lparr>atype = ''WV Inspection'', message = ExpiredOn today,
                 priority = overdue\<rparr>])
        \<and> (inspectionStickerExpiry t = Some (today + 30 * dayMs) \<longrightarrow>
             alertsTitled ''WV Inspection'' as =
               [\<lparr>atype = ''WV Inspection'',
                 message = ExpiresIn 30 (today + 30 * dayMs), priority = dueSoon\<rparr>])
        \<and> (inspectionStickerExpiry t = Some (today + 31 * dayMs) \<longrightarrow>
             alertsTitled ''WV Inspection'' as = []))
     \<and> (\<not> isAlertClearedRecently t s ''oemsInspection'' \<longrightarrow>
          (oemsInspectionExpiry t = Some today \<longrightarrow>
             alertsTitled ''OEMS Inspection'' as =
               [\<lparr>atype = ''OEMS Inspection'', message = ExpiredOn today,
                 priority = overdue\<rparr>])
        \<and> (oemsInspectionExpiry t = Some (today + 30 * dayMs) \<longrightarrow>
             alertsTitled ''OEMS Inspection'' as =
               [\<lparr>atype = ''OEMS Inspection'',
                 message = ExpiresIn 30 (today + 30 * dayMs), priority = dueSoon\<rparr>])
        \<and> (oemsInspectionExpiry t = Some (today + 31 * dayMs) \<longrightarrow>
             alertsTitled ''OEMS Inspection'' as = []))"
proof -
  obtain as h where run: "maintenanceAlertsOf t s nowInspection nowOems = Inr (as, h)"
    and i: "alertsTitled ''WV Inspection'' as = fst (inspectionCheck t s nowInspection)"
    and e: "alertsTitled ''OEMS Inspection'' as = fst (oemsInspectionCheck t s nowOems)"
    using maintenanceAlertsOf_returns [OF assms(1-3)] by blast
  show ?thesis
    using run inspectionCheck_boundary [OF assms(4,5), of t s]
      oemsInspectionCheck_boundary [OF assms(6,7), of t s]
    unfolding i [symmetric] e [symmetric] by blast
qed

text \<open>
  The example truck at 2026-01-01T08:00Z: its sticker ran out at 2026-01-01T00:00Z.
\<close>

theorem date_deadline_boundaries_witness:
  "alertsTitled ''WV Inspection''
     (fst (projr (maintenanceAlertsOf exampleTruck 0 1767254400000 1767254400000))) =
       [\<lparr>atype = ''WV Inspection'', message = ExpiredOn 1767225600000, priority = overdue\<rparr>]"
  using date_deadline_boundaries [of exampleTruck 100000 90000 80000 1767225600000
      1767254400000 1767254400000 0]
  by (auto simp: exampleTruck_def isAlertClearedRecently_def dayMs_def)

lemma isAlertClearedRecently_iff:
  "isAlertClearedRecently t (sevenDaysAgoOf now) key = clearedWithinSevenDays t now key"
  by (auto simp: isAlertClearedRecently_def clearedWithinSevenDays_def sevenDaysAgoOf_def
      dayMs_def split: option.splits)

lemma not_cleared_without_record [simp]:
  "\<not> isAlertClearedRecently (t\<lparr>alertsCleared := None\<rparr>) s key"
  by (simp add: isAlertClearedRecently_def)

lemma oilChangeCheck_gate:
  assumes "oilChangeCheck t s = Inr (os, h)"
    "oilChangeCheck (t\<lparr>alertsCleared := None\<rparr>) s = Inr (os0, h0)"
  shows "os = (if isAlertClearedRecently t s ''oilChange'' then [] else os0)"
  using assms by (auto simp: oilChangeCheck_def Let_def split: if_splits option.splits)

lemma brakeChangeCheck_gate:
  assumes "brakeChangeCheck t s = Inr (os, h)"
    "brakeChangeCheck (t\<lparr>alertsCleared := None\<rparr>) s = Inr (os0, h0)"
  shows "os = (if isAlertClearedRecently t s ''brakeChange'' then [] else os0)"
  using assms by (auto simp: brakeChangeCheck_def Let_def split: if_splits option.splits)

lemma tireChangeCheck_gate:
  assumes "tireChangeCheck t s = Inr (os, h)"
    "tireChangeCheck (t\<lparr>alertsCleared := None\<rparr>) s = Inr (os0, h0)"
  shows "os = (if isAlertClearedRecently t s ''tireChange'' then [] else os0)"
  using assms by (auto simp: tireChangeCheck_def Let_def split: if_splits option.splits)

lemma inspectionCheck_gate:
  "fst (inspectionCheck t s n) =
     (if isAlertClearedRecently t s ''inspection'' then []
      else fst (inspectionCheck (t\<lparr>alertsCleared := None\<rparr>) s n))"
  by (simp add: inspectionCheck_def Let_def split: option.splits)

lemma oemsInspectionCheck_gate:
  "fst (oemsInspectionCheck t s n) =
     (if isAlertClearedRecently t s ''oemsInspection'' then []
      else fst (oemsInspectionCheck (t\<lparr>alertsCleared := None\<rparr>) s n))"
  by (simp add: oemsInspectionCheck_def Let_def split: option.splits)

lemma alertsOfKind_checks:
  assumes "oilChangeCheck t (sevenDaysAgoOf now) = Inr (oil, ho)"
    "brakeChangeCheck t (sevenDaysAgoOf now) = Inr (brake, hb)"
    "tireChangeCheck t (sevenDaysAgoOf now) = Inr (tire, ht)"
  shows "alertsOfKind t now n1 n2 ''Oil Change'' = Inr oil"
    and "alertsOfKind t now n1 n2 ''Brake Service'' = Inr brake"
    and "alertsOfKind t now n1 n2 ''Tire Service'' = Inr tire"
    and "alertsOfKind t now n1 n2 ''WV Inspection'' =
           Inr (fst (inspectionCheck t (sevenDaysAgoOf now) n1))"
    and "alertsOfKind t now n1 n2 ''OEMS Inspection'' =
           Inr (fst (oemsInspectionCheck t (sevenDaysAgoOf now) n2))"
proof -
  let ?s = "sevenDaysAgoOf now"
  let ?as = "oil @ fst (inspectionCheck t ?s n1) @ fst (oemsInspectionCheck t ?s n2)
               @ brake @ tire"
  obtain h where run: "maintenanceAlertsOf t ?s n1 n2 = Inr (?as, h)"
    using assms by (simp add: maintenanceAlertsOf_Inr)
  show "alertsOfKind t now n1 n2 ''Oil Change'' = Inr oil"
    and "alertsOfKind t now n1 n2 ''Brake Service'' = Inr brake"
    and "alertsOfKind t now n1 n2 ''Tire Service'' = Inr tire"
    and "alertsOfKind t now n1 n2 ''WV Inspection'' = Inr (fst (inspectionCheck t ?s n1))"
    and "alertsOfKind t now n1 n2 ''OEMS Inspection'' =
           Inr (fst (oemsInspectionCheck t ?s n2))"
    using alertsTitled_whole [OF assms, of n1 n2] by (simp_all add: alertsOfKind_def run)
qed

lemma clearance_gate_each:
  assumes lo: "lastOilChangeMileage t = Some lo"
    and lb: "lastBrakeChangeMileage t = Some lb"
    and lt: "lastTireChangeMileage t = Some lt"
  shows "alertsOfKind t now n1 n2 ''Oil Change'' =
          (if clearedWithinSevenDays t now ''oilChange'' then Inr []
           else alertsOfKind (t\<lparr>alertsCleared := None\<rparr>) now n1 n2 ''Oil Change'')"
    and "alertsOfKind t now n1 n2 ''WV Inspection'' =
          (if clearedWithinSevenDays t now ''inspection'' then Inr []
           else alertsOfKind (t\<lparr>alertsCleared := None\<rparr>) now n1 n2 ''WV Inspection'')"
    and "alertsOfKind t now n1 n2 ''OEMS Inspection'' =
          (if clearedWithinSevenDays t now ''oemsInspection'' then Inr []
           else alertsOfKind (t\<lparr>alertsCleared := None\<rparr>) now n1 n2 ''OEMS Inspection'')"
    and "alertsOfKind t now n1 n2 ''Brake Service'' =
          (if clearedWithinSevenDays t now ''brakeChange'' then Inr []
           else alertsOfKind (t\<lparr>alertsCleared := None\<rparr>) now n1 n2 ''Brake Service'')"
    and "alertsOfKind t now n1 n2 ''Tire Service'' =
          (if clearedWithinSevenDays t now ''tireChange'' then Inr []
           else alertsOfKind (t\<lparr>alertsCleared := None\<rparr>) now n1 n2 ''Tire Service'')"
proof -
  let ?s = "sevenDaysAgoOf now"
  let ?t0 = "t\<lparr>alertsCleared := None\<rparr>"
  obtain oil ho where oil: "oilChangeCheck t ?s = Inr (oil, ho)"
    using oilChangeCheck_returns [OF lo] by blast
  obtain brake hb where brake: "brakeChangeCheck t ?s = Inr (brake, hb)"
    using brakeChangeCheck_returns [OF lb] by blast
  obtain tire ht where tire: "tireChangeCheck t ?s = Inr (tire, ht)"
    using tireChangeCheck_returns [OF lt] by blast
  have lo0: "lastOilChangeMileage ?t0 = Some lo"
    and lb0: "lastBrakeChangeMileage ?t0 = Some lb"
    and lt0: "lastTireChangeMileage ?t0 = Some lt"
    using lo lb lt by simp_all
  obtain oil0 ho0 where oil0: "oilChangeCheck ?t0 ?s = Inr (oil0, ho0)"
    using oilChangeCheck_returns [OF lo0] by blast
  obtain brake0 hb0 where brake0: "brakeChangeCheck ?t0 ?s = Inr (brake0, hb0)"
    using brakeChangeCheck_returns [OF lb0] by blast
  obtain tire0 ht0 where tire0: "tireChangeCheck ?t0 ?s = Inr (tire0, ht0)"
    using tireChangeCheck_returns [OF lt0] by blast
  note a = alertsOfKind_checks [OF oil brake tire, of n1 n2]
  note a0 = alertsOfKind_checks [OF oil0 brake0 tire0, of n1 n2]
  note g = isAlertClearedRecently_iff [of t now, symmetric]
  show "alertsOfKind t now n1 n2 ''Oil Change'' =
          (if clearedWithinSevenDays t now ''oilChange'' then Inr []
           else alertsOfKind ?t0 now n1 n2 ''Oil Change'')"
    using oilChangeCheck_gate [OF oil oil0] by (simp add: a a0 g)
  show "alertsOfKind t now n1 n2 ''WV Inspection'' =
          (if clearedWithinSevenDays t now ''inspection'' then Inr []
           else alertsOfKind ?t0 now n1 n2 ''WV Inspection'')"
    using inspectionCheck_gate [of t ?s n1] by (simp add: a a0 g)
  show "alertsOfKind t now n1 n2 ''OEMS Inspection'' =
          (if clearedWithinSevenDays t now ''oemsInspection'' then Inr []
           else alertsOfKind ?t0 now n1 n2 ''OEMS Inspection'')"
    using oemsInspectionCheck_gate [of t ?s n2] by (simp add: a a0 g)
  show "alertsOfKind t now n1 n2 ''Brake Service'' =
          (if clearedWithinSevenDays t now ''brakeChange'' then Inr []
           else alertsOfKind ?t0 now n1 n2 ''Brake Service'')"
    using brakeChangeCheck_gate [OF brake brake0] by (simp add: a a0 g)
  show "alertsOfKind t now n1 n2 ''Tire Service'' =
          (if clearedWithinSevenDays t now ''tireChange'' then Inr []
           else alertsOfKind ?t0 now n1 n2 ''Tire Service'')"
    using tireChangeCheck_gate [OF tire tire0] by (simp add: a a0 g)
qed

lemma oilChangeCheck_overdue_never_cleared:
  assumes "lastOilChangeMileage t = Some lo" "lo + 5000 \<le> mileage t"
    "lastBrakeChangeMileage t = Some lb" "lastTireChangeMileage t = Some lt"
  shows "alertsOfKind (t\<lparr>alertsCleared := None\<rparr>) now n1 n2 ''Oil Change'' =
           Inr [\<lparr>atype = ''Oil Change'',
                 message = OverdueBy (mileage t - (lo + 5000)) lo (lastOilChange t) (lo + 5000),
                 priority = overdue\<rparr>]"
proof -
  let ?s = "sevenDaysAgoOf now"
  let ?t0 = "t\<lparr>alertsCleared := None\<rparr>"
  have oil0: "oilChangeCheck ?t0 ?s =
      Inr ([\<lparr>atype = ''Oil Change'',
             message = OverdueBy (mileage t - (lo + 5000)) lo (lastOilChange t) (lo + 5000),
             priority = overdue\<rparr>], True)"
    using assms(1,2) by (simp add: oilChangeCheck_def orZero_def Let_def)
  have lb0: "lastBrakeChangeMileage ?t0 = Some lb" and lt0: "lastTireChangeMileage ?t0 = Some lt"
    using assms(3,4) by simp_all
  obtain brake0 hb0 where brake0: "brakeChangeCheck ?t0 ?s = Inr (brake0, hb0)"
    using brakeChangeCheck_returns [OF lb0] by blast
  obtain tire0 ht0 where tire0: "tireChangeCheck ?t0 ?s = Inr (tire0, ht0)"
    using tireChangeCheck_returns [OF lt0] by blast
  show ?thesis by (rule alertsOfKind_checks(1) [OF oil0 brake0 tire0])
qed

section \<open>The clearance gate\<close>

text \<open>
  C5, as amended. The gate of a kind is closed exactly while the kind has a last-cleared
  timestamp \<open>c\<close> with \<open>now - c\<close> less than 7 days; it is open when the timestamp is
  absent or \<open>now - c\<close> is 7 days or more. For a truck whose three last-service mileages
  are recorded and for each of the five kinds: while the gate is closed the evaluation
  reports no alert of the kind, whatever the thresholds; while it is open the evaluation
  reports for the kind what it reports for the same truck with no clearance recorded. In
  particular, when oil is overdue and was cleared at \<open>T\<close>, there is no oil alert at
  \<open>T\<close> plus 6 days, and the overdue oil alert is reported at \<open>T\<close> plus 8 days.
  The truck card reports for every kind what the pass reports when all clock reads of the
  pass give the card's \<open>now\<close>, so it has the same gate.
\<close>

theorem clearance_gate:
  assumes lo: "lastOilChangeMileage t = Some lo"
    and lb: "lastBrakeChangeMileage t = Some lb"
    and lt: "lastTireChangeMileage t = Some lt"
  shows "list_all (\<lambda>(key, title).
           alertsOfKind t now n1 n2 title =
             (if clearedWithinSevenDays t now key then Inr []
              else alertsOfKind (t\<lparr>alertsCleared := None\<rparr>) now n1 n2 title)) alertKinds
     \<and> (\<forall>cl T. alertsCleared t = Some cl \<longrightarrow> cl ''oilChange'' = Some T
            \<longrightarrow> lo + 5000 \<le> mileage t \<longrightarrow>
            alertsOfKind t (T + 6 * dayMs) n1 n2 ''Oil Change'' = Inr []
          \<and> alertsOfKind t (T + 8 * dayMs) n1 n2 ''Oil Change'' =
              Inr [\<lparr>atype = ''Oil Change'',
                    message = OverdueBy (mileage t - (lo + 5000)) lo (lastOilChange t)
                                (lo + 5000),
                    priority = overdue\<rparr>])
     \<and> (\<forall>title.
          map_sum id (\<lambda>as. alertsTitled title (map alertOfInfo as))
            (getMaintenanceAlerts t now) = alertsOfKind t now now now title)"
proof (intro conjI allI impI)
  fix title
  show "map_sum id (\<lambda>as. alertsTitled title (map alertOfInfo as))
      (getMaintenanceAlerts t now) = alertsOfKind t now now now title"
    by (rule getMaintenanceAlerts_kind)
next
  show "list_all (\<lambda>(key, title).
           alertsOfKind t now n1 n2 title =
             (if clearedWithinSevenDays t now key then Inr []
              else alertsOfKind (t\<lparr>alertsCleared := None\<rparr>) now n1 n2 title)) alertKinds"
    unfolding alertKinds_def by (simp add: clearance_gate_each [OF lo lb lt])
next
  fix cl T
  assume cl: "alertsCleared t = Some cl" and T: "cl ''oilChange'' = Some T"
  have "clearedWithinSevenDays t (T + 6 * dayMs) ''oilChange''"
    using cl T by (simp add: clearedWithinSevenDays_def dayMs_def)
  then show "alertsOfKind t (T + 6 * dayMs) n1 n2 ''Oil Change'' = Inr []"
    by (simp add: clearance_gate_each(1) [OF lo lb lt])
next
  fix cl T
  assume cl: "alertsCleared t = Some cl" and T: "cl ''oilChange'' = Some T"
    and due: "lo + 5000 \<le> mileage t"
  have "\<not> clearedWithinSevenDays t (T + 8 * dayMs) ''oilChange''"
    using cl T by (simp add: clearedWithinSevenDays_def dayMs_def)
  then show "alertsOfKind t (T + 8 * dayMs) n1 n2 ''Oil Change'' =
      Inr [\<lparr>atype = ''Oil Change'',
            message = OverdueBy (mileage t - (lo + 5000)) lo (lastOilChange t) (lo + 5000),
            priority = overdue\<rparr>]"
    by (simp add: clearance_gate_each(1) [OF lo lb lt]
        oilChangeCheck_overdue_never_cleared [OF lo due lb lt])
qed

theorem clearance_gate_witness:
  "alertsOfKind exampleClearedTruck (1766649600000 + 6 * dayMs) 0 0 ''Oil Change'' = Inr []
   \<and> alertsOfKind exampleClearedTruck (1766649600000 + 8 * dayMs) 0 0 ''Oil Change'' =
       Inr [\<lparr>atype = ''Oil Change'',
             message = OverdueBy 0 100000 (Some 1700000000000) 105000,
             priority = overdue\<rparr>]"
  using clearance_gate [of exampleClearedTruck 100000 90000 80000 0 0 0]
  by (simp add: exampleClearedTruck_def exampleTruck_def)

text \<open>
  Exactly 7 days after the clearance, at 2026-01-01T08:00Z, the time since the clearance
  does not exceed 7 days, and the oil alert is reported.
\<close>

theorem clearance_gate_counterexample:
  "\<not> (1767254400000 - 1766649600000 > 7 * dayMs)
   \<and> the (alertsCleared exampleClearedTruck) ''oilChange'' = Some 1766649600000
   \<and> alertsOfKind exampleClearedTruck 1767254400000 0 0 ''Oil Change'' =
       Inr [\<lparr>atype = ''Oil Change'',
             message = OverdueBy 0 100000 (Some 1700000000000) 105000,
             priority = overdue\<rparr>]"
  by (simp add: exampleClearedTruck_def exampleTruck_def dayMs_def alertsOfKind_def
      maintenanceAlertsOf_def oilChangeCheck_def inspectionCheck_def oemsInspectionCheck_def
      brakeChangeCheck_def tireChangeCheck_def isAlertClearedRecently_def sevenDaysAgoOf_def
      orZero_def daysUntil_def alertsTitled_def Let_def)

section \<open>Missing optional fields\<close>

text \<open>
  C2. The evaluation of the legacy document throws: the oil rule defaults the absent
  last-service mileage to 0 and finds the oil change overdue at 5000 miles, and the message
  of the alert then calls \<^verbatim>\<open>toLocaleString\<close> on the absent field. The exception
  ends the pass for the whole fleet. With the field stored as 0 the same document gives
  the overdue oil alert, and its absent expiry dates are skipped. The truck card, given
  the legacy document, throws in the same way.
\<close>

theorem missing_last_service_mileage_throws:
  "checkMaintenanceDue False exampleClock [exampleTruck, exampleLegacyTruck] =
     Inl (TypeError ''Cannot read properties of undefined (reading 'toLocaleString')'')
   \<and> checkMaintenanceDue False exampleClock
       [exampleLegacyTruck\<lparr>lastOilChangeMileage := Some 0\<rparr>] =
     Inr [\<lparr>theTruck = exampleLegacyTruck\<lparr>lastOilChangeMileage := Some 0\<rparr>,
           alerts = [\<lparr>atype = ''Oil Change'', message = OverdueBy 0 0 None 5000,
                      priority = overdue\<rparr>],
           hasOverdue = True\<rparr>]
   \<and> getMaintenanceAlerts exampleLegacyTruck 1767254400000 =
     Inl (TypeError ''Cannot read properties of undefined (reading 'toLocaleString')'')"
  by (simp add: checkMaintenanceDue_def checkTruck_def alertedRecently_def exampleClock_def
      exampleLegacyTruck_def exampleTruck_def maintenanceAlertsOf_def oilChangeCheck_def
      inspectionCheck_def oemsInspectionCheck_def brakeChangeCheck_def tireChangeCheck_def
      isAlertClearedRecently_def sevenDaysAgoOf_def orZero_def daysUntil_def dayMs_def
      undefinedToLocaleString_def getMaintenanceAlerts_def cardOilChangeCheck_def Let_def)

section \<open>The pass over the fleet\<close>

lemma checkLoop_acc:
  "checkLoop tm clk ts acc =
     (case checkLoop tm clk ts [] of Inl e \<Rightarrow> Inl e | Inr new \<Rightarrow> Inr (acc @ new))"
proof (induction ts arbitrary: acc)
  case Nil
  then show ?case by simp
next
  case (Cons t ts)
  show ?case
  proof (cases "checkTruck tm clk t")
    case (Inl e)
    then show ?thesis by simp
  next
    case (Inr r)
    show ?thesis
    proof (cases r)
      case None
      with Inr show ?thesis using Cons.IH [of acc] by simp
    next
      case (Some x)
      with Inr show ?thesis
        using Cons.IH [of "acc @ [x]"] Cons.IH [of "[x]"]
        by (simp split: sum.splits)
    qed
  qed
qed

lemma checkMaintenanceDue_Nil: "checkMaintenanceDue tm clk [] = Inr []"
  by (simp add: checkMaintenanceDue_def)

lemma checkMaintenanceDue_Cons:
  "checkMaintenanceDue tm clk (t # ts) =
     (case checkTruck tm clk t of
        Inl e \<Rightarrow> Inl e
      | Inr r \<Rightarrow>
          (case checkMaintenanceDue tm clk ts of
             Inl e \<Rightarrow> Inl e
           | Inr res \<Rightarrow> Inr ((case r of None \<Rightarrow> [] | Some x \<Rightarrow> [x]) @ res)))"
  unfolding checkMaintenanceDue_def
  by (simp add: checkLoop_acc [of tm clk ts "[x]" for x] split: sum.splits option.splits)

lemma isAlertClearedRecently_neverAlerted:
  "isAlertClearedRecently (neverAlerted t) s k = isAlertClearedRecently t s k"
  by (simp add: neverAlerted_def isAlertClearedRecently_def)

lemma neverAlerted_fields:
  "mileage (neverAlerted t) = mileage t"
  "lastOilChange (neverAlerted t) = lastOilChange t"
  "lastOilChangeMileage (neverAlerted t) = lastOilChangeMileage t"
  "inspectionStickerExpiry (neverAlerted t) = inspectionStickerExpiry t"
  "oemsInspectionExpiry (neverAlerted t) = oemsInspectionExpiry t"
  "lastBrakeChange (neverAlerted t) = lastBrakeChange t"
  "lastBrakeChangeMileage (neverAlerted t) = lastBrakeChangeMileage t"
  "lastTireChange (neverAlerted t) = lastTireChange t"
  "lastTireChangeMileage (neverAlerted t) = lastTireChangeMileage t"
  "docId (neverAlerted t) = docId t"
  "status (neverAlerted t) = status t"
  by (simp_all add: neverAlerted_def)

lemma checks_neverAlerted:
  "oilChangeCheck (neverAlerted t) s = oilChangeCheck t s"
  "inspectionCheck (neverAlerted t) s n = inspectionCheck t s n"
  "oemsInspectionCheck (neverAlerted t) s n = oemsInspectionCheck t s n"
  "brakeChangeCheck (neverAlerted t) s = brakeChangeCheck t s"
  "tireChangeCheck (neverAlerted t) s = tireChangeCheck t s"
  unfolding oilChangeCheck_def inspectionCheck_def oemsInspectionCheck_def
    brakeChangeCheck_def tireChangeCheck_def isAlertClearedRecently_neverAlerted
    neverAlerted_fields
  by (rule refl)+

lemma maintenanceAlertsOf_neverAlerted:
  "maintenanceAlertsOf (neverAlerted t) s n1 n2 = maintenanceAlertsOf t s n1 n2"
  unfolding maintenanceAlertsOf_def checks_neverAlerted by (rule refl)

lemma checkTruck_test_mode:
  "checkTruck False clk (neverAlerted t) =
     (case checkTruck True clk t of
        Inl e \<Rightarrow> Inl e
      | Inr r \<Rightarrow> Inr (map_option neverAlertedEntry r))"
proof -
  have gate: "\<not> alertedRecently (neverAlerted t) s" for s
    by (simp add: alertedRecently_def neverAlerted_def)
  show ?thesis
    by (simp add: checkTruck_def Let_def gate neverAlerted_fields
        maintenanceAlertsOf_neverAlerted
        neverAlertedEntry_def split: sum.splits prod.splits)
qed

lemma checkTruck_batch_gate_open:
  "\<not> alertedRecently t (sevenDaysAgoOf (passStart clk)) \<Longrightarrow>
   checkTruck True clk t = checkTruck False clk t"
  by (simp add: checkTruck_def Let_def)

text \<open>The batch gate of the pass is the 7-day window after the last batch.\<close>

lemma alertedRecently_iff:
  "alertedRecently t (sevenDaysAgoOf now) = sentWithinSevenDays t now"
  by (auto simp: alertedRecently_def sentWithinSevenDays_def sevenDaysAgoOf_def dayMs_def
      split: option.splits)

lemma checkMaintenanceDue_test_mode:
  "checkMaintenanceDue False clk (map neverAlerted ts) =
     (case checkMaintenanceDue True clk ts of
        Inl e \<Rightarrow> Inl e
      | Inr res \<Rightarrow> Inr (map neverAlertedEntry res))"
proof (induction ts)
  case Nil
  then show ?case by (simp add: checkMaintenanceDue_Nil)
next
  case (Cons t ts)
  then show ?case
    by (simp add: checkMaintenanceDue_Cons checkTruck_test_mode
        split: sum.splits option.splits)
qed

lemma checkMaintenanceDue_entries:
  "checkMaintenanceDue tm clk ts = Inr res \<Longrightarrow> e \<in> set res \<Longrightarrow>
   theTruck e \<in> set ts \<and> checkTruck tm clk (theTruck e) = Inr (Some e)"
proof (induction ts arbitrary: res)
  case Nil
  then show ?case by (simp add: checkMaintenanceDue_Nil)
next
  case (Cons t ts)
  from Cons.prems(1) obtain r res' where
    r: "checkTruck tm clk t = Inr r" and res': "checkMaintenanceDue tm clk ts = Inr res'"
    and res: "res = (case r of None \<Rightarrow> [] | Some x \<Rightarrow> [x]) @ res'"
    by (auto simp: checkMaintenanceDue_Cons split: sum.splits)
  show ?case
  proof (cases "e \<in> set res'")
    case True
    then show ?thesis using Cons.IH [OF res'] by simp
  next
    case False
    with Cons.prems(2) res have x: "r = Some e" by (cases r) auto
    have "theTruck e = t"
      using r x by (auto simp: checkTruck_def Let_def split: if_splits sum.splits prod.splits)
    then show ?thesis using r x by simp
  qed
qed

lemma checkTruck_Some:
  "checkTruck tm clk t = Inr (Some e) \<Longrightarrow>
   theTruck e = t
   \<and> \<not> (\<not> tm \<and> alertedRecently t (sevenDaysAgoOf (passStart clk)))
   \<and> maintenanceAlertsOf t (sevenDaysAgoOf (passStart clk))
        (dateRead clk (docId t) ''inspection'') (dateRead clk (docId t) ''oemsInspection'') =
      Inr (alerts e, hasOverdue e)"
  by (auto simp: checkTruck_def Let_def split: if_splits sum.splits prod.splits)

lemma checks_closed:
  "oilChangeCheck t s = Inr (os, h) \<Longrightarrow> isAlertClearedRecently t s ''oilChange'' \<Longrightarrow> os = []"
  "brakeChangeCheck t s = Inr (bs, hb) \<Longrightarrow> isAlertClearedRecently t s ''brakeChange'' \<Longrightarrow> bs = []"
  "tireChangeCheck t s = Inr (tis, ht) \<Longrightarrow> isAlertClearedRecently t s ''tireChange'' \<Longrightarrow> tis = []"
  "isAlertClearedRecently t s ''inspection'' \<Longrightarrow> fst (inspectionCheck t s n) = []"
  "isAlertClearedRecently t s ''oemsInspection'' \<Longrightarrow> fst (oemsInspectionCheck t s n) = []"
  by (auto simp: oilChangeCheck_def brakeChangeCheck_def tireChangeCheck_def
      inspectionCheck_def oemsInspectionCheck_def Let_def split: option.splits)

lemma cleared_kinds_have_no_alert:
  assumes run: "maintenanceAlertsOf t (sevenDaysAgoOf now) n1 n2 = Inr (as, h)"
  shows "list_all (\<lambda>(key, title).
           if clearedWithinSevenDays t now key then alertsTitled title as = [] else True)
           alertKinds"
proof -
  let ?s = "sevenDaysAgoOf now"
  obtain oil ho brake hb tire ht where
    oil: "oilChangeCheck t ?s = Inr (oil, ho)"
    and brake: "brakeChangeCheck t ?s = Inr (brake, hb)"
    and tire: "tireChangeCheck t ?s = Inr (tire, ht)"
    and as: "as = oil @ fst (inspectionCheck t ?s n1) @ fst (oemsInspectionCheck t ?s n2)
                  @ brake @ tire"
    using run unfolding maintenanceAlertsOf_Inr by blast
  note w = alertsTitled_whole [OF oil brake tire, of n1 n2, folded as]
  note g = isAlertClearedRecently_iff [of t now, symmetric]
  show ?thesis
    unfolding alertKinds_def
    using checks_closed(1) [OF oil] checks_closed(2) [OF brake] checks_closed(3) [OF tire]
      checks_closed(4) [of t ?s n1] checks_closed(5) [of t ?s n2]
    by (simp add: w g)
qed

section \<open>Trucks that the pass evaluates\<close>

lemma checkTruck_returns:
  assumes "mileagesPresent t"
  shows "\<exists>r. checkTruck tm clk t = Inr r"
proof -
  obtain lo lb lt where "lastOilChangeMileage t = Some lo" "lastBrakeChangeMileage t = Some lb"
    "lastTireChangeMileage t = Some lt"
    using assms by (auto simp: mileagesPresent_def)
  from maintenanceAlertsOf_returns [OF this]
  obtain as h where "maintenanceAlertsOf t (sevenDaysAgoOf (passStart clk))
      (dateRead clk (docId t) ''inspection'') (dateRead clk (docId t) ''oemsInspection'') =
      Inr (as, h)"
    by blast
  then show ?thesis by (simp add: checkTruck_def Let_def)
qed

lemma checkMaintenanceDue_returns:
  "\<forall>t\<in>set ts. mileagesPresent t \<Longrightarrow> \<exists>res. checkMaintenanceDue tm clk ts = Inr res"
proof (induction ts)
  case Nil
  then show ?case by (simp add: checkMaintenanceDue_Nil)
next
  case (Cons t ts)
  then obtain res where res: "checkMaintenanceDue tm clk ts = Inr res" by auto
  obtain r where r: "checkTruck tm clk t = Inr r"
    using checkTruck_returns [of t tm clk] Cons.prems by auto
  show ?case by (simp add: checkMaintenanceDue_Cons res r)
qed

lemma checkMaintenanceDue_pushed:
  "checkMaintenanceDue tm clk ts = Inr res \<Longrightarrow> t \<in> set ts \<Longrightarrow>
   checkTruck tm clk t = Inr (Some e) \<Longrightarrow> e \<in> set res"
proof (induction ts arbitrary: res)
  case Nil
  then show ?case by simp
next
  case (Cons t' ts)
  from Cons.prems(1) obtain r res' where
    r: "checkTruck tm clk t' = Inr r" and res': "checkMaintenanceDue tm clk ts = Inr res'"
    and res: "res = (case r of None \<Rightarrow> [] | Some x \<Rightarrow> [x]) @ res'"
    by (auto simp: checkMaintenanceDue_Cons split: sum.splits)
  show ?case
  proof (cases "t = t'")
    case True
    then show ?thesis using r res Cons.prems(3) by simp
  next
    case False
    then have "t \<in> set ts" using Cons.prems(2) by simp
    then show ?thesis using Cons.IH [OF res' _ Cons.prems(3)] res by simp
  qed
qed

lemma no_alerts_no_overdue:
  assumes "maintenanceAlertsOf t s n1 n2 = Inr ([], h)"
  shows "\<not> h"
proof -
  obtain oil ho brake hb tire ht where
    oil: "oilChangeCheck t s = Inr (oil, ho)"
    and brake: "brakeChangeCheck t s = Inr (brake, hb)"
    and tire: "tireChangeCheck t s = Inr (tire, ht)"
    and as: "[] = oil @ fst (inspectionCheck t s n1) @ fst (oemsInspectionCheck t s n2)
                  @ brake @ tire"
    and h: "h = (ho \<or> snd (inspectionCheck t s n1) \<or> snd (oemsInspectionCheck t s n2)
                  \<or> hb \<or> ht)"
    using assms unfolding maintenanceAlertsOf_Inr by blast
  have "\<not> ho" using oil as
    by (auto simp: oilChangeCheck_def Let_def split: if_splits option.splits)
  moreover have "\<not> hb" using brake as
    by (auto simp: brakeChangeCheck_def Let_def split: if_splits option.splits)
  moreover have "\<not> ht" using tire as
    by (auto simp: tireChangeCheck_def Let_def split: if_splits option.splits)
  moreover have "\<not> snd (inspectionCheck t s n1)" using as
    by (auto simp: inspectionCheck_def Let_def split: if_splits option.splits)
  moreover have "\<not> snd (oemsInspectionCheck t s n2)" using as
    by (auto simp: oemsInspectionCheck_def Let_def split: if_splits option.splits)
  ultimately show ?thesis using h by simp
qed

section \<open>The dispatcher\<close>

lemma sendWithMailerSend_outcome:
  assumes "key \<noteq> []"
  shows "sendWithMailerSend chan (sendParamsFor key batch r) =
     (if email r = [] then Inl (Error ''fromEmail, toEmail, and subject are required'')
      else if sendFails (chan (email r)) then Inl (sendError (chan (email r)))
      else (case chan (email r) of
              FetchResponse st mid body \<Rightarrow>
                Inr \<lparr>messageId = mid, sendStatus = st, accepted = [email r], rejected = []\<rparr>
            | FetchRejects e \<Rightarrow> Inl e))"
  using assms
  by (simp add: sendWithMailerSend_def sendParamsFor_def sendFails_def sendError_def
      split: fetchOutcome.splits)

lemma promiseAll_single_rejection:
  assumes "x \<in> set xs" "f x = Inl e" "\<forall>y\<in>set xs. y \<noteq> x \<longrightarrow> (\<exists>v. f y = Inr v)"
  shows "promiseAll (map f xs) = Inl e"
  using assms
proof (induction xs)
  case Nil
  then show ?case by simp
next
  case (Cons a xs)
  show ?case
  proof (cases "a = x")
    case True
    then show ?thesis using Cons.prems(2) by simp
  next
    case False
    then obtain v where v: "f a = Inr v" using Cons.prems(3) by auto
    have "promiseAll (map f xs) = Inl e"
      using Cons.IH Cons.prems False by auto
    then show ?thesis using v by simp
  qed
qed

lemma recipients_have_addresses: "\<forall>r\<in>set recipients. email r \<noteq> []"
  by (simp add: recipients_def)

lemma callsMade_all:
  assumes "key \<noteq> []"
  shows "callsMade chan (map (sendParamsFor key batch) recipients) =
           map (\<lambda>r. (email r, chan (email r))) recipients"
  using assms
  by (simp add: callsMade_def sendParamsFor_def recipients_def)

lemma messagesMade_all:
  assumes "key \<noteq> []"
  shows "messagesMade (map (sendParamsFor key batch) recipients) =
           map (sendParamsFor key batch) recipients"
  using assms
  by (simp add: messagesMade_def sendParamsFor_def recipients_def)

text \<open>The invocation when every send succeeds, and when there is nothing to send.\<close>

lemma promiseAll_all_fulfilled:
  "\<forall>x\<in>set xs. f x = Inr (g x) \<Longrightarrow> promiseAll (map f xs) = Inr (map g xs)"
  by (induction xs) simp_all

lemma sendMaintenanceAlert_delivers:
  assumes noPreflight: "reqMethod req \<noteq> ''OPTIONS''"
    and keySet: "key \<noteq> []"
    and passOk: "checkMaintenanceDue (testModeOf req) clk db = Inr batch"
    and batch: "batch \<noteq> []"
    and sendsOk: "\<forall>r\<in>set recipients. \<not> sendFails (chan (email r))"
  shows "sendMaintenanceAlert key chan clk req db =
     \<lparr>response = Status200Ok
        \<lparr>okTrucksWithMaintenance = length batch,
         okRecipients = length recipients,
         okRecipientEmails = map email recipients,
         okMessageIds = map (\<lambda>r. messageIdOf (chan (email r))) recipients,
         okAccepted = map email recipients,
         okRejected = []\<rparr>,
      dbAfter = updateAllLastSent clk batch db,
      channelCalls = map (\<lambda>r. (email r, chan (email r))) recipients,
      sentMessages = map (sendParamsFor key batch) recipients\<rparr>"
proof -
  let ?send = "\<lambda>r. sendWithMailerSend chan (sendParamsFor key batch r)"
  let ?result = "\<lambda>r. \<lparr>messageId = messageIdOf (chan (email r)),
      sendStatus = (case chan (email r) of FetchResponse st mid body \<Rightarrow> st | _ \<Rightarrow> 0),
      accepted = [email r], rejected = []\<rparr>"
  have good: "\<forall>r\<in>set recipients. ?send r = Inr (?result r)"
  proof
    fix r assume r: "r \<in> set recipients"
    then have "\<not> sendFails (chan (email r))" "email r \<noteq> []"
      using sendsOk recipients_have_addresses by auto
    then show "?send r = Inr (?result r)"
      by (auto simp: sendWithMailerSend_outcome [OF keySet] sendFails_def messageIdOf_def
          split: fetchOutcome.splits)
  qed
  have all: "promiseAll (map (sendWithMailerSend chan) (map (sendParamsFor key batch) recipients))
      = Inr (map ?result recipients)"
    using promiseAll_all_fulfilled [of recipients ?send ?result, OF good]
    by (simp add: comp_def)
  have acc: "concat (map accepted (map ?result recipients)) = map email recipients"
    by (simp add: recipients_def)
  have rej: "concat (map rejected (map ?result recipients)) = []"
    by (simp add: recipients_def)
  have ids: "map messageId (map ?result recipients) =
      map (\<lambda>r. messageIdOf (chan (email r))) recipients"
    by (simp add: comp_def)
  show ?thesis
    unfolding sendMaintenanceAlert_def Let_def passOk
    apply (subst if_not_P [OF noPreflight])
    apply (simp only: sum.case)
    apply (subst if_not_P)
    using batch apply simp
    apply (simp only: all sum.case acc rej ids callsMade_all [OF keySet] messagesMade_all [OF keySet])
    done
qed

lemma sendMaintenanceAlert_quiet:
  assumes noPreflight: "reqMethod req \<noteq> ''OPTIONS''"
  shows "checkMaintenanceDue (testModeOf req) clk db = Inl e \<Longrightarrow>
         sendMaintenanceAlert key chan clk req db =
           \<lparr>response = errorResponse e, dbAfter = db, channelCalls = [], sentMessages = []\<rparr>"
    and "checkMaintenanceDue (testModeOf req) clk db = Inr [] \<Longrightarrow>
         sendMaintenanceAlert key chan clk req db =
           \<lparr>response = Status200NoMaintenance 0, dbAfter = db, channelCalls = [],
            sentMessages = []\<rparr>"
  using noPreflight by (simp_all add: sendMaintenanceAlert_def Let_def)

text \<open>Every message that reaches the channel carries the digest of the batch.\<close>

lemma sendMaintenanceAlert_messages:
  assumes noPreflight: "reqMethod req \<noteq> ''OPTIONS''"
    and passOk: "checkMaintenanceDue (testModeOf req) clk db = Inr batch"
    and batch: "batch \<noteq> []"
  shows "sentMessages (sendMaintenanceAlert key chan clk req db) =
     (if key = [] then [] else map (sendParamsFor key batch) recipients)"
proof -
  let ?ps = "map (sendParamsFor key batch) recipients"
  have made: "messagesMade ?ps = (if key = [] then [] else ?ps)"
  proof (cases "key = []")
    case True
    have unset: "apiKey (sendParamsFor [] batch r) = []" for r
      by (simp add: sendParamsFor_def)
    show ?thesis
      unfolding True messagesMade_def by (simp add: filter_empty_conv unset)
  next
    case False
    then show ?thesis by (simp add: messagesMade_all [OF False])
  qed
  have len: "length batch \<noteq> 0" using batch by simp
  have run: "sendMaintenanceAlert key chan clk req db =
      (case promiseAll (map (sendWithMailerSend chan) ?ps) of
         Inl err \<Rightarrow>
           \<lparr>response = errorResponse err, dbAfter = db, channelCalls = callsMade chan ?ps,
            sentMessages = messagesMade ?ps\<rparr>
       | Inr results \<Rightarrow>
           \<lparr>response = Status200Ok
              \<lparr>okTrucksWithMaintenance = length batch,
               okRecipients = length recipients,
               okRecipientEmails = map email recipients,
               okMessageIds = map messageId results,
               okAccepted = concat (map accepted results),
               okRejected = concat (map rejected results)\<rparr>,
            dbAfter = updateAllLastSent clk batch db,
            channelCalls = callsMade chan ?ps, sentMessages = messagesMade ?ps\<rparr>)"
    unfolding sendMaintenanceAlert_def Let_def passOk
    apply (subst if_not_P [OF noPreflight])
    apply (simp only: sum.case)
    apply (subst if_not_P [OF len])
    apply (rule refl)
    done
  have "sentMessages (sendMaintenanceAlert key chan clk req db) = messagesMade ?ps"
    unfolding run by (cases "promiseAll (map (sendWithMailerSend chan) ?ps)") simp_all
  then show ?thesis unfolding made .
qed

lemma sentMessages_digest:
  assumes "p \<in> set (sentMessages (sendMaintenanceAlert key chan clk req db))"
  shows "\<exists>batch. checkMaintenanceDue (testModeOf req) clk db = Inr batch
           \<and> html p = createMaintenanceEmailHTML batch"
proof (cases "reqMethod req = ''OPTIONS''")
  case True
  then show ?thesis using assms by (simp add: sendMaintenanceAlert_def)
next
  case False
  show ?thesis
  proof (cases "checkMaintenanceDue (testModeOf req) clk db")
    case (Inl e)
    then show ?thesis using assms sendMaintenanceAlert_quiet(1) [OF False Inl] by simp
  next
    case (Inr batch)
    show ?thesis
    proof (cases "batch = []")
      case True
      then show ?thesis using assms sendMaintenanceAlert_quiet(2) [OF False] Inr by simp
    next
      case ne: False
      have "p \<in> set (map (sendParamsFor key batch) recipients)"
        using assms unfolding sendMaintenanceAlert_messages [OF False Inr ne]
        by (simp split: if_splits)
      then obtain r where "p = sendParamsFor key batch r" by auto
      then have "html p = createMaintenanceEmailHTML batch"
        by (simp add: sendParamsFor_def)
      then show ?thesis using Inr by simp
    qed
  qed
qed

text \<open>The updates after a send stamp the documents of the batch.\<close>

lemma updateAllLastSent_stamps:
  "updateAllLastSent clk batch db =
     map (\<lambda>d. if docId d \<in> set (map (\<lambda>e. docId (theTruck e)) batch)
               then d\<lparr>lastMaintenanceAlertSent := Some (updateRead clk (docId d))\<rparr>
               else d) db"
proof (induction batch arbitrary: db)
  case Nil
  then show ?case by simp
next
  case (Cons e es)
  show ?case
    unfolding updateAllLastSent.simps Cons.IH updateLastSent_def
    by (auto simp: comp_def)
qed


text \<open>
  C3, as amended. Let a dispatch reach the sends (the request is no preflight, the API key
  is set, the pass returns a non-empty batch), and let the send of exactly one recipient
  \<open>r\<close> of the list fail. Then all five channel calls are made, each with its own outcome,
  and the other four recipients are delivered to; the collection is left as it was, so
  \<^verbatim>\<open>lastMaintenanceAlertSent\<close> is unchanged for every vehicle; and the invocation
  answers with the single 500 response built from the exception of the failing send, which
  carries no list of rejected recipients.
\<close>

theorem partial_failure_isolation:
  assumes noPreflight: "reqMethod req \<noteq> ''OPTIONS''"
    and keySet: "key \<noteq> []"
    and passOk: "checkMaintenanceDue (testModeOf req) clk db = Inr batch"
    and batch: "batch \<noteq> []"
    and r: "r \<in> set recipients"
    and fails: "sendFails (chan (email r))"
    and others: "\<forall>r'\<in>set recipients. r' \<noteq> r \<longrightarrow> \<not> sendFails (chan (email r'))"
  shows "channelCalls (sendMaintenanceAlert key chan clk req db) =
           map (\<lambda>r'. (email r', chan (email r'))) recipients
     \<and> deliveredTo (sendMaintenanceAlert key chan clk req db) =
           map email (filter (\<lambda>r'. r' \<noteq> r) recipients)
     \<and> dbAfter (sendMaintenanceAlert key chan clk req db) = db
     \<and> response (sendMaintenanceAlert key chan clk req db) =
           errorResponse (sendError (chan (email r)))
     \<and> reportedRejected (response (sendMaintenanceAlert key chan clk req db)) = []"
proof -
  let ?send = "\<lambda>r'. sendWithMailerSend chan (sendParamsFor key batch r')"
  have bad: "?send r = Inl (sendError (chan (email r)))"
    using r fails recipients_have_addresses
    by (simp add: sendWithMailerSend_outcome [OF keySet])
  have good: "\<forall>y\<in>set recipients. y \<noteq> r \<longrightarrow> (\<exists>v. ?send y = Inr v)"
  proof (intro ballI impI)
    fix y assume y: "y \<in> set recipients" "y \<noteq> r"
    then have "\<not> sendFails (chan (email y))" "email y \<noteq> []"
      using others recipients_have_addresses by auto
    then show "\<exists>v. ?send y = Inr v"
      by (auto simp: sendWithMailerSend_outcome [OF keySet] sendFails_def
          split: fetchOutcome.splits)
  qed
  have all: "promiseAll (map (sendWithMailerSend chan) (map (sendParamsFor key batch) recipients))
      = Inl (sendError (chan (email r)))"
    using promiseAll_single_rejection [of r recipients ?send, OF r bad good]
    by (simp add: comp_def)
  have inv: "sendMaintenanceAlert key chan clk req db =
      \<lparr>response = errorResponse (sendError (chan (email r))), dbAfter = db,
       channelCalls = map (\<lambda>r'. (email r', chan (email r'))) recipients,
       sentMessages = map (sendParamsFor key batch) recipients\<rparr>"
    using noPreflight passOk batch all
    by (simp add: sendMaintenanceAlert_def Let_def callsMade_all [OF keySet]
        messagesMade_all [OF keySet])
  have delivered: "filter (\<lambda>r'. \<not> sendFails (chan (email r'))) recipients =
      filter (\<lambda>r'. r' \<noteq> r) recipients"
    using fails others by (intro filter_cong refl) auto
  have "map fst (filter (\<lambda>(to, out). \<not> sendFails out)
          (map (\<lambda>r'. (email r', chan (email r'))) recipients)) =
        map email (filter (\<lambda>r'. \<not> sendFails (chan (email r'))) recipients)"
    by (simp add: filter_map comp_def)
  then show ?thesis
    by (simp add: inv deliveredTo_def delivered reportedRejected_def errorResponse_def)
qed

text \<open>
  A daily-style run at 2026-01-01T08:00Z over a fleet of the example truck alone; the
  channel refuses the third recipient.
\<close>

theorem partial_failure_isolation_witness:
  "deliveredTo (sendMaintenanceAlert ''key'' exampleChannel exampleClock exampleRequest
       [exampleTruck]) =
     [''john.browning@lincolnems.com'', ''deathlikesnake6@gmail.com'',
      ''sergentlatosha@gmail.com'', ''charley.egnor@lincolnems.com'']
   \<and> dbAfter (sendMaintenanceAlert ''key'' exampleChannel exampleClock exampleRequest
       [exampleTruck]) = [exampleTruck]"
proof -
  let ?r = "\<lparr>email = ''tw4001@aol.com'', name = ''Trish Watson''\<rparr>"
  let ?batch = "[\<lparr>theTruck = exampleTruck,
      alerts = [\<lparr>atype = ''Oil Change'',
                 message = OverdueBy 0 100000 (Some 1700000000000) 105000,
                 priority = overdue\<rparr>,
                \<lparr>atype = ''WV Inspection'', message = ExpiredOn 1767225600000,
                 priority = overdue\<rparr>],
      hasOverdue = True\<rparr>]"
  have noPreflight: "reqMethod exampleRequest \<noteq> ''OPTIONS''"
    by (simp add: exampleRequest_def)
  have keySet: "''key'' \<noteq> []" by simp
  have passOk: "checkMaintenanceDue (testModeOf exampleRequest) exampleClock [exampleTruck] =
      Inr ?batch"
    by (simp add: checkMaintenanceDue_def checkTruck_def alertedRecently_def exampleClock_def
        exampleRequest_def testModeOf_def exampleTruck_def maintenanceAlertsOf_def
        oilChangeCheck_def inspectionCheck_def oemsInspectionCheck_def brakeChangeCheck_def
        tireChangeCheck_def isAlertClearedRecently_def sevenDaysAgoOf_def orZero_def
        daysUntil_def dayMs_def Let_def)
  have batch: "?batch \<noteq> []" by simp
  have r: "?r \<in> set recipients" by (simp add: recipients_def)
  have fails: "sendFails (exampleChannel (email ?r))"
    by (simp add: sendFails_def exampleChannel_def responseOk_def)
  have others: "\<forall>r'\<in>set recipients. r' \<noteq> ?r \<longrightarrow> \<not> sendFails (exampleChannel (email r'))"
    by (simp add: recipients_def sendFails_def exampleChannel_def responseOk_def)
  show ?thesis
    using partial_failure_isolation [OF noPreflight keySet passOk batch r fails others]
    by (simp add: recipients_def)
qed

text \<open>
  In that run the response is the 500 response of the refused send; the refused recipient
  is not in a rejected list of the response.
\<close>

theorem partial_failure_isolation_counterexample:
  "response (sendMaintenanceAlert ''key'' exampleChannel exampleClock exampleRequest
       [exampleTruck]) =
     Status500 ''Error: The to.0.email must be a valid email address.''
       ''The to.0.email must be a valid email address.''
   \<and> ''tw4001@aol.com'' \<notin> set (reportedRejected (response
         (sendMaintenanceAlert ''key'' exampleChannel exampleClock exampleRequest
            [exampleTruck])))"
proof -
  have noPreflight: "reqMethod exampleRequest \<noteq> ''OPTIONS''"
    by (simp add: exampleRequest_def)
  have passOk: "checkMaintenanceDue (testModeOf exampleRequest) exampleClock [exampleTruck] =
      Inr [\<lparr>theTruck = exampleTruck,
      alerts = [\<lparr>atype = ''Oil Change'',
                 message = OverdueBy 0 100000 (Some 1700000000000) 105000,
                 priority = overdue\<rparr>,
                \<lparr>atype = ''WV Inspection'', message = ExpiredOn 1767225600000,
                 priority = overdue\<rparr>],
      hasOverdue = True\<rparr>]"
    by (simp add: checkMaintenanceDue_def checkTruck_def alertedRecently_def exampleClock_def
        exampleRequest_def testModeOf_def exampleTruck_def maintenanceAlertsOf_def
        oilChangeCheck_def inspectionCheck_def oemsInspectionCheck_def brakeChangeCheck_def
        tireChangeCheck_def isAlertClearedRecently_def sevenDaysAgoOf_def orZero_def
        daysUntil_def dayMs_def Let_def)
  have sends: "promiseAll (map (sendWithMailerSend exampleChannel)
        (map (sendParamsFor ''key'' batch) recipients)) =
      Inl (Error ''The to.0.email must be a valid email address.'')" for batch
    by (simp add: recipients_def sendWithMailerSend_def sendParamsFor_def exampleChannel_def
        responseOk_def apiErrorMessage_def)
  have "response (sendMaintenanceAlert ''key'' exampleChannel exampleClock exampleRequest
       [exampleTruck]) =
     errorResponse (Error ''The to.0.email must be a valid email address.'')"
    using noPreflight by (simp add: sendMaintenanceAlert_def Let_def passOk sends del: map_map)
  then show ?thesis
    by (simp add: errorResponse_def errMessage_def errString_def reportedRejected_def)
qed

section \<open>Test mode\<close>

text \<open>
  C8. When the request carries the test flag (\<^verbatim>\<open>?test=true\<close>, or \<^verbatim>\<open>test: true\<close> in
  the body), the pass runs in test mode, and a test-mode pass over a fleet is the normal
  pass over the same fleet with every \<^verbatim>\<open>lastMaintenanceAlertSent\<close> erased: the batch
  gate is bypassed and nothing else changes. A truck for which no batch was sent within 7
  days gets from the test-mode pass what it gets from the normal pass. In every entry of a
  test-mode pass, a kind cleared less than 7 days before the pass has no alert. The
  trigger acts on that pass: a flagged request that is no preflight answers 500 when the
  test-mode pass throws, and 200 with nothing sent when it returns no truck; otherwise,
  with an API key, it hands one message per recipient to the channel, each with the digest
  of the test-mode batch, and when every send succeeds it answers 200 with the size of
  that batch and stamps \<^verbatim>\<open>lastMaintenanceAlertSent\<close> on its trucks.
\<close>

theorem test_mode_bypasses_batch_gate_only:
  assumes flag: "queryTest req = JString ''true'' \<or> bodyTest req = Some (JBool True)"
  shows "testModeOf req
     \<and> checkMaintenanceDue False clk (map neverAlerted ts) =
         (case checkMaintenanceDue (testModeOf req) clk ts of
            Inl e \<Rightarrow> Inl e
          | Inr res \<Rightarrow> Inr (map neverAlertedEntry res))
     \<and> (\<forall>t. \<not> sentWithinSevenDays t (passStart clk) \<longrightarrow>
            checkTruck (testModeOf req) clk t = checkTruck False clk t)
     \<and> (\<forall>res e. checkMaintenanceDue (testModeOf req) clk ts = Inr res \<longrightarrow> e \<in> set res \<longrightarrow>
            list_all (\<lambda>(key, title).
              if clearedWithinSevenDays (theTruck e) (passStart clk) key
              then alertsTitled title (alerts e) = [] else True) alertKinds)
     \<and> (reqMethod req \<noteq> ''OPTIONS'' \<longrightarrow>
          (case checkMaintenanceDue True clk ts of
             Inl e \<Rightarrow>
               sendMaintenanceAlert mailKey chan clk req ts =
                 \<lparr>response = errorResponse e, dbAfter = ts, channelCalls = [],
                  sentMessages = []\<rparr>
           | Inr batch \<Rightarrow>
               if batch = [] then
                 sendMaintenanceAlert mailKey chan clk req ts =
                   \<lparr>response = Status200NoMaintenance 0, dbAfter = ts, channelCalls = [],
                    sentMessages = []\<rparr>
               else
                 sentMessages (sendMaintenanceAlert mailKey chan clk req ts) =
                   (if mailKey = [] then [] else map (sendParamsFor mailKey batch) recipients)
                 \<and> (mailKey \<noteq> [] \<and> (\<forall>r\<in>set recipients. \<not> sendFails (chan (email r))) \<longrightarrow>
                      sendMaintenanceAlert mailKey chan clk req ts =
                        \<lparr>response = Status200Ok
                           \<lparr>okTrucksWithMaintenance = length batch,
                            okRecipients = length recipients,
                            okRecipientEmails = map email recipients,
                            okMessageIds = map (\<lambda>r. messageIdOf (chan (email r))) recipients,
                            okAccepted = map email recipients,
                            okRejected = []\<rparr>,
                         dbAfter = updateAllLastSent clk batch ts,
                         channelCalls = map (\<lambda>r. (email r, chan (email r))) recipients,
                         sentMessages = map (sendParamsFor mailKey batch) recipients\<rparr>)))"
proof -
  have tm: "testModeOf req"
    using flag by (auto simp: testModeOf_def)
  have cleared: "list_all (\<lambda>(key, title).
        if clearedWithinSevenDays (theTruck e) (passStart clk) key
        then alertsTitled title (alerts e) = [] else True) alertKinds"
    if res: "checkMaintenanceDue True clk ts = Inr res" and e: "e \<in> set res" for res e
  proof -
    have "checkTruck True clk (theTruck e) = Inr (Some e)"
      using checkMaintenanceDue_entries [OF res e] by simp
    then show ?thesis
      using checkTruck_Some cleared_kinds_have_no_alert by blast
  qed
  have trigger: "(case checkMaintenanceDue True clk ts of
             Inl e \<Rightarrow>
               sendMaintenanceAlert mailKey chan clk req ts =
                 \<lparr>response = errorResponse e, dbAfter = ts, channelCalls = [],
                  sentMessages = []\<rparr>
           | Inr batch \<Rightarrow>
               if batch = [] then
                 sendMaintenanceAlert mailKey chan clk req ts =
                   \<lparr>response = Status200NoMaintenance 0, dbAfter = ts, channelCalls = [],
                    sentMessages = []\<rparr>
               else
                 sentMessages (sendMaintenanceAlert mailKey chan clk req ts) =
                   (if mailKey = [] then [] else map (sendParamsFor mailKey batch) recipients)
                 \<and> (mailKey \<noteq> [] \<and> (\<forall>r\<in>set recipients. \<not> sendFails (chan (email r))) \<longrightarrow>
                      sendMaintenanceAlert mailKey chan clk req ts =
                        \<lparr>response = Status200Ok
                           \<lparr>okTrucksWithMaintenance = length batch,
                            okRecipients = length recipients,
                            okRecipientEmails = map email recipients,
                            okMessageIds = map (\<lambda>r. messageIdOf (chan (email r))) recipients,
                            okAccepted = map email recipients,
                            okRejected = []\<rparr>,
                         dbAfter = updateAllLastSent clk batch ts,
                         channelCalls = map (\<lambda>r. (email r, chan (email r))) recipients,
                         sentMessages = map (sendParamsFor mailKey batch) recipients\<rparr>))"
    if noPreflight: "reqMethod req \<noteq> ''OPTIONS''"
  proof (cases "checkMaintenanceDue True clk ts")
    case (Inl e)
    then have "checkMaintenanceDue (testModeOf req) clk ts = Inl e" using tm by simp
    from sendMaintenanceAlert_quiet(1) [OF noPreflight this, of mailKey chan]
    show ?thesis unfolding Inl sum.case .
  next
    case (Inr batch)
    then have passOk: "checkMaintenanceDue (testModeOf req) clk ts = Inr batch"
      using tm by simp
    show ?thesis
    proof (cases "batch = []")
      case True
      from sendMaintenanceAlert_quiet(2) [OF noPreflight passOk [unfolded True], of mailKey chan]
      show ?thesis unfolding Inr sum.case True if_P [OF refl] .
    next
      case False
      note msgs = sendMaintenanceAlert_messages [OF noPreflight passOk False, of mailKey chan]
      have full: "mailKey \<noteq> [] \<and> (\<forall>r\<in>set recipients. \<not> sendFails (chan (email r))) \<longrightarrow>
          sendMaintenanceAlert mailKey chan clk req ts =
            \<lparr>response = Status200Ok
               \<lparr>okTrucksWithMaintenance = length batch,
                okRecipients = length recipients,
                okRecipientEmails = map email recipients,
                okMessageIds = map (\<lambda>r. messageIdOf (chan (email r))) recipients,
                okAccepted = map email recipients,
                okRejected = []\<rparr>,
             dbAfter = updateAllLastSent clk batch ts,
             channelCalls = map (\<lambda>r. (email r, chan (email r))) recipients,
             sentMessages = map (sendParamsFor mailKey batch) recipients\<rparr>"
        using sendMaintenanceAlert_delivers [OF noPreflight _ passOk False, of mailKey chan]
        by blast
      show ?thesis
        unfolding Inr sum.case if_not_P [OF False] using msgs full by (rule conjI)
    qed
  qed
  have gate: "checkTruck (testModeOf req) clk t = checkTruck False clk t"
    if "\<not> sentWithinSevenDays t (passStart clk)" for t
    using that tm checkTruck_batch_gate_open [of t clk]
    by (simp add: alertedRecently_iff)
  show ?thesis
    using tm cleared checkMaintenanceDue_test_mode [of clk ts] gate trigger
    by simp
qed


text \<open>
  The example truck that was part of yesterday's batch and had its oil alert cleared three
  days ago. The normal pass skips it and a request without the flag answers that nothing is
  due. The test pass reports the expired sticker and the brake service, and no oil alert
  although the oil change is due; the flagged request sends that digest to the five
  recipients.
\<close>

theorem test_mode_bypasses_batch_gate_only_witness:
  "testModeOf exampleTestRequest
   \<and> checkMaintenanceDue False exampleClock (map neverAlerted [exampleSentTruck]) =
       (case checkMaintenanceDue (testModeOf exampleTestRequest) exampleClock
               [exampleSentTruck] of
          Inl e \<Rightarrow> Inl e
        | Inr res \<Rightarrow> Inr (map neverAlertedEntry res))
   \<and> checkMaintenanceDue False exampleClock [exampleSentTruck] = Inr []
   \<and> checkMaintenanceDue (testModeOf exampleTestRequest) exampleClock [exampleSentTruck] =
       Inr [\<lparr>theTruck = exampleSentTruck,
             alerts = [\<lparr>atype = ''WV Inspection'', message = ExpiredOn 1767225600000,
                        priority = overdue\<rparr>,
                       \<lparr>atype = ''Brake Service'',
                        message = DueIn 2000 82000 None 107000, priority = dueSoon\<rparr>],
             hasOverdue = True\<rparr>]
   \<and> response (sendMaintenanceAlert ''key'' exampleAcceptingChannel exampleClock
         exampleRequest [exampleSentTruck]) = Status200NoMaintenance 0
   \<and> response (sendMaintenanceAlert ''key'' exampleAcceptingChannel exampleClock
         exampleTestRequest [exampleSentTruck]) =
       Status200Ok
         \<lparr>okTrucksWithMaintenance = 1, okRecipients = 5,
          okRecipientEmails =
            [''john.browning@lincolnems.com'', ''deathlikesnake6@gmail.com'',
             ''tw4001@aol.com'', ''sergentlatosha@gmail.com'',
             ''charley.egnor@lincolnems.com''],
          okMessageIds =
            [Some ''id-john.browning@lincolnems.com'', Some ''id-deathlikesnake6@gmail.com'',
             Some ''id-tw4001@aol.com'', Some ''id-sergentlatosha@gmail.com'',
             Some ''id-charley.egnor@lincolnems.com''],
          okAccepted =
            [''john.browning@lincolnems.com'', ''deathlikesnake6@gmail.com'',
             ''tw4001@aol.com'', ''sergentlatosha@gmail.com'',
             ''charley.egnor@lincolnems.com''],
          okRejected = []\<rparr>
   \<and> set (map html (sentMessages (sendMaintenanceAlert ''key'' exampleAcceptingChannel
         exampleClock exampleTestRequest [exampleSentTruck]))) =
       {createMaintenanceEmailHTML
          [\<lparr>theTruck = exampleSentTruck,
            alerts = [\<lparr>atype = ''WV Inspection'', message = ExpiredOn 1767225600000,
                       priority = overdue\<rparr>,
                      \<lparr>atype = ''Brake Service'',
                       message = DueIn 2000 82000 None 107000, priority = dueSoon\<rparr>],
            hasOverdue = True\<rparr>]}"
proof -
  let ?entry = "\<lparr>theTruck = exampleSentTruck,
             alerts = [\<lparr>atype = ''WV Inspection'', message = ExpiredOn 1767225600000,
                        priority = overdue\<rparr>,
                       \<lparr>atype = ''Brake Service'',
                        message = DueIn 2000 82000 None 107000, priority = dueSoon\<rparr>],
             hasOverdue = True\<rparr>"
  let ?test = "sendMaintenanceAlert ''key'' exampleAcceptingChannel exampleClock
      exampleTestRequest [exampleSentTruck]"
  have flag: "queryTest exampleTestRequest = JString ''true''
      \<or> bodyTest exampleTestRequest = Some (JBool True)"
    by (simp add: exampleTestRequest_def)
  have noPreflight: "reqMethod exampleTestRequest \<noteq> ''OPTIONS''"
    by (simp add: exampleTestRequest_def)
  have noPreflight': "reqMethod exampleRequest \<noteq> ''OPTIONS''"
    by (simp add: exampleRequest_def)
  have normalMode: "testModeOf exampleRequest = False"
    by (simp add: exampleRequest_def testModeOf_def)
  have normal: "checkMaintenanceDue False exampleClock [exampleSentTruck] = Inr []"
    by (simp add: checkMaintenanceDue_def checkTruck_def alertedRecently_def exampleClock_def
        exampleSentTruck_def exampleTruck_def sevenDaysAgoOf_def Let_def)
  have test: "checkMaintenanceDue True exampleClock [exampleSentTruck] = Inr [?entry]"
    by (simp add: checkMaintenanceDue_def checkTruck_def alertedRecently_def exampleClock_def
        exampleSentTruck_def exampleTruck_def maintenanceAlertsOf_def oilChangeCheck_def
        inspectionCheck_def oemsInspectionCheck_def brakeChangeCheck_def tireChangeCheck_def
        isAlertClearedRecently_def sevenDaysAgoOf_def orZero_def daysUntil_def dayMs_def
        Let_def)
  have keySet: "''key'' \<noteq> []" by simp
  have sendsOk: "\<forall>r\<in>set recipients. \<not> sendFails (exampleAcceptingChannel (email r))"
    by (simp add: sendFails_def exampleAcceptingChannel_def responseOk_def)
  have filled: "[?entry] \<noteq> []" by simp
  note bypass = test_mode_bypasses_batch_gate_only [OF flag, of exampleClock
      "[exampleSentTruck]" "''key''" exampleAcceptingChannel]
  note tm = bypass [THEN conjunct1]
  note eq = bypass [THEN conjunct2, THEN conjunct1]
  note trigger = bypass [THEN conjunct2, THEN conjunct2, THEN conjunct2, THEN conjunct2,
      THEN mp, OF noPreflight, unfolded test sum.case if_not_P [OF filled]]
  note run = trigger [THEN conjunct2, THEN mp, OF conjI [OF keySet sendsOk]]
  have answer: "response ?test =
       Status200Ok
         \<lparr>okTrucksWithMaintenance = 1, okRecipients = 5,
          okRecipientEmails =
            [''john.browning@lincolnems.com'', ''deathlikesnake6@gmail.com'',
             ''tw4001@aol.com'', ''sergentlatosha@gmail.com'',
             ''charley.egnor@lincolnems.com''],
          okMessageIds =
            [Some ''id-john.browning@lincolnems.com'', Some ''id-deathlikesnake6@gmail.com'',
             Some ''id-tw4001@aol.com'', Some ''id-sergentlatosha@gmail.com'',
             Some ''id-charley.egnor@lincolnems.com''],
          okAccepted =
            [''john.browning@lincolnems.com'', ''deathlikesnake6@gmail.com'',
             ''tw4001@aol.com'', ''sergentlatosha@gmail.com'',
             ''charley.egnor@lincolnems.com''],
          okRejected = []\<rparr>"
    unfolding run
    by (simp add: recipients_def exampleAcceptingChannel_def messageIdOf_def)
  have digests: "set (map html (sentMessages ?test)) = {createMaintenanceEmailHTML [?entry]}"
    unfolding run
    by (simp add: recipients_def sendParamsFor_def)
  have skipped: "response (sendMaintenanceAlert ''key'' exampleAcceptingChannel exampleClock
         exampleRequest [exampleSentTruck]) = Status200NoMaintenance 0"
    using sendMaintenanceAlert_quiet(2) [OF noPreflight', of exampleClock "[exampleSentTruck]"
        "''key''" exampleAcceptingChannel] normal
    unfolding normalMode by simp
  have test': "checkMaintenanceDue (testModeOf exampleTestRequest) exampleClock
      [exampleSentTruck] = Inr [?entry]"
    using tm test by simp
  show ?thesis
    using tm eq normal test' skipped answer digests by (intro conjI)
qed


section \<open>Out-of-service trucks\<close>

text \<open>
  C9. Let every document of the fleet have its three last-service mileages recorded; the
  pass then returns. An out-of-service truck of the fleet is evaluated to some alerts,
  possibly none. When the run is normal and a batch was sent for the truck less than 7
  days before the pass, the truck is not in the batch and no message of the invocation has
  a section for it. In every other case (test mode, no batch sent yet, or the last one 7
  days ago or more), whatever its clearance state, the truck is in the batch with these
  alerts; and when the request is no preflight, the API key is set and every send
  succeeds, the invocation answers 200, every recipient's message carries the truck's
  section, and the truck's document is stamped with the time of the send. The section
  starts with the out-of-service box; with no alert the entry is \<open>alerts = []\<close>,
  \<open>hasOverdue = False\<close> and the section is the box alone.
\<close>

theorem out_of_service_inclusion:
  assumes fleet: "\<forall>t'\<in>set ts. mileagesPresent t'"
    and t: "t \<in> set ts"
    and oos: "status t = OutOfService"
  shows "\<exists>batch as h.
       checkMaintenanceDue (testModeOf req) clk ts = Inr batch
     \<and> maintenanceAlertsOf t (sevenDaysAgoOf (passStart clk))
          (dateRead clk (docId t) ''inspection'') (dateRead clk (docId t) ''oemsInspection'') =
        Inr (as, h)
     \<and> (if \<not> testModeOf req \<and> sentWithinSevenDays t (passStart clk)
         then (\<forall>e\<in>set batch. theTruck e \<noteq> t)
            \<and> (\<forall>p\<in>set (sentMessages (sendMaintenanceAlert mailKey chan clk req ts)).
                  \<forall>s\<in>set (sections (html p)). secTruck s \<noteq> t)
         else \<lparr>theTruck = t, alerts = as, hasOverdue = h\<rparr> \<in> set batch
            \<and> generateTruckMaintenanceHtml t as
                \<in> set (sections (createMaintenanceEmailHTML batch))
            \<and> (reqMethod req \<noteq> ''OPTIONS'' \<and> mailKey \<noteq> []
                \<and> (\<forall>r\<in>set recipients. \<not> sendFails (chan (email r))) \<longrightarrow>
                  sendMaintenanceAlert mailKey chan clk req ts =
                    \<lparr>response = Status200Ok
                       \<lparr>okTrucksWithMaintenance = length batch,
                        okRecipients = length recipients,
                        okRecipientEmails = map email recipients,
                        okMessageIds = map (\<lambda>r. messageIdOf (chan (email r))) recipients,
                        okAccepted = map email recipients,
                        okRejected = []\<rparr>,
                     dbAfter = updateAllLastSent clk batch ts,
                     channelCalls = map (\<lambda>r. (email r, chan (email r))) recipients,
                     sentMessages = map (sendParamsFor mailKey batch) recipients\<rparr>
                \<and> (\<forall>r\<in>set recipients.
                      generateTruckMaintenanceHtml t as
                        \<in> set (sections (html (sendParamsFor mailKey batch r))))
                \<and> (\<forall>d\<in>set (updateAllLastSent clk batch ts).
                      docId d = docId t \<longrightarrow>
                      lastMaintenanceAlertSent d = Some (updateRead clk (docId t)))))
     \<and> secBlocks (generateTruckMaintenanceHtml t as) =
         OutOfServiceBox (reasonOrDefault (outOfServiceReason t)) # map alertLine as
     \<and> (as = [] \<longrightarrow> \<not> h)"
proof -
  let ?s = "sevenDaysAgoOf (passStart clk)"
  let ?tm = "testModeOf req"
  let ?run = "sendMaintenanceAlert mailKey chan clk req ts"
  obtain batch where res: "checkMaintenanceDue ?tm clk ts = Inr batch"
    using checkMaintenanceDue_returns [OF fleet] by blast
  obtain lo lb lt where "lastOilChangeMileage t = Some lo" "lastBrakeChangeMileage t = Some lb"
    "lastTireChangeMileage t = Some lt"
    using fleet t by (auto simp: mileagesPresent_def)
  from maintenanceAlertsOf_returns [OF this]
  obtain as h where run: "maintenanceAlertsOf t ?s
      (dateRead clk (docId t) ''inspection'') (dateRead clk (docId t) ''oemsInspection'') =
      Inr (as, h)"
    by blast
  let ?e = "\<lparr>theTruck = t, alerts = as, hasOverdue = h\<rparr>"
  have gate: "(if \<not> ?tm \<and> sentWithinSevenDays t (passStart clk)
         then (\<forall>e\<in>set batch. theTruck e \<noteq> t)
            \<and> (\<forall>p\<in>set (sentMessages ?run). \<forall>s\<in>set (sections (html p)). secTruck s \<noteq> t)
         else ?e \<in> set batch
            \<and> generateTruckMaintenanceHtml t as
                \<in> set (sections (createMaintenanceEmailHTML batch))
            \<and> (reqMethod req \<noteq> ''OPTIONS'' \<and> mailKey \<noteq> []
                \<and> (\<forall>r\<in>set recipients. \<not> sendFails (chan (email r))) \<longrightarrow>
                  ?run =
                    \<lparr>response = Status200Ok
                       \<lparr>okTrucksWithMaintenance = length batch,
                        okRecipients = length recipients,
                        okRecipientEmails = map email recipients,
                        okMessageIds = map (\<lambda>r. messageIdOf (chan (email r))) recipients,
                        okAccepted = map email recipients,
                        okRejected = []\<rparr>,
                     dbAfter = updateAllLastSent clk batch ts,
                     channelCalls = map (\<lambda>r. (email r, chan (email r))) recipients,
                     sentMessages = map (sendParamsFor mailKey batch) recipients\<rparr>
                \<and> (\<forall>r\<in>set recipients.
                      generateTruckMaintenanceHtml t as
                        \<in> set (sections (html (sendParamsFor mailKey batch r))))
                \<and> (\<forall>d\<in>set (updateAllLastSent clk batch ts).
                      docId d = docId t \<longrightarrow>
                      lastMaintenanceAlertSent d = Some (updateRead clk (docId t)))))"
  proof (cases "\<not> ?tm \<and> sentWithinSevenDays t (passStart clk)")
    case True
    have absent: "theTruck e \<noteq> t" if "e \<in> set batch" for e
    proof
      assume "theTruck e = t"
      then have "checkTruck ?tm clk t = Inr (Some e)"
        using checkMaintenanceDue_entries [OF res that] by simp
      then have "\<not> (\<not> ?tm \<and> alertedRecently t ?s)"
        using checkTruck_Some by blast
      then show False using True by (simp add: alertedRecently_iff)
    qed
    have "secTruck s \<noteq> t"
      if p: "p \<in> set (sentMessages ?run)" and s: "s \<in> set (sections (html p))" for p s
    proof -
      from sentMessages_digest [OF p] res
      have "html p = createMaintenanceEmailHTML batch" by auto
      then obtain e where "e \<in> set batch" "s = generateTruckMaintenanceHtml (theTruck e) (alerts e)"
        using s by (auto simp: createMaintenanceEmailHTML_def)
      then show ?thesis using absent by (simp add: generateTruckMaintenanceHtml_def)
    qed
    then show ?thesis unfolding if_P [OF True] using absent by blast
  next
    case False
    then have "\<not> (\<not> ?tm \<and> alertedRecently t ?s)"
      by (simp add: alertedRecently_iff)
    then have "checkTruck ?tm clk t = Inr (Some ?e)"
      using run oos by (auto simp: checkTruck_def Let_def)
    then have entry: "?e \<in> set batch"
      by (rule checkMaintenanceDue_pushed [OF res t])
    then have "generateTruckMaintenanceHtml (theTruck ?e) (alerts ?e)
        \<in> set (sections (createMaintenanceEmailHTML batch))"
      unfolding createMaintenanceEmailHTML_def by (simp add: rev_image_eqI)
    then have inDigest: "generateTruckMaintenanceHtml t as
        \<in> set (sections (createMaintenanceEmailHTML batch))"
      by simp
    have filled: "batch \<noteq> []" using entry by auto
    have carried: "generateTruckMaintenanceHtml t as
        \<in> set (sections (html (sendParamsFor mailKey batch r)))" for r
      using inDigest by (simp add: sendParamsFor_def)
    have stamped: "lastMaintenanceAlertSent d = Some (updateRead clk (docId t))"
      if d: "d \<in> set (updateAllLastSent clk batch ts)" and same: "docId d = docId t" for d
    proof -
      have member: "docId t \<in> set (map (\<lambda>e. docId (theTruck e)) batch)"
        using entry by (simp add: rev_image_eqI)
      from d obtain d0 where d0: "d0 \<in> set ts"
        and d': "d = (if docId d0 \<in> set (map (\<lambda>e. docId (theTruck e)) batch)
               then d0\<lparr>lastMaintenanceAlertSent := Some (updateRead clk (docId d0))\<rparr>
               else d0)"
        unfolding updateAllLastSent_stamps by auto
      have "docId d = docId d0" unfolding d' by simp
      then have "docId d0 = docId t" using same by simp
      then show ?thesis unfolding d' using member by simp
    qed
    have dispatched: "?run =
                    \<lparr>response = Status200Ok
                       \<lparr>okTrucksWithMaintenance = length batch,
                        okRecipients = length recipients,
                        okRecipientEmails = map email recipients,
                        okMessageIds = map (\<lambda>r. messageIdOf (chan (email r))) recipients,
                        okAccepted = map email recipients,
                        okRejected = []\<rparr>,
                     dbAfter = updateAllLastSent clk batch ts,
                     channelCalls = map (\<lambda>r. (email r, chan (email r))) recipients,
                     sentMessages = map (sendParamsFor mailKey batch) recipients\<rparr>"
      if "reqMethod req \<noteq> ''OPTIONS''" "mailKey \<noteq> []"
        "\<forall>r\<in>set recipients. \<not> sendFails (chan (email r))"
      using sendMaintenanceAlert_delivers [OF that(1) that(2) res filled that(3)] .
    show ?thesis
      unfolding if_not_P [OF False]
      using entry inDigest dispatched carried stamped by (intro conjI impI ballI) simp_all
  qed
  have box: "secBlocks (generateTruckMaintenanceHtml t as) =
      OutOfServiceBox (reasonOrDefault (outOfServiceReason t)) # map alertLine as"
    using oos by (simp add: generateTruckMaintenanceHtml_def)
  have quiet: "as = [] \<longrightarrow> \<not> h"
    using run no_alerts_no_overdue by blast
  show ?thesis
    by (intro exI conjI) (rule res, rule run, rule gate, rule box, rule quiet)
qed


text \<open>
  Unit 57 is out of service and nothing is due for it. With its last batch 8 days old and
  its oil alert cleared yesterday, a normal run sends the five recipients a digest of one
  truck whose section is the out-of-service box, and stamps the document. With its last
  batch sent yesterday, the normal run sends nothing; the test pass includes it with no
  alert.
\<close>

theorem out_of_service_inclusion_witness:
  "response (sendMaintenanceAlert ''key'' exampleAcceptingChannel exampleClock exampleRequest
       [exampleParkedTruck]) =
     Status200Ok
       \<lparr>okTrucksWithMaintenance = 1, okRecipients = 5,
        okRecipientEmails =
          [''john.browning@lincolnems.com'', ''deathlikesnake6@gmail.com'',
           ''tw4001@aol.com'', ''sergentlatosha@gmail.com'',
           ''charley.egnor@lincolnems.com''],
        okMessageIds =
          [Some ''id-john.browning@lincolnems.com'', Some ''id-deathlikesnake6@gmail.com'',
           Some ''id-tw4001@aol.com'', Some ''id-sergentlatosha@gmail.com'',
           Some ''id-charley.egnor@lincolnems.com''],
        okAccepted =
          [''john.browning@lincolnems.com'', ''deathlikesnake6@gmail.com'',
           ''tw4001@aol.com'', ''sergentlatosha@gmail.com'',
           ''charley.egnor@lincolnems.com''],
        okRejected = []\<rparr>
   \<and> set (map html (sentMessages (sendMaintenanceAlert ''key'' exampleAcceptingChannel
         exampleClock exampleRequest [exampleParkedTruck]))) =
       {\<lparr>attentionCount = 1,
         sections = [\<lparr>secTruck = exampleParkedTruck,
                      secBlocks = [OutOfServiceBox ''Transmission'']\<rparr>]\<rparr>}
   \<and> map lastMaintenanceAlertSent (dbAfter (sendMaintenanceAlert ''key''
         exampleAcceptingChannel exampleClock exampleRequest [exampleParkedTruck])) =
       [Some 1767254401000]
   \<and> sendMaintenanceAlert ''key'' exampleAcceptingChannel exampleClock exampleRequest
         [exampleOutOfServiceTruck] =
       \<lparr>response = Status200NoMaintenance 0, dbAfter = [exampleOutOfServiceTruck],
        channelCalls = [], sentMessages = []\<rparr>
   \<and> checkMaintenanceDue True exampleClock [exampleOutOfServiceTruck] =
       Inr [\<lparr>theTruck = exampleOutOfServiceTruck, alerts = [], hasOverdue = False\<rparr>]"
proof -
  let ?t = exampleOutOfServiceTruck
  let ?p = exampleParkedTruck
  let ?s = "sevenDaysAgoOf (passStart exampleClock)"
  let ?sent = "sendMaintenanceAlert ''key'' exampleAcceptingChannel exampleClock exampleRequest
      [?p]"
  let ?skipped = "sendMaintenanceAlert ''key'' exampleAcceptingChannel exampleClock
      exampleRequest [?t]"
  have noPreflight: "reqMethod exampleRequest \<noteq> ''OPTIONS''"
    by (simp add: exampleRequest_def)
  have normalMode: "testModeOf exampleRequest = False"
    by (simp add: exampleRequest_def testModeOf_def)
  have keySet: "''key'' \<noteq> []" by simp
  have sendsOk: "\<forall>r\<in>set recipients. \<not> sendFails (exampleAcceptingChannel (email r))"
    by (simp add: sendFails_def exampleAcceptingChannel_def responseOk_def)

  have fleetP: "\<forall>t'\<in>set [?p]. mileagesPresent t'"
    by (simp add: mileagesPresent_def exampleParkedTruck_def exampleOutOfServiceTruck_def)
  have inP: "?p \<in> set [?p]" by simp
  have oosP: "status ?p = OutOfService"
    by (simp add: exampleParkedTruck_def exampleOutOfServiceTruck_def)
  have reasonP: "outOfServiceReason ?p = Some ''Transmission''"
    by (simp add: exampleParkedTruck_def exampleOutOfServiceTruck_def)
  have idP: "docId ?p = ''t57''"
    by (simp add: exampleParkedTruck_def exampleOutOfServiceTruck_def)
  have openP: "\<not> (\<not> testModeOf exampleRequest \<and> sentWithinSevenDays ?p (passStart exampleClock))"
    by (simp add: sentWithinSevenDays_def exampleParkedTruck_def exampleClock_def dayMs_def)
  have runP: "maintenanceAlertsOf ?p ?s
       (dateRead exampleClock (docId ?p) ''inspection'')
       (dateRead exampleClock (docId ?p) ''oemsInspection'') = Inr ([], False)"
    by (simp add: exampleParkedTruck_def exampleOutOfServiceTruck_def maintenanceAlertsOf_def
        oilChangeCheck_def inspectionCheck_def oemsInspectionCheck_def brakeChangeCheck_def
        tireChangeCheck_def isAlertClearedRecently_def orZero_def Let_def)
  have gateP: "\<not> (\<not> False \<and> alertedRecently ?p ?s)"
    using openP unfolding normalMode by (simp add: alertedRecently_iff)
  have passP: "checkMaintenanceDue False exampleClock [?p] =
      Inr [\<lparr>theTruck = ?p, alerts = [], hasOverdue = False\<rparr>]"
    using runP oosP gateP
    by (simp add: checkMaintenanceDue_Cons checkMaintenanceDue_Nil checkTruck_def Let_def)
  from out_of_service_inclusion [OF fleetP inP oosP, of exampleRequest exampleClock "''key''"
      exampleAcceptingChannel, unfolded if_not_P [OF openP]]
  obtain batch as h where res: "checkMaintenanceDue (testModeOf exampleRequest) exampleClock [?p] =
      Inr batch"
    and dispatch: "reqMethod exampleRequest \<noteq> ''OPTIONS'' \<and> ''key'' \<noteq> []
        \<and> (\<forall>r\<in>set recipients. \<not> sendFails (exampleAcceptingChannel (email r))) \<longrightarrow>
        ?sent =
          \<lparr>response = Status200Ok
             \<lparr>okTrucksWithMaintenance = length batch,
              okRecipients = length recipients,
              okRecipientEmails = map email recipients,
              okMessageIds = map (\<lambda>r. messageIdOf (exampleAcceptingChannel (email r)))
                               recipients,
              okAccepted = map email recipients,
              okRejected = []\<rparr>,
           dbAfter = updateAllLastSent exampleClock batch [?p],
           channelCalls = map (\<lambda>r. (email r, exampleAcceptingChannel (email r))) recipients,
           sentMessages = map (sendParamsFor ''key'' batch) recipients\<rparr>
        \<and> (\<forall>r\<in>set recipients.
              generateTruckMaintenanceHtml ?p as
                \<in> set (sections (html (sendParamsFor ''key'' batch r))))
        \<and> (\<forall>d\<in>set (updateAllLastSent exampleClock batch [?p]).
              docId d = docId ?p \<longrightarrow>
              lastMaintenanceAlertSent d = Some (updateRead exampleClock (docId ?p)))"
    by (elim exE conjE)
  have batch: "batch = [\<lparr>theTruck = ?p, alerts = [], hasOverdue = False\<rparr>]"
    using res passP unfolding normalMode by simp
  note sent = dispatch [THEN mp, OF conjI [OF noPreflight conjI [OF keySet sendsOk]],
      THEN conjunct1, unfolded batch]
  have answer: "response ?sent =
     Status200Ok
       \<lparr>okTrucksWithMaintenance = 1, okRecipients = 5,
        okRecipientEmails =
          [''john.browning@lincolnems.com'', ''deathlikesnake6@gmail.com'',
           ''tw4001@aol.com'', ''sergentlatosha@gmail.com'',
           ''charley.egnor@lincolnems.com''],
        okMessageIds =
          [Some ''id-john.browning@lincolnems.com'', Some ''id-deathlikesnake6@gmail.com'',
           Some ''id-tw4001@aol.com'', Some ''id-sergentlatosha@gmail.com'',
           Some ''id-charley.egnor@lincolnems.com''],
        okAccepted =
          [''john.browning@lincolnems.com'', ''deathlikesnake6@gmail.com'',
           ''tw4001@aol.com'', ''sergentlatosha@gmail.com'',
           ''charley.egnor@lincolnems.com''],
        okRejected = []\<rparr>"
    unfolding sent
    by (simp add: recipients_def exampleAcceptingChannel_def messageIdOf_def)
  have digest: "createMaintenanceEmailHTML [\<lparr>theTruck = ?p, alerts = [], hasOverdue = False\<rparr>] =
      \<lparr>attentionCount = 1,
       sections = [\<lparr>secTruck = ?p, secBlocks = [OutOfServiceBox ''Transmission'']\<rparr>]\<rparr>"
    by (simp add: createMaintenanceEmailHTML_def generateTruckMaintenanceHtml_def oosP reasonP
        reasonOrDefault_def)
  have digests: "set (map html (sentMessages ?sent)) =
       {\<lparr>attentionCount = 1,
         sections = [\<lparr>secTruck = ?p, secBlocks = [OutOfServiceBox ''Transmission'']\<rparr>]\<rparr>}"
    unfolding sent
    by (simp add: recipients_def sendParamsFor_def digest)
  have stamps: "map lastMaintenanceAlertSent (dbAfter ?sent) = [Some 1767254401000]"
    unfolding sent
    by (simp add: updateLastSent_def exampleClock_def)

  have fleet: "\<forall>t'\<in>set [?t]. mileagesPresent t'"
    by (simp add: mileagesPresent_def exampleOutOfServiceTruck_def)
  have t: "?t \<in> set [?t]" by simp
  have oos: "status ?t = OutOfService"
    by (simp add: exampleOutOfServiceTruck_def)
  have closed: "\<not> testModeOf exampleRequest \<and> sentWithinSevenDays ?t (passStart exampleClock)"
    unfolding normalMode
    by (simp add: sentWithinSevenDays_def exampleOutOfServiceTruck_def exampleClock_def
        dayMs_def)
  have run: "maintenanceAlertsOf ?t ?s
       (dateRead exampleClock (docId ?t) ''inspection'')
       (dateRead exampleClock (docId ?t) ''oemsInspection'') = Inr ([], False)"
    by (simp add: exampleOutOfServiceTruck_def maintenanceAlertsOf_def oilChangeCheck_def
        inspectionCheck_def oemsInspectionCheck_def brakeChangeCheck_def tireChangeCheck_def
        isAlertClearedRecently_def orZero_def Let_def)
  from out_of_service_inclusion [OF fleet t oos, of exampleRequest exampleClock "''key''"
      exampleAcceptingChannel, unfolded if_P [OF closed]]
  obtain res where res': "checkMaintenanceDue (testModeOf exampleRequest) exampleClock [?t] =
      Inr res"
    and none: "\<forall>e\<in>set res. theTruck e \<noteq> ?t"
    by (elim exE conjE)
  have empty: "e \<notin> set res" for e
  proof
    assume e: "e \<in> set res"
    have "theTruck e \<in> set [?t]"
      using checkMaintenanceDue_entries [OF res' e] by (rule conjunct1)
    then have "theTruck e = ?t" by simp
    then show False using none e by blast
  qed
  have normal: "res = []"
  proof (cases res)
    case Nil
    then show ?thesis .
  next
    case (Cons a l)
    then have "a \<in> set res" by simp
    then show ?thesis using empty [of a] by simp
  qed
  note skipped = sendMaintenanceAlert_quiet(2) [OF noPreflight res' [unfolded normal],
      of "''key''" exampleAcceptingChannel]
  have test: "checkMaintenanceDue True exampleClock [?t] =
      Inr [\<lparr>theTruck = ?t, alerts = [], hasOverdue = False\<rparr>]"
    using run oos
    by (simp add: checkMaintenanceDue_Cons checkMaintenanceDue_Nil checkTruck_def Let_def)
  show ?thesis
    using answer digests stamps skipped test by (intro conjI)
qed

section \<open>The clearance workflow\<close>

lemma addRecordLoop_created: "addRecordLoop env mk True k coll = (None, coll)"
  by (subst addRecordLoop.simps) simp

lemma addRecordLoop_step:
  "addRecordLoop env mk False k coll =
     (if k < maxRetries then
        (case addDocError env k of
           None \<Rightarrow> (None, coll @ [mk k])
         | Some recordError \<Rightarrow>
             if Suc k \<ge> maxRetries then
               (Some (Error (''Failed to create maintenance record for alert clearing: ''
                               @ recordError)), coll)
             else addRecordLoop env mk False (Suc k) coll)
      else (None, coll))"
  by (subst addRecordLoop.simps) (simp add: addRecordLoop_created split: option.splits)

text \<open>The loop from its start: at most three attempts.\<close>

lemma addRecordLoop_start:
  "addRecordLoop env mk False 0 coll =
     (case addDocError env 0 of
        None \<Rightarrow> (None, coll @ [mk 0])
      | Some e0 \<Rightarrow>
          (case addDocError env 1 of
             None \<Rightarrow> (None, coll @ [mk 1])
           | Some e1 \<Rightarrow>
               (case addDocError env 2 of
                  None \<Rightarrow> (None, coll @ [mk 2])
                | Some e2 \<Rightarrow>
                    (Some (Error (''Failed to create maintenance record for alert clearing: ''
                                    @ e2)), coll))))"
  by (simp add: addRecordLoop_step [of env mk 0] addRecordLoop_step [of env mk "Suc 0"]
      addRecordLoop_step [of env mk "Suc (Suc 0)"] maxRetries_def numeral_2_eq_2
      split: option.splits)

lemma addRecordLoop_result_independent:
  "fst (addRecordLoop env mk False 0 coll) = fst (addRecordLoop env mk' False 0 coll')"
  by (simp add: addRecordLoop_start split: option.splits)

text \<open>What the update of the truck document writes.\<close>

lemma clearMaintenanceAlert_reaches_loop:
  assumes "getDocError env = None" "getDoc st truckId = Some truckData"
    "updateDocError env = None"
  shows "clearMaintenanceAlert env st truckId alertType notes userId =
     (fst (addRecordLoop env
             (dismissalRecord env truckId truckData alertType notes userId) False 0
             (maintenance st)),
      \<lparr>trucks =
         map (\<lambda>d. if docId d = truckId
                   then d\<lparr>alertsCleared :=
                            Some ((case alertsCleared truckData of
                                     None \<Rightarrow> Map.empty | Some m \<Rightarrow> m)
                                  (alertType \<mapsto> clearedAtRead env)),
                          updatedAt := updatedAtRead env,
                          updatedBy := userOrSystem userId\<rparr>
                   else d) (trucks st),
       maintenance =
         snd (addRecordLoop env
                (dismissalRecord env truckId truckData alertType notes userId) False 0
                (maintenance st))\<rparr>)"
  using assms
  by (simp add: clearMaintenanceAlert_def Let_def split: prod.splits)

lemma clearMaintenanceAlert_stops_early:
  assumes "getDocError env \<noteq> None \<or> getDoc st truckId = None \<or> updateDocError env \<noteq> None"
  shows "snd (clearMaintenanceAlert env st truckId alertType notes userId) = st"
    and "fst (clearMaintenanceAlert env st truckId alertType notes userId) \<noteq> None"
  using assms
  by (auto simp: clearMaintenanceAlert_def Let_def split: option.splits)

text \<open>The loop when every attempt fails.\<close>

lemma addRecordLoop_fails:
  assumes "addDocError env 0 \<noteq> None" "addDocError env 1 \<noteq> None"
      "addDocError env 2 \<noteq> None"
  shows "fst (addRecordLoop env mk False 0 coll) \<noteq> None"
    and "snd (addRecordLoop env mk False 0 coll) = coll"
  using assms by (auto simp: addRecordLoop_start split: option.splits)

lemma clearMaintenanceAlert_fails:
  assumes fails: "addDocError env 0 \<noteq> None" "addDocError env 1 \<noteq> None"
      "addDocError env 2 \<noteq> None"
  shows "fst (clearMaintenanceAlert env st truckId alertType justification userId) \<noteq> None"
    and "maintenance (snd (clearMaintenanceAlert env st truckId alertType justification userId)) =
         maintenance st"
proof -
  show "fst (clearMaintenanceAlert env st truckId alertType justification userId) \<noteq> None"
  proof (cases "getDocError env \<noteq> None \<or> getDoc st truckId = None
      \<or> updateDocError env \<noteq> None")
    case True
    then show ?thesis by (rule clearMaintenanceAlert_stops_early(2))
  next
    case False
    then obtain truckData where g: "getDocError env = None" and u: "updateDocError env = None"
      and doc: "getDoc st truckId = Some truckData"
      by auto
    show ?thesis
      by (simp add: clearMaintenanceAlert_reaches_loop [OF g doc u]
          addRecordLoop_fails [OF fails])
  qed
  show "maintenance (snd (clearMaintenanceAlert env st truckId alertType justification userId)) =
         maintenance st"
  proof (cases "getDocError env \<noteq> None \<or> getDoc st truckId = None
      \<or> updateDocError env \<noteq> None")
    case True
    then show ?thesis by (simp add: clearMaintenanceAlert_stops_early(1))
  next
    case False
    then obtain truckData where g: "getDocError env = None" and u: "updateDocError env = None"
      and doc: "getDoc st truckId = Some truckData"
      by auto
    show ?thesis
      by (simp add: clearMaintenanceAlert_reaches_loop [OF g doc u]
          addRecordLoop_fails [OF fails])
  qed
qed

text \<open>The update keeps the ids, so the document is found again afterwards.\<close>

lemma getDoc_after_update:
  assumes "\<And>d. docId (f d) = docId d"
  shows "find (\<lambda>d. docId d = truckId) (map f xs) = map_option f (find (\<lambda>d. docId d = truckId) xs)"
  by (induction xs) (simp_all add: assms)

lemma getDoc_after_failure:
  assumes fails: "addDocError env 0 \<noteq> None" "addDocError env 1 \<noteq> None"
      "addDocError env 2 \<noteq> None"
  shows "getDoc (snd (clearMaintenanceAlert env st truckId alertType justification userId))
           truckId = None \<longleftrightarrow> getDoc st truckId = None"
proof (cases "getDocError env \<noteq> None \<or> getDoc st truckId = None \<or> updateDocError env \<noteq> None")
  case True
  then show ?thesis by (simp add: clearMaintenanceAlert_stops_early(1))
next
  case False
  then obtain truckData where g: "getDocError env = None" and u: "updateDocError env = None"
    and doc: "getDoc st truckId = Some truckData"
    by auto
  let ?f = "\<lambda>d. if docId d = truckId
                   then d\<lparr>alertsCleared :=
                            Some ((case alertsCleared truckData of
                                     None \<Rightarrow> Map.empty | Some m \<Rightarrow> m)
                                  (alertType \<mapsto> clearedAtRead env)),
                          updatedAt := updatedAtRead env,
                          updatedBy := userOrSystem userId\<rparr>
                   else d"
  show ?thesis
    using doc
    by (simp add: clearMaintenanceAlert_reaches_loop [OF g doc u] getDoc_def
        getDoc_after_update [of ?f])
qed

text \<open>
  A call that gets to its update overwrites the three fields that a failed call wrote.
\<close>

lemma repeat_after_failure:
  assumes fails: "addDocError env 0 \<noteq> None" "addDocError env 1 \<noteq> None"
      "addDocError env 2 \<noteq> None"
    and g': "getDocError env' = None" and u': "updateDocError env' = None"
  shows "clearMaintenanceAlert env'
           (snd (clearMaintenanceAlert env st truckId alertType justification userId))
           truckId alertType justification' userId' =
         clearMaintenanceAlert env' st truckId alertType justification' userId'"
proof (cases "getDocError env \<noteq> None \<or> getDoc st truckId = None \<or> updateDocError env \<noteq> None")
  case True
  then show ?thesis
    by (simp add: clearMaintenanceAlert_stops_early(1))
next
  case False
  then obtain truckData where g: "getDocError env = None" and u: "updateDocError env = None"
    and doc: "getDoc st truckId = Some truckData"
    by auto
  let ?cur = "case alertsCleared truckData of None \<Rightarrow> Map.empty | Some m \<Rightarrow> m"
  let ?f = "\<lambda>d. if docId d = truckId
                   then d\<lparr>alertsCleared := Some (?cur(alertType \<mapsto> clearedAtRead env)),
                          updatedAt := updatedAtRead env,
                          updatedBy := userOrSystem userId\<rparr>
                   else d"
  have st1: "snd (clearMaintenanceAlert env st truckId alertType justification userId) =
      \<lparr>trucks = map ?f (trucks st), maintenance = maintenance st\<rparr>"
    by (simp add: clearMaintenanceAlert_reaches_loop [OF g doc u] addRecordLoop_fails [OF fails])
  have id: "docId truckData = truckId"
    using doc by (auto simp: getDoc_def find_Some_iff)
  have doc1: "getDoc \<lparr>trucks = map ?f (trucks st), maintenance = maintenance st\<rparr> truckId =
      Some (?f truckData)"
    using doc by (simp add: getDoc_def getDoc_after_update [of ?f])
  have mk: "dismissalRecord env' truckId (?f truckData) alertType justification' userId' =
      dismissalRecord env' truckId truckData alertType justification' userId'"
    by (rule ext) (simp add: dismissalRecord_def id)
  show ?thesis
    unfolding st1 clearMaintenanceAlert_reaches_loop [OF g' doc1 u']
      clearMaintenanceAlert_reaches_loop [OF g' doc u'] mk
    by (simp add: id cong: if_cong)
qed

lemma getDoc_distinct:
  "distinct (map docId xs) \<Longrightarrow> d \<in> set xs \<Longrightarrow> find (\<lambda>x. docId x = docId d) xs = Some d"
proof (induction xs)
  case Nil
  then show ?case by simp
next
  case (Cons a xs)
  show ?case
  proof (cases "a = d")
    case True
    then show ?thesis by simp
  next
    case False
    then have d: "d \<in> set xs" using Cons.prems(2) by simp
    then have "docId a \<noteq> docId d" using Cons.prems(1) by auto
    then show ?thesis using Cons.IH Cons.prems(1) d by simp
  qed
qed

lemma list_all2_map_same:
  "list_all2 P xs (map f xs) = (\<forall>x\<in>set xs. P x (f x))"
  by (induction xs) auto

section \<open>What a clearance writes\<close>

text \<open>
  C10. Document ids are unique in the collection. After a call of
  \<^verbatim>\<open>clearMaintenanceAlert\<close> that returns normally, the collection has the same
  documents in the same order; every document with another id is unchanged; the document
  of the truck differs from what it was in \<^verbatim>\<open>alertsCleared\<close>, \<^verbatim>\<open>updatedAt\<close> and
  \<^verbatim>\<open>updatedBy\<close> at most, so its mileage, its last-service mileages, its expiry dates and
  its status are what they were; its last-cleared timestamp of the cleared kind is the
  clock read of the call, and its last-cleared timestamp of every other kind is what it
  was.
\<close>

theorem clearance_frame:
  assumes ids: "distinct (map docId (trucks st))"
    and ok: "fst (clearMaintenanceAlert env st truckId alertType notes userId) = None"
  shows "list_all2
      (\<lambda>d d'.
         if docId d \<noteq> truckId then d' = d
         else d' = d\<lparr>alertsCleared := alertsCleared d', updatedAt := updatedAt d',
                     updatedBy := updatedBy d'\<rparr>
            \<and> mileage d' = mileage d \<and> status d' = status d
            \<and> lastOilChangeMileage d' = lastOilChangeMileage d
            \<and> lastBrakeChangeMileage d' = lastBrakeChangeMileage d
            \<and> lastTireChangeMileage d' = lastTireChangeMileage d
            \<and> inspectionStickerExpiry d' = inspectionStickerExpiry d
            \<and> oemsInspectionExpiry d' = oemsInspectionExpiry d
            \<and> clearedAt d' alertType = Some (clearedAtRead env)
            \<and> (\<forall>k. k \<noteq> alertType \<longrightarrow> clearedAt d' k = clearedAt d k))
      (trucks st)
      (trucks (snd (clearMaintenanceAlert env st truckId alertType notes userId)))"
proof -
  have "\<not> (getDocError env \<noteq> None \<or> getDoc st truckId = None \<or> updateDocError env \<noteq> None)"
    using ok clearMaintenanceAlert_stops_early(2) [of env st truckId alertType "notes" userId]
    by blast
  then obtain truckData where g: "getDocError env = None" and u: "updateDocError env = None"
    and doc: "getDoc st truckId = Some truckData"
    by auto
  let ?f = "\<lambda>d. if docId d = truckId
                   then d\<lparr>alertsCleared :=
                            Some ((case alertsCleared truckData of
                                     None \<Rightarrow> Map.empty | Some m \<Rightarrow> m)
                                  (alertType \<mapsto> clearedAtRead env)),
                          updatedAt := updatedAtRead env,
                          updatedBy := userOrSystem userId\<rparr>
                   else d"
  have after: "trucks (snd (clearMaintenanceAlert env st truckId alertType notes userId)) =
      map ?f (trucks st)"
    by (simp add: clearMaintenanceAlert_reaches_loop [OF g doc u])
  have same: "d = truckData" if "d \<in> set (trucks st)" "docId d = truckId" for d
    using getDoc_distinct [OF ids that(1)] doc that(2) by (simp add: getDoc_def)
  show ?thesis
    unfolding after list_all2_map_same
  proof
    fix d assume d: "d \<in> set (trucks st)"
    show "if docId d \<noteq> truckId then ?f d = d
         else ?f d = d\<lparr>alertsCleared := alertsCleared (?f d), updatedAt := updatedAt (?f d),
                     updatedBy := updatedBy (?f d)\<rparr>
            \<and> mileage (?f d) = mileage d \<and> status (?f d) = status d
            \<and> lastOilChangeMileage (?f d) = lastOilChangeMileage d
            \<and> lastBrakeChangeMileage (?f d) = lastBrakeChangeMileage d
            \<and> lastTireChangeMileage (?f d) = lastTireChangeMileage d
            \<and> inspectionStickerExpiry (?f d) = inspectionStickerExpiry d
            \<and> oemsInspectionExpiry (?f d) = oemsInspectionExpiry d
            \<and> clearedAt (?f d) alertType = Some (clearedAtRead env)
            \<and> (\<forall>k. k \<noteq> alertType \<longrightarrow> clearedAt (?f d) k = clearedAt d k)"
    proof (cases "docId d = truckId")
      case True
      then have "d = truckData" using same [OF d] by simp
      then show ?thesis using True
        by (simp add: clearedAt_def split: option.splits)
    next
      case False
      then show ?thesis by simp
    qed
  qed
qed

text \<open>
  Clearing the oil alert of the example truck, whose brake alert was cleared two days
  before: the brake clearance and the mileage stay.
\<close>

theorem clearance_frame_witness:
  "clearedAt (hd (trucks (snd (clearMaintenanceAlert exampleEnv exampleStore ''t52''
       ''oilChange'' (codeUnits ''Oil is still clean'') (Some ''u7''))))) ''brakeChange'' =
     Some 1767081600000
   \<and> clearedAt (hd (trucks (snd (clearMaintenanceAlert exampleEnv exampleStore ''t52''
       ''oilChange'' (codeUnits ''Oil is still clean'') (Some ''u7''))))) ''oilChange'' =
     Some 1767254400000
   \<and> mileage (hd (trucks (snd (clearMaintenanceAlert exampleEnv exampleStore ''t52''
       ''oilChange'' (codeUnits ''Oil is still clean'') (Some ''u7''))))) = 105000"
proof -
  let ?call = "clearMaintenanceAlert exampleEnv exampleStore ''t52'' ''oilChange''
      (codeUnits ''Oil is still clean'') (Some ''u7'')"
  have ids: "distinct (map docId (trucks exampleStore))"
    by (simp add: exampleStore_def)
  have g: "getDocError exampleEnv = None" and u: "updateDocError exampleEnv = None"
    and a: "addDocError exampleEnv 0 = None"
    by (simp_all add: exampleEnv_def)
  have doc: "getDoc exampleStore ''t52'' = Some exampleBrakeClearedTruck"
    by (simp add: getDoc_def exampleStore_def exampleBrakeClearedTruck_def exampleTruck_def)
  have ok: "fst ?call = None"
    by (simp add: clearMaintenanceAlert_reaches_loop [OF g doc u] addRecordLoop_start a)
  have ts: "trucks exampleStore = [exampleBrakeClearedTruck]"
    by (simp add: exampleStore_def)
  note frame = clearance_frame [OF ids ok, unfolded ts]
  then obtain d' where after: "trucks (snd ?call) = [d']"
    by (auto simp: list_all2_Cons1)
  have d: "docId exampleBrakeClearedTruck = ''t52''"
    by (simp add: exampleBrakeClearedTruck_def exampleTruck_def)
  have "clearedAt d' ''brakeChange'' = clearedAt exampleBrakeClearedTruck ''brakeChange''
      \<and> clearedAt d' ''oilChange'' = Some (clearedAtRead exampleEnv)
      \<and> mileage d' = mileage exampleBrakeClearedTruck"
    using frame [unfolded after] d by simp
  then have "clearedAt d' ''brakeChange'' = Some 1767081600000
      \<and> clearedAt d' ''oilChange'' = Some 1767254400000 \<and> mileage d' = 105000"
    by (simp add: clearedAt_def exampleBrakeClearedTruck_def exampleTruck_def exampleEnv_def)
  moreover have "hd (trucks (snd ?call)) = d'"
    by (simp add: after)
  ultimately show ?thesis by simp
qed

section \<open>A clearance whose record cannot be written\<close>

lemma example_doc: "getDoc exampleStore ''t52'' = Some exampleBrakeClearedTruck"
  by (simp add: getDoc_def exampleStore_def exampleBrakeClearedTruck_def exampleTruck_def)

lemma example_log: "maintenance exampleStore = []"
  by (simp add: exampleStore_def)

lemma example_cleared_doc:
  assumes "getDocError env = None" "updateDocError env = None"
  shows "hd (trucks (snd (clearMaintenanceAlert env exampleStore ''t52'' ''oilChange''
           justification (Some ''u7'')))) =
         exampleBrakeClearedTruck
           \<lparr>alertsCleared := Some [''brakeChange'' \<mapsto> 1767081600000,
                                    ''oilChange'' \<mapsto> clearedAtRead env],
            updatedAt := updatedAtRead env, updatedBy := ''u7''\<rparr>"
proof -
  have d: "docId exampleBrakeClearedTruck = ''t52''"
    and c: "alertsCleared exampleBrakeClearedTruck = Some [''brakeChange'' \<mapsto> 1767081600000]"
    by (simp_all add: exampleBrakeClearedTruck_def exampleTruck_def)
  have ts: "trucks exampleStore = [exampleBrakeClearedTruck]"
    by (simp add: exampleStore_def)
  show ?thesis
    by (simp add: clearMaintenanceAlert_reaches_loop [OF assms(1) example_doc assms(2)]
        ts d c userOrSystem_def)
qed

text \<open>
  C1. Let every one of the three attempts of a call of \<^verbatim>\<open>clearMaintenanceAlert\<close>
  to append the maintenance record fail. The call throws: it never reports the clearance
  as done, and the modal that made the call does not close as it does after a success; no
  maintenance record is added. A later call for the same truck and kind, with whatever
  justification and user and whatever the store does then, throws or returns exactly as
  it would on the store that the first call found. When its own read and update of the
  truck document go through, it leaves the store that it would leave from there; when
  they do not, it writes nothing on either store.
\<close>

theorem clearance_atomicity:
  assumes fails: "addDocError env 0 \<noteq> None" "addDocError env 1 \<noteq> None"
      "addDocError env 2 \<noteq> None"
  shows "fst (clearMaintenanceAlert env st truckId alertType justification userId) \<noteq> None
     \<and> fst (handleClearAlert env st truck alertType justification userId) \<noteq> Closed
     \<and> maintenance (snd (clearMaintenanceAlert env st truckId alertType justification userId)) =
         maintenance st
     \<and> fst (clearMaintenanceAlert env'
               (snd (clearMaintenanceAlert env st truckId alertType justification userId))
               truckId alertType justification' userId') =
         fst (clearMaintenanceAlert env' st truckId alertType justification' userId')
     \<and> (if getDocError env' = None \<and> updateDocError env' = None
         then snd (clearMaintenanceAlert env'
                     (snd (clearMaintenanceAlert env st truckId alertType justification userId))
                     truckId alertType justification' userId') =
              snd (clearMaintenanceAlert env' st truckId alertType justification' userId')
         else snd (clearMaintenanceAlert env'
                     (snd (clearMaintenanceAlert env st truckId alertType justification userId))
                     truckId alertType justification' userId') =
              snd (clearMaintenanceAlert env st truckId alertType justification userId)
            \<and> snd (clearMaintenanceAlert env' st truckId alertType justification' userId') =
              st)"
proof -
  let ?st1 = "snd (clearMaintenanceAlert env st truckId alertType justification userId)"
  have thrown: "fst (clearMaintenanceAlert env st truckId alertType justification userId) \<noteq> None"
    by (rule clearMaintenanceAlert_fails(1) [OF fails])
  have modal: "fst (handleClearAlert env st truck alertType justification userId) \<noteq> Closed"
    using clearMaintenanceAlert_fails(1) [OF fails, of st "docId truck" alertType
        "trim justification" userId]
    by (auto simp: handleClearAlert_def split: prod.splits option.splits)
  have log: "maintenance ?st1 = maintenance st"
    by (rule clearMaintenanceAlert_fails(2) [OF fails])
  have again: "clearMaintenanceAlert env' ?st1 truckId alertType justification' userId' =
      clearMaintenanceAlert env' st truckId alertType justification' userId'"
    if "getDocError env' = None" "updateDocError env' = None"
    using repeat_after_failure [OF fails that] .
  have early: "fst (clearMaintenanceAlert env' ?st1 truckId alertType justification' userId') =
        fst (clearMaintenanceAlert env' st truckId alertType justification' userId')
      \<and> snd (clearMaintenanceAlert env' ?st1 truckId alertType justification' userId') = ?st1
      \<and> snd (clearMaintenanceAlert env' st truckId alertType justification' userId') = st"
    if "\<not> (getDocError env' = None \<and> updateDocError env' = None)"
    using that getDoc_after_failure [OF fails, of st truckId alertType justification userId]
    by (auto simp: clearMaintenanceAlert_def Let_def split: option.splits)
  show ?thesis
  proof (cases "getDocError env' = None \<and> updateDocError env' = None")
    case True
    then have "clearMaintenanceAlert env' ?st1 truckId alertType justification' userId' =
        clearMaintenanceAlert env' st truckId alertType justification' userId'"
      using again by blast
    then show ?thesis
      unfolding if_P [OF True] using thrown modal log by simp
  next
    case False
    show ?thesis
      unfolding if_not_P [OF False] using thrown modal log early [OF False] by simp
  qed
qed

text \<open>
  Clearing the oil alert of the example truck while every \<^verbatim>\<open>addDoc\<close> fails: the
  call throws and the modal reports the failure. Clearing again when the store works gives
  the result and the store that it gives without the failed call.
\<close>

theorem clearance_atomicity_witness:
  "fst (clearMaintenanceAlert exampleFailingEnv exampleStore ''t52'' ''oilChange''
          (codeUnits ''Oil is still clean'') (Some ''u7'')) \<noteq> None
   \<and> fst (handleClearAlert exampleFailingEnv exampleStore exampleBrakeClearedTruck
          ''oilChange'' (codeUnits ''Oil is still clean'') (Some ''u7'')) = FailedToClear
   \<and> maintenance (snd (clearMaintenanceAlert exampleFailingEnv exampleStore ''t52''
          ''oilChange'' (codeUnits ''Oil is still clean'') (Some ''u7''))) = []
   \<and> clearMaintenanceAlert exampleEnv
       (snd (clearMaintenanceAlert exampleFailingEnv exampleStore ''t52'' ''oilChange''
               (codeUnits ''Oil is still clean'') (Some ''u7'')))
       ''t52'' ''oilChange'' (codeUnits ''Checked again'') (Some ''u8'') =
     clearMaintenanceAlert exampleEnv exampleStore ''t52'' ''oilChange''
       (codeUnits ''Checked again'') (Some ''u8'')"
proof -
  let ?first = "clearMaintenanceAlert exampleFailingEnv exampleStore ''t52'' ''oilChange''
      (codeUnits ''Oil is still clean'') (Some ''u7'')"
  have fails: "addDocError exampleFailingEnv 0 \<noteq> None" "addDocError exampleFailingEnv 1 \<noteq> None"
      "addDocError exampleFailingEnv 2 \<noteq> None"
    by (simp_all add: exampleFailingEnv_def)
  have writes: "getDocError exampleEnv = None \<and> updateDocError exampleEnv = None"
    by (simp add: exampleEnv_def)
  note atomic = clearance_atomicity [OF fails, of exampleStore "''t52''" "''oilChange''"
      "codeUnits ''Oil is still clean''" "Some ''u7''" exampleBrakeClearedTruck exampleEnv
      "codeUnits ''Checked again''" "Some ''u8''", unfolded if_P [OF writes]]
  have trimmed: "trim (codeUnits ''Oil is still clean'') \<noteq> []"
    by (simp add: trim_def isSpace_def codeUnits_def)
  have "fst (handleClearAlert exampleFailingEnv exampleStore exampleBrakeClearedTruck
          ''oilChange'' (codeUnits ''Oil is still clean'') (Some ''u7'')) \<noteq> NotesRequired"
    using trimmed by (simp add: handleClearAlert_def split: prod.splits option.splits)
  moreover have "fst (handleClearAlert exampleFailingEnv exampleStore exampleBrakeClearedTruck
          ''oilChange'' (codeUnits ''Oil is still clean'') (Some ''u7'')) \<noteq> Closed"
    using atomic by (elim conjE)
  ultimately have modal: "fst (handleClearAlert exampleFailingEnv exampleStore
          exampleBrakeClearedTruck ''oilChange'' (codeUnits ''Oil is still clean'')
          (Some ''u7'')) = FailedToClear"
    by (cases "fst (handleClearAlert exampleFailingEnv exampleStore
          exampleBrakeClearedTruck ''oilChange'' (codeUnits ''Oil is still clean'')
          (Some ''u7''))") simp_all
  have thrown: "fst ?first \<noteq> None" using atomic by (elim conjE)
  have log: "maintenance (snd ?first) = []"
    using atomic example_log by simp
  have again: "clearMaintenanceAlert exampleEnv (snd ?first) ''t52'' ''oilChange''
       (codeUnits ''Checked again'') (Some ''u8'') =
     clearMaintenanceAlert exampleEnv exampleStore ''t52'' ''oilChange''
       (codeUnits ''Checked again'') (Some ''u8'')"
    using atomic by (intro prod_eqI) simp_all
  show ?thesis using thrown modal log again by simp
qed

section \<open>Empty justification\<close>

lemma trim_blank_iff: "trim s = [] \<longleftrightarrow> list_all isSpace s"
proof
  assume "list_all isSpace s"
  then have blank: "dropWhile isSpace s = []"
    by (simp add: list_all_iff dropWhile_eq_Nil_conv)
  show "trim s = []" unfolding trim_def blank by simp
next
  assume "trim s = []"
  then have all: "\<forall>x\<in>set (dropWhile isSpace s). isSpace x"
    by (simp add: trim_def dropWhile_eq_Nil_conv)
  have "dropWhile isSpace s = []"
  proof (rule ccontr)
    assume ne: "dropWhile isSpace s \<noteq> []"
    then have "\<not> isSpace (hd (dropWhile isSpace s))" by (rule hd_dropWhile)
    moreover have "hd (dropWhile isSpace s) \<in> set (dropWhile isSpace s)"
      using ne by (rule hd_in_set)
    ultimately show False using all by blast
  qed
  then show "list_all isSpace s"
    by (simp add: list_all_iff dropWhile_eq_Nil_conv)
qed

lemma clearMaintenanceAlert_ignores_justification:
  "fst (clearMaintenanceAlert env st truckId alertType justification userId) =
     fst (clearMaintenanceAlert env st truckId alertType [] userId)
   \<and> trucks (snd (clearMaintenanceAlert env st truckId alertType justification userId)) =
     trucks (snd (clearMaintenanceAlert env st truckId alertType [] userId))"
proof (cases "getDocError env \<noteq> None \<or> getDoc st truckId = None \<or> updateDocError env \<noteq> None")
  case True
  then show ?thesis
    by (auto simp: clearMaintenanceAlert_def Let_def split: option.splits)
next
  case False
  then obtain truckData where g: "getDocError env = None" and u: "updateDocError env = None"
    and doc: "getDoc st truckId = Some truckData"
    by auto
  show ?thesis
    unfolding clearMaintenanceAlert_reaches_loop [OF g doc u]
    using addRecordLoop_result_independent
      [of env "dismissalRecord env truckId truckData alertType justification userId"
          "maintenance st" "dismissalRecord env truckId truckData alertType [] userId"
          "maintenance st"]
    by simp
qed

text \<open>
  C4, as amended. A justification that is empty or consists of white space only (as
  \<^verbatim>\<open>trim\<close> of JavaScript sees it: the no-break space and the other Unicode
  spaces included) is refused by the caller: the modal shows its notice, does not call the
  workflow, and the store stays as it is; every other justification gets past the notice.
  The workflow itself does not look at the justification: whether the call throws, and
  what it writes to the truck documents, is the same for every justification, the empty
  one included.
\<close>

theorem empty_justification:
  "(list_all isSpace justification \<longrightarrow>
      handleClearAlert env st truck alertType justification uid = (NotesRequired, st))
   \<and> (\<not> list_all isSpace justification \<longrightarrow>
      fst (handleClearAlert env st truck alertType justification uid) \<noteq> NotesRequired)
   \<and> fst (clearMaintenanceAlert env st truckId alertType justification userId) =
       fst (clearMaintenanceAlert env st truckId alertType [] userId)
   \<and> trucks (snd (clearMaintenanceAlert env st truckId alertType justification userId)) =
       trucks (snd (clearMaintenanceAlert env st truckId alertType [] userId))"
  using clearMaintenanceAlert_ignores_justification [of env st truckId alertType justification userId]
  by (simp add: handleClearAlert_def trim_blank_iff split: prod.splits option.splits)

text \<open>
  A space, a no-break space and a tab are refused by the modal; \<^verbatim>\<open>ok\<close> is not.
\<close>

theorem empty_justification_witness:
  "handleClearAlert exampleEnv exampleStore exampleBrakeClearedTruck ''oilChange''
     [0x0020, 0x00A0, 0x0009] (Some ''u7'') = (NotesRequired, exampleStore)
   \<and> fst (handleClearAlert exampleEnv exampleStore exampleBrakeClearedTruck ''oilChange''
     (codeUnits ''ok'') (Some ''u7'')) \<noteq> NotesRequired"
proof -
  have blank: "list_all isSpace [0x0020, 0x00A0, 0x0009]" by (simp add: isSpace_def)
  have worded: "\<not> list_all isSpace (codeUnits ''ok'')" by (simp add: isSpace_def codeUnits_def)
  show ?thesis
    using empty_justification [of "[0x0020, 0x00A0, 0x0009]" exampleEnv exampleStore
        exampleBrakeClearedTruck "''oilChange''" "Some ''u7''"]
      empty_justification [of "codeUnits ''ok''" exampleEnv exampleStore
        exampleBrakeClearedTruck "''oilChange''" "Some ''u7''"] blank worded
    by blast
qed

text \<open>
  The workflow called with the empty justification: it returns normally, the oil alert is
  cleared, and the maintenance record it appends has an empty assessment.
\<close>

theorem empty_justification_counterexample:
  "fst (clearMaintenanceAlert exampleEnv exampleStore ''t52'' ''oilChange'' [] (Some ''u7'')) =
     None
   \<and> clearedAt (hd (trucks (snd (clearMaintenanceAlert exampleEnv exampleStore ''t52''
         ''oilChange'' [] (Some ''u7''))))) ''oilChange'' = Some 1767254400000
   \<and> map recNotes (maintenance (snd (clearMaintenanceAlert exampleEnv exampleStore ''t52''
         ''oilChange'' [] (Some ''u7'')))) =
       [codeUnits
          ''Maintenance alert dismissed without performing work. Mechanic assessment: '']"
proof -
  have g: "getDocError exampleEnv = None" and u: "updateDocError exampleEnv = None"
    and a: "addDocError exampleEnv 0 = None"
    and c: "clearedAtRead exampleEnv = 1767254400000"
    by (simp_all add: exampleEnv_def)
  note after = example_cleared_doc [OF g u, of "[]", unfolded c]
  have cleared: "clearedAt (hd (trucks (snd (clearMaintenanceAlert exampleEnv exampleStore
         ''t52'' ''oilChange'' [] (Some ''u7''))))) ''oilChange'' = Some 1767254400000"
    unfolding after by (simp add: clearedAt_def)
  have ok: "fst (clearMaintenanceAlert exampleEnv exampleStore ''t52'' ''oilChange'' []
         (Some ''u7'')) = None"
    by (simp add: clearMaintenanceAlert_reaches_loop [OF g example_doc u]
        addRecordLoop_start a)
  have log: "map recNotes (maintenance (snd (clearMaintenanceAlert exampleEnv exampleStore
         ''t52'' ''oilChange'' [] (Some ''u7'')))) =
       [codeUnits
          ''Maintenance alert dismissed without performing work. Mechanic assessment: '']"
    by (simp add: clearMaintenanceAlert_reaches_loop [OF g example_doc u]
        addRecordLoop_start a example_log dismissalRecord_def)
  show ?thesis using ok cleared log by simp
qed

end
